theory Spec2Isabelle
  imports Complex_Main "HOL-Library.AList" "HOL-Library.Sublist"
begin

section \<open>Remote catalogue client (src/common/tmdbService.ts)\<close>

subsection \<open>Values handed to the client\<close>

text \<open>
  The optional \<open>body\<close> argument of \<open>fetchTMDB\<close> has the TypeScript type \<open>any\<close>, so it is
  modelled as a JavaScript value. Numbers are integers here; \<open>JUndefined\<close> stands for an
  omitted argument.
\<close>

datatype js_value =
    JUndefined
  | JNull
  | JBool bool
  | JNum int
  | JStr string
  | JBigInt int
  | JArr "js_value list"
  | JObj "(string \<times> js_value) list"

text \<open>JavaScript truthiness, as used by \<open>method === 'POST' && body\<close>.\<close>

fun js_truthy :: "js_value \<Rightarrow> bool" where
  "js_truthy JUndefined = False"
| "js_truthy JNull = False"
| "js_truthy (JBool b) = b"
| "js_truthy (JNum n) = (n \<noteq> 0)"
| "js_truthy (JStr s) = (s \<noteq> [])"
| "js_truthy (JBigInt n) = (n \<noteq> 0)"
| "js_truthy (JArr vs) = True"
| "js_truthy (JObj kvs) = True"

text \<open>
  \<open>JSON.stringify\<close> raises a \<open>TypeError\<close> when it meets a BigInt; every other value of
  this datatype is serialised. The text produced is not modelled: the serialised body is
  kept as the value it was made from.
\<close>

fun serialisable :: "js_value \<Rightarrow> bool" where
  "serialisable (JBigInt n) = False"
| "serialisable (JArr vs) = list_all serialisable vs"
| "serialisable (JObj kvs) = list_all (\<lambda>kv. serialisable (snd kv)) kvs"
| "serialisable v = True"

datatype js_error = TypeError

definition JSON_stringify :: "js_value \<Rightarrow> js_error + js_value" where
  "JSON_stringify v = (if serialisable v then Inr v else Inl TypeError)"

text \<open>
  \<open>process.env\<close> entries: an unset variable is \<open>None\<close>; a variable set to the empty string
  is falsy as well.
\<close>

record tmdb_config =
  TMDB_API_READ_ACCESS_TOKEN :: "string option"
  TMDB_API_KEY_V3 :: "string option"

definition env_truthy :: "string option \<Rightarrow> bool" where
  "env_truthy v = (case v of None \<Rightarrow> False | Some s \<Rightarrow> s \<noteq> [])"

definition env_text :: "string option \<Rightarrow> string" where
  "env_text v = (case v of None \<Rightarrow> [] | Some s \<Rightarrow> s)"

subsection \<open>Requests, responses and the module state\<close>

datatype http_method = GET | POST

datatype param = PStr string | PNum int | PBool bool

text \<open>
  The request as it reaches \<open>fetch\<close>. The URL is kept as its parts (endpoint and query
  parameters); percent-encoding is not modelled.
\<close>

record tmdb_request =
  req_endpoint :: string
  req_params :: "(string \<times> param) list"
  req_authorization :: "string option"
  req_method :: http_method
  req_body :: "js_value option"
  req_content_type_json :: bool

text \<open>
  What \<open>fetch\<close> and \<open>response.json()\<close> can do: the transport fails, or a response
  arrives with a status and a body that does not parse, parses to \<open>null\<close>, or parses to a
  value.
\<close>

datatype 'a json_body = Unparsable | JsonNull | Json 'a

datatype 'a fetch_outcome = TransportError | Response nat "'a json_body"

definition response_ok :: "nat \<Rightarrow> bool" where
  "response_ok status = (200 \<le> status \<and> status \<le> 299)"

datatype log_line =
    MissingCredentials
  | FallbackKeyWarning
  | ApiError nat string
  | UnauthorizedHint
  | NetworkError string
  | MovieGenresCached
  | TvGenresCached

record genre =
  genre_id :: nat
  genre_name :: string

text \<open>
  The state of the module: the two genre caches, and, to observe effects, the requests sent
  so far and the lines written to the console.
\<close>

record tmdb_state =
  requests :: "tmdb_request list"
  console :: "log_line list"
  movieGenreListCache :: "genre list option"
  tvGenreListCache :: "genre list option"

definition log_to :: "log_line \<Rightarrow> tmdb_state \<Rightarrow> tmdb_state" where
  "log_to l st = st\<lparr>console := console st @ [l]\<rparr>"

text \<open>
  The remote source is any function from the requests sent before and the present request to
  an outcome, so that it may answer the same request differently at different times.
\<close>

type_synonym 'a remote = "tmdb_request list \<Rightarrow> tmdb_request \<Rightarrow> 'a fetch_outcome"

text \<open>What \<open>fetchTMDB\<close> returns: \<open>null\<close>, the empty object of the 204 case, or the parsed body.\<close>

datatype 'a tmdb_result = Null | EmptyObject | Value 'a

subsection \<open>fetchTMDB\<close>

text \<open>Lines 35 to 69: the request is assembled before the \<open>try\<close> block is entered.\<close>

definition prepare_request ::
  "tmdb_config \<Rightarrow> string \<Rightarrow> (string \<times> param) list \<Rightarrow> http_method \<Rightarrow> js_value \<Rightarrow> tmdb_state
    \<Rightarrow> (js_error + tmdb_request) \<times> tmdb_state" where
  "prepare_request cfg endpoint params method body st =
    (let req0 = \<lparr>req_endpoint = endpoint, req_params = params, req_authorization = None,
                 req_method = method, req_body = None, req_content_type_json = False\<rparr>;
         (req1, st1) =
           (if env_truthy (TMDB_API_READ_ACCESS_TOKEN cfg)
            then (req0\<lparr>req_authorization :=
                          Some (''Bearer '' @ env_text (TMDB_API_READ_ACCESS_TOKEN cfg))\<rparr>, st)
            else if env_truthy (TMDB_API_KEY_V3 cfg)
            then (req0\<lparr>req_params :=
                          AList.update ''api_key'' (PStr (env_text (TMDB_API_KEY_V3 cfg))) params\<rparr>,
                  log_to FallbackKeyWarning st)
            else (req0, st))
     in if method = POST \<and> js_truthy body
        then (case JSON_stringify body of
                Inl e \<Rightarrow> (Inl e, st1)
              | Inr text \<Rightarrow> (Inr (req1\<lparr>req_body := Some text, req_content_type_json := True\<rparr>), st1))
        else (Inr req1, st1))"

text \<open>
  Lines 78 to 102: what the \<open>try\<close> block does with the outcome of \<open>fetch\<close>. Reading a
  property of \<open>errorData\<close> when the error body parsed to \<open>null\<close> raises inside the block and
  is caught like a transport error.
\<close>

definition handle_outcome ::
  "string \<Rightarrow> 'a fetch_outcome \<Rightarrow> tmdb_state \<Rightarrow> 'a tmdb_result \<times> tmdb_state" where
  "handle_outcome endpoint outcome st =
    (case outcome of
       TransportError \<Rightarrow> (Null, log_to (NetworkError endpoint) st)
     | Response status body \<Rightarrow>
         if \<not> response_ok status
         then (case body of
                 JsonNull \<Rightarrow> (Null, log_to (NetworkError endpoint) st)
               | _ \<Rightarrow> (Null, (if status = 401 then log_to UnauthorizedHint else id)
                               (log_to (ApiError status endpoint) st)))
         else if status = 204 then (EmptyObject, st)
         else (case body of
                 Unparsable \<Rightarrow> (Null, log_to (NetworkError endpoint) st)
               | JsonNull \<Rightarrow> (Null, st)
               | Json v \<Rightarrow> (Value v, st)))"

text \<open>
  Lines 75 to 102: the \<open>try\<close> block, when nothing else runs while it waits. The remote source
  answers from the requests it has seen before this one.
\<close>

definition try_fetch ::
  "'a remote \<Rightarrow> string \<Rightarrow> tmdb_request \<Rightarrow> tmdb_state \<Rightarrow> 'a tmdb_result \<times> tmdb_state" where
  "try_fetch net endpoint req st =
     handle_outcome endpoint (net (requests st) req) (st\<lparr>requests := requests st @ [req]\<rparr>)"

definition fetchTMDB ::
  "tmdb_config \<Rightarrow> 'a remote \<Rightarrow> string \<Rightarrow> (string \<times> param) list \<Rightarrow> http_method \<Rightarrow> js_value
    \<Rightarrow> tmdb_state \<Rightarrow> (js_error + 'a tmdb_result) \<times> tmdb_state" where
  "fetchTMDB cfg net endpoint params method body st =
    (if \<not> env_truthy (TMDB_API_READ_ACCESS_TOKEN cfg) \<and> \<not> env_truthy (TMDB_API_KEY_V3 cfg)
     then (Inr Null, log_to MissingCredentials st)
     else (case prepare_request cfg endpoint params method body st of
             (Inl e, st1) \<Rightarrow> (Inl e, st1)
           | (Inr req, st1) \<Rightarrow>
               (case try_fetch net endpoint req st1 of (r, st2) \<Rightarrow> (Inr r, st2))))"

text \<open>
  \<open>fetchTMDB\<close> is an \<open>async\<close> function: it runs up to \<open>await fetch(url, fetchOptions)\<close> at
  line 76, where the request has been sent, and goes on when the answer arrives; other code
  of the program can run in between. The two halves follow. What is awaited is either
  already settled (the guard of line 30 returned \<open>null\<close>) or in flight, and then it carries
  the outcome the remote source has decided on from the requests it had seen. The second
  \<open>await\<close>, of \<open>response.json()\<close>, lies between two steps that touch only the console, and is
  not a separate half.
\<close>

datatype 'a awaited = Settled "'a tmdb_result" | InFlight string "'a fetch_outcome"

definition fetchTMDB_until_await ::
  "tmdb_config \<Rightarrow> 'a remote \<Rightarrow> string \<Rightarrow> (string \<times> param) list \<Rightarrow> http_method \<Rightarrow> js_value
    \<Rightarrow> tmdb_state \<Rightarrow> (js_error + 'a awaited) \<times> tmdb_state" where
  "fetchTMDB_until_await cfg net endpoint params method body st =
    (if \<not> env_truthy (TMDB_API_READ_ACCESS_TOKEN cfg) \<and> \<not> env_truthy (TMDB_API_KEY_V3 cfg)
     then (Inr (Settled Null), log_to MissingCredentials st)
     else (case prepare_request cfg endpoint params method body st of
             (Inl e, st1) \<Rightarrow> (Inl e, st1)
           | (Inr req, st1) \<Rightarrow>
               (Inr (InFlight endpoint (net (requests st1) req)),
                st1\<lparr>requests := requests st1 @ [req]\<rparr>)))"

definition fetchTMDB_after_await ::
  "'a awaited \<Rightarrow> tmdb_state \<Rightarrow> 'a tmdb_result \<times> tmdb_state" where
  "fetchTMDB_after_await waited st =
    (case waited of
       Settled r \<Rightarrow> (r, st)
     | InFlight endpoint outcome \<Rightarrow> handle_outcome endpoint outcome st)"

subsection \<open>The wrappers\<close>

definition digit_char :: "nat \<Rightarrow> char" where
  "digit_char d = ''0123456789'' ! d"

fun decimal :: "nat \<Rightarrow> string" where
  "decimal n = (if n < 10 then [digit_char n] else decimal (n div 10) @ [digit_char (n mod 10)])"

declare decimal.simps [simp del]

definition append_to_response :: "(string \<times> param) list" where
  "append_to_response =
     [(''append_to_response'', PStr ''credits,reviews,watch/providers,external_ids'')]"

definition getMovieDetails ::
  "tmdb_config \<Rightarrow> 'a remote \<Rightarrow> nat \<Rightarrow> tmdb_state \<Rightarrow> (js_error + 'a tmdb_result) \<times> tmdb_state" where
  "getMovieDetails cfg net movieId st =
     fetchTMDB cfg net (''movie/'' @ decimal movieId) append_to_response GET JUndefined st"

definition getPopularMovies ::
  "tmdb_config \<Rightarrow> 'a remote \<Rightarrow> nat \<Rightarrow> tmdb_state \<Rightarrow> (js_error + 'a tmdb_result) \<times> tmdb_state" where
  "getPopularMovies cfg net page st =
     fetchTMDB cfg net ''movie/popular'' [(''page'', PNum (int page))] GET JUndefined st"

definition searchMovies ::
  "tmdb_config \<Rightarrow> 'a remote \<Rightarrow> string \<Rightarrow> nat \<Rightarrow> nat option \<Rightarrow> tmdb_state
    \<Rightarrow> (js_error + 'a tmdb_result) \<times> tmdb_state" where
  "searchMovies cfg net query page year st =
     fetchTMDB cfg net ''search/movie''
       ([(''query'', PStr query), (''page'', PNum (int page))] @
        (case year of None \<Rightarrow> [] | Some y \<Rightarrow> if y = 0 then [] else [(''year'', PNum (int y))]))
       GET JUndefined st"

definition getMovieRecommendations ::
  "tmdb_config \<Rightarrow> 'a remote \<Rightarrow> nat \<Rightarrow> nat \<Rightarrow> tmdb_state
    \<Rightarrow> (js_error + 'a tmdb_result) \<times> tmdb_state" where
  "getMovieRecommendations cfg net movieId page st =
     fetchTMDB cfg net (''movie/'' @ decimal movieId @ ''/recommendations'')
       [(''page'', PNum (int page))] GET JUndefined st"

definition getTvShowDetails ::
  "tmdb_config \<Rightarrow> 'a remote \<Rightarrow> nat \<Rightarrow> tmdb_state \<Rightarrow> (js_error + 'a tmdb_result) \<times> tmdb_state" where
  "getTvShowDetails cfg net tvId st =
     fetchTMDB cfg net (''tv/'' @ decimal tvId) append_to_response GET JUndefined st"

definition getTvShowSeasonDetails ::
  "tmdb_config \<Rightarrow> 'a remote \<Rightarrow> nat \<Rightarrow> nat \<Rightarrow> tmdb_state
    \<Rightarrow> (js_error + 'a tmdb_result) \<times> tmdb_state" where
  "getTvShowSeasonDetails cfg net tvId seasonNumber st =
     fetchTMDB cfg net (''tv/'' @ decimal tvId @ ''/season/'' @ decimal seasonNumber) []
       GET JUndefined st"

definition getPopularTvShows ::
  "tmdb_config \<Rightarrow> 'a remote \<Rightarrow> nat \<Rightarrow> tmdb_state \<Rightarrow> (js_error + 'a tmdb_result) \<times> tmdb_state" where
  "getPopularTvShows cfg net page st =
     fetchTMDB cfg net ''tv/popular'' [(''page'', PNum (int page))] GET JUndefined st"

definition searchTvShows ::
  "tmdb_config \<Rightarrow> 'a remote \<Rightarrow> string \<Rightarrow> nat \<Rightarrow> nat option \<Rightarrow> tmdb_state
    \<Rightarrow> (js_error + 'a tmdb_result) \<times> tmdb_state" where
  "searchTvShows cfg net query page first_air_date_year st =
     fetchTMDB cfg net ''search/tv''
       ([(''query'', PStr query), (''page'', PNum (int page))] @
        (case first_air_date_year of
           None \<Rightarrow> []
         | Some y \<Rightarrow> if y = 0 then [] else [(''first_air_date_year'', PNum (int y))]))
       GET JUndefined st"

definition getTvShowRecommendations ::
  "tmdb_config \<Rightarrow> 'a remote \<Rightarrow> nat \<Rightarrow> nat \<Rightarrow> tmdb_state
    \<Rightarrow> (js_error + 'a tmdb_result) \<times> tmdb_state" where
  "getTvShowRecommendations cfg net tvId page st =
     fetchTMDB cfg net (''tv/'' @ decimal tvId @ ''/recommendations'')
       [(''page'', PNum (int page))] GET JUndefined st"

definition getMovieWatchProviders ::
  "tmdb_config \<Rightarrow> 'a remote \<Rightarrow> tmdb_state \<Rightarrow> (js_error + 'a tmdb_result) \<times> tmdb_state" where
  "getMovieWatchProviders cfg net st = fetchTMDB cfg net ''watch/providers/movie'' [] GET JUndefined st"

definition getTvWatchProviders ::
  "tmdb_config \<Rightarrow> 'a remote \<Rightarrow> tmdb_state \<Rightarrow> (js_error + 'a tmdb_result) \<times> tmdb_state" where
  "getTvWatchProviders cfg net st = fetchTMDB cfg net ''watch/providers/tv'' [] GET JUndefined st"

subsection \<open>Genre lists\<close>

text \<open>
  The body of the genre endpoints has the declared type \<open>{ genres: Genre[] }\<close>; a missing
  or \<open>null\<close> field is \<open>None\<close>. An array, even an empty one, is truthy.
\<close>

record genre_response =
  genres :: "genre list option"

text \<open>
  \<open>getMovieGenreList\<close>, lines 227 to 237, is \<open>async\<close> as well: it tests the cache (line 229),
  calls \<open>fetchTMDB\<close> and waits (line 230), and stores the list only when it goes on (line
  232). A call that finds the cache filled returns at once; any other is suspended on what
  \<open>fetchTMDB\<close> awaits, and other calls can start before it goes on.
\<close>

datatype genre_call = Returned "genre list" | Suspended "genre_response awaited"

definition getMovieGenreList_until_await ::
  "tmdb_config \<Rightarrow> genre_response remote \<Rightarrow> tmdb_state \<Rightarrow> (js_error + genre_call) \<times> tmdb_state" where
  "getMovieGenreList_until_await cfg net st =
    (case movieGenreListCache st of
       Some cached \<Rightarrow> (Inr (Returned cached), st)
     | None \<Rightarrow>
        (case fetchTMDB_until_await cfg net ''genre/movie/list'' [] GET JUndefined st of
           (Inl e, st') \<Rightarrow> (Inl e, st')
         | (Inr waited, st') \<Rightarrow> (Inr (Suspended waited), st')))"

definition getMovieGenreList_after_await ::
  "genre_response awaited \<Rightarrow> tmdb_state \<Rightarrow> genre list \<times> tmdb_state" where
  "getMovieGenreList_after_await waited st =
    (case fetchTMDB_after_await waited st of
       (Value response, st') \<Rightarrow>
         (case genres response of
            Some gs \<Rightarrow> (gs, log_to MovieGenresCached (st'\<lparr>movieGenreListCache := Some gs\<rparr>))
          | None \<Rightarrow> ([], st'))
     | (other, st') \<Rightarrow> ([], st'))"

text \<open>A call of \<open>getMovieGenreList\<close> during which nothing else runs: the two halves in a row.\<close>

definition getMovieGenreList ::
  "tmdb_config \<Rightarrow> genre_response remote \<Rightarrow> tmdb_state \<Rightarrow> (js_error + genre list) \<times> tmdb_state" where
  "getMovieGenreList cfg net st =
    (case getMovieGenreList_until_await cfg net st of
       (Inl e, st') \<Rightarrow> (Inl e, st')
     | (Inr (Returned cached), st') \<Rightarrow> (Inr cached, st')
     | (Inr (Suspended waited), st') \<Rightarrow>
         (case getMovieGenreList_after_await waited st' of (gs, st'') \<Rightarrow> (Inr gs, st'')))"

text \<open>\<open>getTvShowGenreList\<close>, lines 239 to 249, in the same way.\<close>

definition getTvShowGenreList_until_await ::
  "tmdb_config \<Rightarrow> genre_response remote \<Rightarrow> tmdb_state \<Rightarrow> (js_error + genre_call) \<times> tmdb_state" where
  "getTvShowGenreList_until_await cfg net st =
    (case tvGenreListCache st of
       Some cached \<Rightarrow> (Inr (Returned cached), st)
     | None \<Rightarrow>
        (case fetchTMDB_until_await cfg net ''genre/tv/list'' [] GET JUndefined st of
           (Inl e, st') \<Rightarrow> (Inl e, st')
         | (Inr waited, st') \<Rightarrow> (Inr (Suspended waited), st')))"

definition getTvShowGenreList_after_await ::
  "genre_response awaited \<Rightarrow> tmdb_state \<Rightarrow> genre list \<times> tmdb_state" where
  "getTvShowGenreList_after_await waited st =
    (case fetchTMDB_after_await waited st of
       (Value response, st') \<Rightarrow>
         (case genres response of
            Some gs \<Rightarrow> (gs, log_to TvGenresCached (st'\<lparr>tvGenreListCache := Some gs\<rparr>))
          | None \<Rightarrow> ([], st'))
     | (other, st') \<Rightarrow> ([], st'))"

definition getTvShowGenreList ::
  "tmdb_config \<Rightarrow> genre_response remote \<Rightarrow> tmdb_state \<Rightarrow> (js_error + genre list) \<times> tmdb_state" where
  "getTvShowGenreList cfg net st =
    (case getTvShowGenreList_until_await cfg net st of
       (Inl e, st') \<Rightarrow> (Inl e, st')
     | (Inr (Returned cached), st') \<Rightarrow> (Inr cached, st')
     | (Inr (Suspended waited), st') \<Rightarrow>
         (case getTvShowGenreList_after_await waited st' of (gs, st'') \<Rightarrow> (Inr gs, st'')))"

text \<open>
  \<open>genre_ids.map(id => fullGenreList.find(g => g.id === id)).filter(g => g !== undefined)\<close>:
  \<open>find\<close> gives the first genre with the id, or \<open>undefined\<close> (\<open>None\<close>).
\<close>

definition resolve_genre_ids :: "genre list \<Rightarrow> nat list \<Rightarrow> genre list" where
  "resolve_genre_ids fullGenreList genre_ids =
     map the (filter (\<lambda>g. g \<noteq> None)
                (map (\<lambda>i. find (\<lambda>g. genre_id g = i) fullGenreList) genre_ids))"

text \<open>
  Lines 251 to 257 and 259 to 265. Each function awaits the genre function of its kind; the
  call is one during which nothing else runs, and the list mapped over is the one it returns.
\<close>

definition mapMovieGenreIdsToObjects ::
  "tmdb_config \<Rightarrow> genre_response remote \<Rightarrow> nat list option \<Rightarrow> tmdb_state
    \<Rightarrow> (js_error + genre list) \<times> tmdb_state" where
  "mapMovieGenreIdsToObjects cfg net genre_ids st =
    (case genre_ids of
       None \<Rightarrow> (Inr [], st)
     | Some ids \<Rightarrow>
         if length ids = 0 then (Inr [], st)
         else (case getMovieGenreList cfg net st of
                 (Inl e, st') \<Rightarrow> (Inl e, st')
               | (Inr fullGenreList, st') \<Rightarrow> (Inr (resolve_genre_ids fullGenreList ids), st')))"

definition mapTvGenreIdsToObjects ::
  "tmdb_config \<Rightarrow> genre_response remote \<Rightarrow> nat list option \<Rightarrow> tmdb_state
    \<Rightarrow> (js_error + genre list) \<times> tmdb_state" where
  "mapTvGenreIdsToObjects cfg net genre_ids st =
    (case genre_ids of
       None \<Rightarrow> (Inr [], st)
     | Some ids \<Rightarrow>
         if length ids = 0 then (Inr [], st)
         else (case getTvShowGenreList cfg net st of
                 (Inl e, st') \<Rightarrow> (Inl e, st')
               | (Inr fullGenreList, st') \<Rightarrow> (Inr (resolve_genre_ids fullGenreList ids), st')))"

subsection \<open>Program start (src/index.ts)\<close>

text \<open>
  \<open>main\<close> runs the start-up routines in order and then the main menu; none of them is in
  the sources, so each is a step that returns or raises, as a function of the configured
  credentials says. A raising step is caught by \<open>main().catch\<close>, which closes the database
  when it can get it and exits with status 1.
\<close>

datatype startup_step =
    InitDB
  | SeedInitialGenericUsers
  | SeedInitialRestaurantPreferences
  | SeedInitialMoviePreferences
  | SeedInitialTvShowPreferences
  | RunMainCLI
  | GetDB
  | CloseDB

datatype exit_status = ShutDownGracefully | Exit1

fun run_steps :: "(startup_step \<Rightarrow> bool) \<Rightarrow> startup_step list \<Rightarrow> startup_step list \<times> bool" where
  "run_steps returns [] = ([], True)"
| "run_steps returns (s # steps) =
     (if returns s
      then (case run_steps returns steps of (done, ok) \<Rightarrow> (s # done, ok))
      else ([s], False))"

definition main_steps :: "startup_step list" where
  "main_steps =
     [InitDB, SeedInitialGenericUsers, SeedInitialRestaurantPreferences,
      SeedInitialMoviePreferences, SeedInitialTvShowPreferences, RunMainCLI, GetDB, CloseDB]"

definition main ::
  "tmdb_config \<Rightarrow> (tmdb_config \<Rightarrow> startup_step \<Rightarrow> bool) \<Rightarrow> exit_status \<times> startup_step list" where
  "main cfg returns =
     (case run_steps (returns cfg) main_steps of
        (done, True) \<Rightarrow> (ShutDownGracefully, done)
      | (done, False) \<Rightarrow> (Exit1, done @ fst (run_steps (returns cfg) [GetDB, CloseDB])))"

section \<open>Movie menu (src/cli/movie.ts)\<close>

subsection \<open>Strings\<close>

text \<open>
  A character of a \<open>string\<close> has eight bits; it is read as the UTF-16 code unit of the same
  number, so the strings here are the JavaScript strings of code units below 256. Among
  these, \<open>String.prototype.trim\<close> strips the white space and line terminators U+0009 to
  U+000D, U+0020 and U+00A0, and \<open>toLowerCase\<close> maps the letters A to Z and the capital
  letters U+00C0 to U+00DE (U+00D7, the multiplication sign, is none). Answers holding
  other code units are outside the model; the menu compares what it reads with ASCII digits
  and letters only.
\<close>

definition isSpace :: "char \<Rightarrow> bool" where
  "isSpace c =
     (c \<in> set [CHR 0x09, CHR 0x0A, CHR 0x0B, CHR 0x0C, CHR 0x0D, CHR '' '', CHR 0xA0])"

definition trim :: "string \<Rightarrow> string" where
  "trim s = rev (dropWhile isSpace (rev (dropWhile isSpace s)))"

definition lower_char :: "char \<Rightarrow> char" where
  "lower_char c =
     (case map_of
        (zip (''ABCDEFGHIJKLMNOPQRSTUVWXYZ'' @
        [CHR 0xC0, CHR 0xC1, CHR 0xC2, CHR 0xC3, CHR 0xC4, CHR 0xC5, CHR 0xC6, CHR 0xC7,
         CHR 0xC8, CHR 0xC9, CHR 0xCA, CHR 0xCB, CHR 0xCC, CHR 0xCD, CHR 0xCE, CHR 0xCF,
         CHR 0xD0, CHR 0xD1, CHR 0xD2, CHR 0xD3, CHR 0xD4, CHR 0xD5, CHR 0xD6, CHR 0xD8,
         CHR 0xD9, CHR 0xDA, CHR 0xDB, CHR 0xDC, CHR 0xDD, CHR 0xDE])
             (''abcdefghijklmnopqrstuvwxyz'' @
        [CHR 0xE0, CHR 0xE1, CHR 0xE2, CHR 0xE3, CHR 0xE4, CHR 0xE5, CHR 0xE6, CHR 0xE7,
         CHR 0xE8, CHR 0xE9, CHR 0xEA, CHR 0xEB, CHR 0xEC, CHR 0xED, CHR 0xEE, CHR 0xEF,
         CHR 0xF0, CHR 0xF1, CHR 0xF2, CHR 0xF3, CHR 0xF4, CHR 0xF5, CHR 0xF6, CHR 0xF8,
         CHR 0xF9, CHR 0xFA, CHR 0xFB, CHR 0xFC, CHR 0xFD, CHR 0xFE])) c of
        Some d \<Rightarrow> d
      | None \<Rightarrow> c)"

definition toLowerCase :: "string \<Rightarrow> string" where
  "toLowerCase s = map lower_char s"

subsection \<open>Data and collaborators\<close>

record user =
  user_id :: nat
  user_name :: string

text \<open>
  \<open>Movie\<close> (our stored record) and \<open>TMDBMovie\<close> (the remote one), with the fields the menu
  branches on. In JavaScript a number is falsy when it is 0, so \<open>!movie.id\<close> is
  \<open>movie_id m = 0\<close>.
\<close>

record movie =
  movie_id :: nat
  tmdb_id :: nat
  title :: string

record tmdb_movie =
  tm_id :: nat
  tm_title :: string

text \<open>
  The modules the menu imports (\<open>db/movieDb\<close>, \<open>movies/recommender\<close>, the remote client)
  are collaborators: any functions over a state \<open>'w\<close> of the world outside the menu (the
  database and the remote source). Reads leave the world as it is. \<open>parseInt\<close> is the
  JavaScript built-in; \<open>None\<close> is \<open>NaN\<close>.
\<close>

record 'w movie_env =
  getMovieRecommendationsForUser :: "user \<Rightarrow> nat set \<Rightarrow> 'w \<Rightarrow> movie list \<times> 'w"
  getTMDBMovieDetails :: "nat \<Rightarrow> 'w \<Rightarrow> tmdb_movie option \<times> 'w"
  searchTMDBMovies :: "string \<Rightarrow> 'w \<Rightarrow> tmdb_movie list option \<times> 'w"
  fetchMovieGenreList :: "'w \<Rightarrow> 'w"
  saveMovie :: "tmdb_movie \<Rightarrow> 'w \<Rightarrow> movie option \<times> 'w"
  saveUserMovieRating :: "nat \<Rightarrow> nat \<Rightarrow> nat \<Rightarrow> 'w \<Rightarrow> 'w"
  saveUserMoviePreferences :: "nat \<Rightarrow> string list \<Rightarrow> 'w \<Rightarrow> 'w"
  getRatedMovieIdsByUser :: "nat \<Rightarrow> 'w \<Rightarrow> nat list"
  getMovieByOurId :: "nat \<Rightarrow> 'w \<Rightarrow> movie option"
  parseInt :: "string \<Rightarrow> int option"

datatype interaction = Liked | Disliked | Skipped | Quit

text \<open>What the session does that can be observed from outside.\<close>

datatype cli_event =
    SessionStarted
  | MenuShown
  | RecommendationsFetched "movie list"
  | NoRecommendationsAvailable
  | SkippedInvalidMovie
  | Recommended movie
  | SavedRating nat movie nat
  | Excluded nat
  | InvalidAction
  | ReturningToMenu
  | FinishedList
  | InvalidOption
  | SessionEnded

text \<open>
  The state the menu threads: the world, the set \<open>sessionPersistentExcludeTmdbIds\<close> (which
  \<open>presentMovieRecommendationsOneByOne\<close> receives by reference as
  \<open>persistentExcludeTmdbIds\<close>), and a journal that keeps every event with the value the set
  had when the event happened.
\<close>

record 'w cli_state =
  world :: 'w
  persistentExcludeTmdbIds :: "nat set"
  journal :: "(cli_event \<times> nat set) list"

definition emit :: "cli_event \<Rightarrow> 'w cli_state \<Rightarrow> 'w cli_state" where
  "emit e st = st\<lparr>journal := journal st @ [(e, persistentExcludeTmdbIds st)]\<rparr>"

text \<open>
  \<open>rate env userId m r\<close> is \<open>await saveUserMovieRating(userId, m.id, r)\<close>; the event keeps
  the movie whose id was passed.
\<close>

definition rate :: "'w movie_env \<Rightarrow> nat \<Rightarrow> movie \<Rightarrow> nat \<Rightarrow> 'w cli_state \<Rightarrow> 'w cli_state" where
  "rate env userId m r st =
     emit (SavedRating userId m r)
       (st\<lparr>world := saveUserMovieRating env userId (movie_id m) r (world st)\<rparr>)"

text \<open>\<open>exclude t\<close> is \<open>persistentExcludeTmdbIds.add(t)\<close>.\<close>

definition exclude :: "nat \<Rightarrow> 'w cli_state \<Rightarrow> 'w cli_state" where
  "exclude t st =
     emit (Excluded t) (st\<lparr>persistentExcludeTmdbIds := insert t (persistentExcludeTmdbIds st)\<rparr>)"

subsection \<open>viewAndInteractWithMovieDetails\<close>

text \<open>
  The answers the user will type are a list; a prompt takes the first. With no answer left
  the prompt never resolves: the result is \<open>None\<close> and the state is the one reached.
  The loop after the details, lines 92 to 109:
\<close>

fun detailsActionLoop ::
  "'w movie_env \<Rightarrow> user \<Rightarrow> movie \<Rightarrow> string list \<Rightarrow> 'w cli_state
    \<Rightarrow> interaction option \<times> string list \<times> 'w cli_state" where
  "detailsActionLoop env currentUser movieToView [] st = (None, [], st)"
| "detailsActionLoop env currentUser movieToView (a # answers) st =
    (let action = toLowerCase a
     in if action = ''l''
        then (Some Liked, answers, rate env (user_id currentUser) movieToView 5 st)
        else if action = ''d''
        then (Some Disliked, answers, rate env (user_id currentUser) movieToView 1 st)
        else if action = ''n'' then (Some Skipped, answers, st)
        else if action = ''q'' then (Some Quit, answers, st)
        else detailsActionLoop env currentUser movieToView answers (emit InvalidAction st))"

text \<open>
  Lines 40 to 89 fetch the details, store them when they arrived, and print; what is printed
  is not modelled.
\<close>

definition viewAndInteractWithMovieDetails ::
  "'w movie_env \<Rightarrow> movie \<Rightarrow> user \<Rightarrow> string list \<Rightarrow> 'w cli_state
    \<Rightarrow> interaction option \<times> string list \<times> 'w cli_state" where
  "viewAndInteractWithMovieDetails env movieToView currentUser answers st =
    (let (tmdbDetails, w1) = getTMDBMovieDetails env (tmdb_id movieToView) (world st);
         w2 = (case tmdbDetails of None \<Rightarrow> w1 | Some d \<Rightarrow> snd (saveMovie env d w1))
     in detailsActionLoop env currentUser movieToView answers (st\<lparr>world := w2\<rparr>))"

subsection \<open>presentMovieRecommendationsOneByOne\<close>

text \<open>The labelled loop \<open>interactionLoop\<close>, lines 151 to 182.\<close>

fun interactionLoop ::
  "'w movie_env \<Rightarrow> user \<Rightarrow> movie \<Rightarrow> string list \<Rightarrow> 'w cli_state
    \<Rightarrow> interaction option \<times> string list \<times> 'w cli_state" where
  "interactionLoop env currentUser m [] st = (None, [], st)"
| "interactionLoop env currentUser m (a # answers) st =
    (let action = toLowerCase a
     in if action = ''l''
        then (Some Liked, answers,
              exclude (tmdb_id m) (rate env (user_id currentUser) m 5 st))
        else if action = ''d''
        then (Some Disliked, answers,
              exclude (tmdb_id m) (rate env (user_id currentUser) m 1 st))
        else if action = ''v''
        then (case viewAndInteractWithMovieDetails env m currentUser answers st of
                (None, rest, st') \<Rightarrow> (None, rest, st')
              | (Some interactionResult, rest, st') \<Rightarrow>
                  (Some interactionResult, rest,
                   if interactionResult = Liked \<or> interactionResult = Disliked
                   then exclude (tmdb_id m) st' else st'))
        else if action = ''n'' then (Some Skipped, answers, st)
        else if action = ''q'' then (Some Quit, answers, st)
        else interactionLoop env currentUser m answers (emit InvalidAction st))"

text \<open>
  The loop over \<open>currentRecommendationQueue\<close>, lines 132 to 194; \<open>shown\<close> is
  \<open>sessionShownTmdbIds\<close>. The result \<open>Some ()\<close> is the function returning.
\<close>

fun presentLoop ::
  "'w movie_env \<Rightarrow> user \<Rightarrow> movie list \<Rightarrow> nat set \<Rightarrow> string list \<Rightarrow> 'w cli_state
    \<Rightarrow> unit option \<times> string list \<times> 'w cli_state" where
  "presentLoop env currentUser [] shown answers st = (Some (), answers, emit FinishedList st)"
| "presentLoop env currentUser (m # queue) shown answers st =
    (if movie_id m = 0 \<or> tmdb_id m = 0
     then presentLoop env currentUser queue shown answers (emit SkippedInvalidMovie st)
     else if tmdb_id m \<in> persistentExcludeTmdbIds st \<or> tmdb_id m \<in> shown
     then presentLoop env currentUser queue shown answers st
     else (case interactionLoop env currentUser m answers (emit (Recommended m) st) of
             (None, rest, st') \<Rightarrow> (None, rest, st')
           | (Some interactionResult, rest, st') \<Rightarrow>
               if interactionResult = Quit then (Some (), rest, emit ReturningToMenu st')
               else presentLoop env currentUser queue (insert (tmdb_id m) shown) rest st'))"

definition presentMovieRecommendationsOneByOne ::
  "'w movie_env \<Rightarrow> user \<Rightarrow> movie list \<Rightarrow> string list \<Rightarrow> 'w cli_state
    \<Rightarrow> unit option \<times> string list \<times> 'w cli_state" where
  "presentMovieRecommendationsOneByOne env currentUser initialRecommendations answers st =
    (if length initialRecommendations = 0
     then (Some (), answers, emit NoRecommendationsAvailable st)
     else presentLoop env currentUser initialRecommendations {} answers st)"

subsection \<open>searchAndSelectMovie\<close>

text \<open>
  The selection loop, lines 220 to 229. The inner \<open>None\<close> is the function's \<open>null\<close>.
\<close>

fun selectLoop ::
  "(string \<Rightarrow> int option) \<Rightarrow> tmdb_movie list \<Rightarrow> string list
    \<Rightarrow> tmdb_movie option option \<times> string list" where
  "selectLoop parse displayableResults [] = (None, [])"
| "selectLoop parse displayableResults (c # answers) =
    (let choice = trim c
     in if choice = ''0'' then (Some None, answers)
        else (case parse choice of
                None \<Rightarrow> selectLoop parse displayableResults answers
              | Some parsedChoice \<Rightarrow>
                  if 1 \<le> parsedChoice \<and> parsedChoice \<le> int (length displayableResults)
                  then (Some (Some (displayableResults ! nat (parsedChoice - 1))), answers)
                  else selectLoop parse displayableResults answers))"

definition searchAndSelectMovie ::
  "'w movie_env \<Rightarrow> string list \<Rightarrow> 'w cli_state
    \<Rightarrow> tmdb_movie option option \<times> string list \<times> 'w cli_state" where
  "searchAndSelectMovie env answers st =
    (case answers of
       [] \<Rightarrow> (None, [], st)
     | q # answers1 \<Rightarrow>
         let query = trim q
         in if query = [] then (Some None, answers1, st)
            else (let (searchResults, w1) = searchTMDBMovies env query (world st);
                      st1 = st\<lparr>world := w1\<rparr>
                  in case searchResults of
                       None \<Rightarrow> (Some None, answers1, st1)
                     | Some results \<Rightarrow>
                         if length results = 0 then (Some None, answers1, st1)
                         else (case selectLoop (parseInt env) (take 10 results) answers1 of
                                 (selected, answers2) \<Rightarrow> (selected, answers2, st1))))"

subsection \<open>manageMoviePreferences\<close>

text \<open>
  Eight prompts, then the preferences are stored. The record built from the answers is not
  modelled (it never reaches the exclusion set): the store receives the trimmed answers.
\<close>

definition manageMoviePreferences ::
  "'w movie_env \<Rightarrow> nat \<Rightarrow> string list \<Rightarrow> 'w cli_state \<Rightarrow> unit option \<times> string list \<times> 'w cli_state" where
  "manageMoviePreferences env userId answers st =
    (let st1 = st\<lparr>world := fetchMovieGenreList env (world st)\<rparr>
     in if length answers < 8 then (None, [], st1)
        else (Some (), drop 8 answers,
              st1\<lparr>world := saveUserMoviePreferences env userId (map trim (take 8 answers)) (world st1)\<rparr>))"

subsection \<open>runMovieCLI\<close>

text \<open>The cases of the menu's \<open>switch\<close>, lines 307 to 360.\<close>

definition menuRecommend ::
  "'w movie_env \<Rightarrow> user \<Rightarrow> string list \<Rightarrow> 'w cli_state \<Rightarrow> unit option \<times> string list \<times> 'w cli_state" where
  "menuRecommend env currentUser answers st =
    (let (recommendations, w1) =
           getMovieRecommendationsForUser env currentUser (persistentExcludeTmdbIds st) (world st)
     in presentMovieRecommendationsOneByOne env currentUser recommendations answers
          (emit (RecommendationsFetched recommendations) (st\<lparr>world := w1\<rparr>)))"

definition menuRate ::
  "'w movie_env \<Rightarrow> user \<Rightarrow> string list \<Rightarrow> 'w cli_state \<Rightarrow> unit option \<times> string list \<times> 'w cli_state" where
  "menuRate env currentUser answers st =
    (case searchAndSelectMovie env answers st of
       (None, answers1, st1) \<Rightarrow> (None, answers1, st1)
     | (Some None, answers1, st1) \<Rightarrow> (Some (), answers1, st1)
     | (Some (Some tmdbMovieFromSearch), answers1, st1) \<Rightarrow>
         (let (detailedTmdbMovieData, w2) =
                getTMDBMovieDetails env (tm_id tmdbMovieFromSearch) (world st1)
          in case detailedTmdbMovieData of
               None \<Rightarrow> (Some (), answers1, st1\<lparr>world := w2\<rparr>)
             | Some d \<Rightarrow>
                 (let (movieInDb, w3) = saveMovie env d w2;
                      st3 = st1\<lparr>world := w3\<rparr>
                  in case movieInDb of
                       None \<Rightarrow> (Some (), answers1, st3)
                     | Some m \<Rightarrow>
                         (case answers1 of
                            [] \<Rightarrow> (None, [], st3)
                          | ratingStr # answers2 \<Rightarrow>
                              (case parseInt env (trim ratingStr) of
                                 None \<Rightarrow> (Some (), answers2, st3)
                               | Some rating \<Rightarrow>
                                   if 1 \<le> rating \<and> rating \<le> 5
                                   then (Some (), answers2,
                                         exclude (tmdb_id m)
                                           (rate env (user_id currentUser) m (nat rating) st3))
                                   else (Some (), answers2, st3))))))"

definition menuDetails ::
  "'w movie_env \<Rightarrow> user \<Rightarrow> string list \<Rightarrow> 'w cli_state \<Rightarrow> unit option \<times> string list \<times> 'w cli_state" where
  "menuDetails env currentUser answers st =
    (case searchAndSelectMovie env answers st of
       (None, answers1, st1) \<Rightarrow> (None, answers1, st1)
     | (Some None, answers1, st1) \<Rightarrow> (Some (), answers1, st1)
     | (Some (Some tmdbMovieFromSearch), answers1, st1) \<Rightarrow>
         (let (detailedTmdbData, w2) =
                getTMDBMovieDetails env (tm_id tmdbMovieFromSearch) (world st1)
          in case detailedTmdbData of
               None \<Rightarrow> (Some (), answers1, st1\<lparr>world := w2\<rparr>)
             | Some d \<Rightarrow>
                 (let (movieToViewDetails, w3) = saveMovie env d w2;
                      st3 = st1\<lparr>world := w3\<rparr>
                  in case movieToViewDetails of
                       None \<Rightarrow> (Some (), answers1, st3)
                     | Some m \<Rightarrow>
                         (case viewAndInteractWithMovieDetails env m currentUser answers1 st3 of
                            (None, answers2, st4) \<Rightarrow> (None, answers2, st4)
                          | (Some interaction, answers2, st4) \<Rightarrow>
                              (Some (), answers2,
                               if interaction = Liked \<or> interaction = Disliked
                               then exclude (tmdb_id m) st4 else st4)))))"

text \<open>
  One pass of the menu for a choice other than \<open>0\<close>. The flag says whether the choice was one
  of the menu's.
\<close>

definition menuCase ::
  "'w movie_env \<Rightarrow> user \<Rightarrow> string \<Rightarrow> string list \<Rightarrow> 'w cli_state
    \<Rightarrow> unit option \<times> string list \<times> 'w cli_state" where
  "menuCase env currentUser choice answers st =
    (if choice = ''1'' then menuRecommend env currentUser answers st
     else if choice = ''2'' then menuRate env currentUser answers st
     else if choice = ''3'' then menuDetails env currentUser answers st
     else if choice = ''4'' then manageMoviePreferences env (user_id currentUser) answers st
     else (Some (), answers, emit InvalidOption st))"

lemma detailsActionLoop_rest:
  "detailsActionLoop env u m answers st = (r, rest, st') \<Longrightarrow> length rest \<le> length answers"
  by (induction env u m answers st rule: detailsActionLoop.induct)
     (auto simp: Let_def split: if_splits)

lemma viewAndInteract_rest:
  "viewAndInteractWithMovieDetails env m u answers st = (r, rest, st')
   \<Longrightarrow> length rest \<le> length answers"
  by (auto simp: viewAndInteractWithMovieDetails_def Let_def split: prod.splits
           dest: detailsActionLoop_rest)

lemma interactionLoop_rest:
  "interactionLoop env u m answers st = (r, rest, st') \<Longrightarrow> length rest \<le> length answers"
  by (induction env u m answers st rule: interactionLoop.induct)
     (auto simp: Let_def split: if_splits prod.splits option.splits dest: viewAndInteract_rest)

lemma presentLoop_rest:
  "presentLoop env u queue shown answers st = (r, rest, st') \<Longrightarrow> length rest \<le> length answers"
proof (induction env u queue shown answers st rule: presentLoop.induct)
  case (1 env currentUser shown answers st)
  then show ?case by simp
next
  case (2 env currentUser m queue shown answers st)
  show ?case
  proof (cases "movie_id m = 0 \<or> tmdb_id m = 0")
    case True
    with 2 show ?thesis by auto
  next
    case valid: False
    show ?thesis
    proof (cases "tmdb_id m \<in> persistentExcludeTmdbIds st \<or> tmdb_id m \<in> shown")
      case True
      with valid 2 show ?thesis by auto
    next
      case False
      obtain ir rest1 st1 where
        il: "interactionLoop env currentUser m answers (emit (Recommended m) st) = (ir, rest1, st1)"
        by (cases "interactionLoop env currentUser m answers (emit (Recommended m) st)") auto
      have le1: "length rest1 \<le> length answers"
        using interactionLoop_rest [OF il] .
      show ?thesis
      proof (cases ir)
        case None
        with valid False il "2.prems" le1 show ?thesis by auto
      next
        case (Some i)
        show ?thesis
        proof (cases "i = Quit")
          case True
          with valid False il Some "2.prems" le1 show ?thesis by auto
        next
          case notquit: False
          have "presentLoop env currentUser queue (insert (tmdb_id m) shown) rest1 st1
                  = (r, rest, st')"
            using valid False il Some notquit "2.prems" by auto
          from "2.IH"(3) [OF valid False il [symmetric] Some refl notquit this] le1
          show ?thesis by simp
        qed
      qed
    qed
  qed
qed

lemma selectLoop_rest:
  "selectLoop parse disp answers = (r, rest) \<Longrightarrow> length rest \<le> length answers"
  by (induction answers arbitrary: r rest)
     (auto simp: Let_def split: if_splits option.splits intro: le_SucI)

lemma searchAndSelectMovie_rest:
  "searchAndSelectMovie env answers st = (r, rest, st') \<Longrightarrow> length rest \<le> length answers"
  by (auto simp: searchAndSelectMovie_def Let_def
           split: list.splits if_splits prod.splits option.splits dest: selectLoop_rest)

lemma menuCase_rest:
  "menuCase env u choice answers st = (r, rest, st') \<Longrightarrow> length rest \<le> length answers"
  unfolding menuCase_def menuRecommend_def menuRate_def menuDetails_def
    manageMoviePreferences_def presentMovieRecommendationsOneByOne_def
  by (auto simp: Let_def split: if_splits prod.splits option.splits list.splits
           dest!: presentLoop_rest searchAndSelectMovie_rest viewAndInteract_rest)

text \<open>
  The menu loop, lines 296 to 367. \<open>True\<close>: the user chose \<open>0\<close> and \<open>runMovieCLI\<close>
  returned; \<open>False\<close>: a prompt is still waiting for an answer.
\<close>

function menuLoop ::
  "'w movie_env \<Rightarrow> user \<Rightarrow> string list \<Rightarrow> 'w cli_state \<Rightarrow> bool \<times> 'w cli_state" where
  "menuLoop env currentUser [] st = (False, emit MenuShown st)"
| "menuLoop env currentUser (c # answers) st =
    (if trim c = ''0'' then (True, emit SessionEnded (emit MenuShown st))
     else (case menuCase env currentUser (trim c) answers (emit MenuShown st) of
             (None, rest, st') \<Rightarrow> (False, st')
           | (Some done, rest, st') \<Rightarrow> menuLoop env currentUser rest st'))"
  by pat_completeness auto
termination
proof (relation "measure (\<lambda>(env, currentUser, answers, st). length answers)", goal_cases)
  case 1
  show ?case by simp
next
  case 2
  then show ?case
    by (auto dest!: menuCase_rest [OF sym])
qed

text \<open>
  Lines 278 to 292: the set starts from the rated movies that are found in the database.
  The preferences read at line 278 only choose a message and the defaults shown by
  \<open>manageMoviePreferences\<close>.
\<close>

definition ratedTmdbIds :: "'w movie_env \<Rightarrow> user \<Rightarrow> 'w \<Rightarrow> nat list" where
  "ratedTmdbIds env currentUser w =
     map tmdb_id
       (map the (filter (\<lambda>m. m \<noteq> None)
          (map (\<lambda>i. getMovieByOurId env i w) (getRatedMovieIdsByUser env (user_id currentUser) w))))"

definition runMovieCLI ::
  "'w movie_env \<Rightarrow> user \<Rightarrow> string list \<Rightarrow> 'w \<Rightarrow> bool \<times> 'w cli_state" where
  "runMovieCLI env currentUser answers w =
     menuLoop env currentUser answers
       (emit SessionStarted
          \<lparr>world = w,
           persistentExcludeTmdbIds = set (ratedTmdbIds env currentUser w),
           journal = []\<rparr>)"

section \<open>Restaurant store (src/db/restaurantDb.ts)\<close>

text \<open>
  The table \<open>restaurants\<close> is the list of its rows in insertion order. The columns
  \<open>cuisines\<close> and \<open>dietaryOptions\<close> hold the text \<open>JSON.stringify\<close> made of a list of
  strings; the text is kept as the list it encodes, and \<open>JSON.parse\<close> gives the list back.
\<close>

datatype json_text = Stringified "string list"

fun JSON_parse :: "json_text \<Rightarrow> string list" where
  "JSON_parse (Stringified xs) = xs"

record restaurant_data =
  googlePlaceId :: string
  name :: string
  address :: string
  cuisines :: "string list"
  dietaryOptions :: "string list"
  rating :: rat

record restaurant_row =
  row_id :: nat
  row_googlePlaceId :: string
  row_name :: string
  row_address :: string
  row_cuisines :: json_text
  row_dietaryOptions :: json_text
  row_rating :: rat

record restaurant =
  restaurant_id :: nat
  restaurant_data :: restaurant_data

text \<open>
  \<open>saveRestaurantToDb\<close> returns the row as stored when it finds one, and the record read
  back through \<open>getRestaurantById\<close> after an insert.
\<close>

datatype saved_restaurant = AsStored restaurant_row | AsRead restaurant

datatype db_error = UniqueConstraintFailed | OtherDbError

definition select_by_googlePlaceId :: "restaurant_row list \<Rightarrow> string \<Rightarrow> restaurant_row option" where
  "select_by_googlePlaceId table p = find (\<lambda>r. row_googlePlaceId r = p) table"

definition select_by_id :: "restaurant_row list \<Rightarrow> nat \<Rightarrow> restaurant_row option" where
  "select_by_id table i = find (\<lambda>r. row_id r = i) table"

definition next_row_id :: "restaurant_row list \<Rightarrow> nat" where
  "next_row_id table = Suc (fold max (map row_id table) 0)"

text \<open>
  The \<open>INSERT\<close>: the database refuses a second row with the same \<open>googlePlaceId\<close> (the
  error the \<open>catch\<close> block looks for), may fail for another reason (\<open>faulty\<close>, any function of
  the table and the data), and otherwise appends the row under a fresh id, which is
  \<open>lastID\<close>.
\<close>

definition insert_restaurant ::
  "(restaurant_row list \<Rightarrow> restaurant_data \<Rightarrow> bool) \<Rightarrow> restaurant_row list \<Rightarrow> restaurant_data
    \<Rightarrow> db_error + nat \<times> restaurant_row list" where
  "insert_restaurant faulty table d =
    (if select_by_googlePlaceId table (googlePlaceId d) \<noteq> None then Inl UniqueConstraintFailed
     else if faulty table d then Inl OtherDbError
     else (let lastID = next_row_id table
           in Inr (lastID,
                   table @ [\<lparr>row_id = lastID, row_googlePlaceId = googlePlaceId d,
                             row_name = name d, row_address = address d,
                             row_cuisines = Stringified (cuisines d),
                             row_dietaryOptions = Stringified (dietaryOptions d),
                             row_rating = rating d\<rparr>])))"

definition getRestaurantById :: "restaurant_row list \<Rightarrow> nat \<Rightarrow> restaurant option" where
  "getRestaurantById table i =
    (case select_by_id table i of
       None \<Rightarrow> None
     | Some row \<Rightarrow>
         Some \<lparr>restaurant_id = row_id row,
               restaurant_data =
                 \<lparr>googlePlaceId = row_googlePlaceId row, name = row_name row,
                  address = row_address row, cuisines = JSON_parse (row_cuisines row),
                  dietaryOptions = JSON_parse (row_dietaryOptions row),
                  rating = row_rating row\<rparr>\<rparr>)"

definition saveRestaurantToDb ::
  "(restaurant_row list \<Rightarrow> restaurant_data \<Rightarrow> bool) \<Rightarrow> restaurant_row list \<Rightarrow> restaurant_data
    \<Rightarrow> saved_restaurant option \<times> restaurant_row list" where
  "saveRestaurantToDb faulty table restaurantData =
    (case select_by_googlePlaceId table (googlePlaceId restaurantData) of
       Some existing \<Rightarrow> (Some (AsStored existing), table)
     | None \<Rightarrow>
        (case insert_restaurant faulty table restaurantData of
           Inr (lastID, table') \<Rightarrow>
             if lastID \<noteq> 0 then (map_option AsRead (getRestaurantById table' lastID), table')
             else (None, table')
         | Inl error \<Rightarrow>
             if error = UniqueConstraintFailed
             then (map_option AsStored
                     (select_by_googlePlaceId table (googlePlaceId restaurantData)), table)
             else (None, table)))"

section \<open>Recommendation engine (src/movies/recommender.ts is not among the sources)\<close>

text \<open>
  Modelled from the spec: the catalogue item of section 3, which the missing
  \<open>movies/types\<close> declares. Providers that were never fetched are \<open>None\<close>.
\<close>

record catalog_item =
  remote_id :: nat
  local_id :: nat
  item_title :: string
  item_year :: "nat option"
  item_genres :: "string list"
  item_language :: "string option"
  average_rating :: rat
  vote_count :: nat
  item_duration :: "nat option"
  item_providers :: "string list option"

text \<open>
  Modelled from the spec: the preferences of section 3, which the missing \<open>movies/types\<close>
  declares. Every field is optional; a year or duration range is one field \<open>[min,max]\<close>.
\<close>

record preferences =
  genre_allow :: "string list option"
  language_allow :: "string list option"
  year_range :: "(nat \<times> nat) option"
  duration_range :: "(nat \<times> nat) option"
  minimum_rating :: "rat option"
  provider_allow :: "string list option"

text \<open>
  Modelled from the spec: the rule of section 4.2 for a year or duration range, part of the
  missing recommender: inclusive bounds, and a missing value fails an active range.
\<close>

definition in_range :: "(nat \<times> nat) option \<Rightarrow> nat option \<Rightarrow> bool" where
  "in_range bounds v =
    (case bounds of
       None \<Rightarrow> True
     | Some (lo, hi) \<Rightarrow> (case v of None \<Rightarrow> False | Some n \<Rightarrow> lo \<le> n \<and> n \<le> hi))"

text \<open>
  Modelled from the spec: the preference predicate \<open>matches\<close> of section 4.2, which the
  missing recommender implements. A rule is active when its field is set; the result is the
  conjunction of the active rules; missing data fails an active rule.
\<close>

definition matches :: "catalog_item \<Rightarrow> preferences \<Rightarrow> bool" where
  "matches item prefs =
    ((case genre_allow prefs of
        None \<Rightarrow> True
      | Some allow \<Rightarrow> list_ex (\<lambda>g. g \<in> set allow) (item_genres item)) \<and>
     (case language_allow prefs of
        None \<Rightarrow> True
      | Some allow \<Rightarrow> (case item_language item of None \<Rightarrow> False | Some l \<Rightarrow> l \<in> set allow)) \<and>
     in_range (year_range prefs) (item_year item) \<and>
     in_range (duration_range prefs) (item_duration item) \<and>
     (case minimum_rating prefs of
        None \<Rightarrow> True
      | Some threshold \<Rightarrow> vote_count item \<noteq> 0 \<and> threshold \<le> average_rating item) \<and>
     (case provider_allow prefs of
        None \<Rightarrow> True
      | Some allow \<Rightarrow>
          (case item_providers item of
             None \<Rightarrow> False
           | Some ps \<Rightarrow> list_ex (\<lambda>p. p \<in> set allow) ps)))"

text \<open>
  Modelled from the spec: the remote catalogue client as section 6 gives its contract to
  the missing recommender. A fetch that fails is \<open>None\<close>.
\<close>

record remote_catalog =
  fetchSimilarItems :: "nat \<Rightarrow> catalog_item list option"
  fetchPopular :: "nat \<Rightarrow> catalog_item list option"

text \<open>
  Modelled from the spec: the interaction store as section 6 gives its contract to the
  missing recommender. Ratings come most recently rated first, as pairs of local item id
  and score.
\<close>

record interaction_store =
  getRatingsForUser :: "nat \<Rightarrow> (nat \<times> nat) list"
  getCachedItemByLocalId :: "nat \<Rightarrow> catalog_item option"

text \<open>
  Modelled from the spec: the constants section 4.1 gives by example (like threshold 4, at
  most 5 seeds, a pool of 20, a ceiling on the pages of the popularity feed).
\<close>

record tuning =
  like_threshold :: nat
  seed_cap :: nat
  target_pool_size :: nat
  page_ceiling :: nat

text \<open>
  Modelled from the spec: step 1 of the candidate aggregator of section 4.1, in the missing
  recommender: the seeds are the rated items at or above the like threshold, most recently
  rated first, capped.
\<close>

definition seed_identifiers :: "interaction_store \<Rightarrow> tuning \<Rightarrow> nat \<Rightarrow> nat list" where
  "seed_identifiers store t userId =
     take (seed_cap t)
       (map remote_id
          (List.map_filter (\<lambda>(localItemId, score).
                              if like_threshold t \<le> score then getCachedItemByLocalId store localItemId
                              else None)
             (getRatingsForUser store userId)))"

text \<open>
  Modelled from the spec: step 2 of the aggregator of section 4.1, in the missing
  recommender: the first page of the items similar to each seed; a seed whose request fails
  is skipped.
\<close>

definition similar_pool :: "remote_catalog \<Rightarrow> nat list \<Rightarrow> catalog_item list" where
  "similar_pool c seeds =
     concat (map (\<lambda>seed. case fetchSimilarItems c seed of None \<Rightarrow> [] | Some items \<Rightarrow> items) seeds)"

text \<open>
  Modelled from the spec: the size of the pool that step 3 of section 4.1 compares with the
  target, in the missing recommender: the number of distinct remote ids.
\<close>

definition distinct_count :: "catalog_item list \<Rightarrow> nat" where
  "distinct_count pool = length (remdups (map remote_id pool))"

text \<open>
  Modelled from the spec: step 3 of the aggregator of section 4.1, in the missing
  recommender: the popularity feed, page after page, while the pool has fewer distinct
  items than the target and the page ceiling is not reached; a page that fails adds nothing.
\<close>

fun popularity_fallback ::
  "remote_catalog \<Rightarrow> nat \<Rightarrow> nat \<Rightarrow> nat \<Rightarrow> catalog_item list \<Rightarrow> catalog_item list" where
  "popularity_fallback c target 0 page pool = pool"
| "popularity_fallback c target (Suc pagesLeft) page pool =
    (if target \<le> distinct_count pool then pool
     else popularity_fallback c target pagesLeft (Suc page)
            (pool @ (case fetchPopular c page of None \<Rightarrow> [] | Some items \<Rightarrow> items)))"

text \<open>
  Modelled from the spec: everything the aggregator of section 4.1 fetched, in fetch order
  (similar items first, then the popularity feed from page 1), in the missing recommender.
\<close>

definition fetched_items :: "remote_catalog \<Rightarrow> tuning \<Rightarrow> nat list \<Rightarrow> catalog_item list" where
  "fetched_items c t seeds =
     popularity_fallback c (target_pool_size t) (page_ceiling t) 1 (similar_pool c seeds)"

text \<open>
  Modelled from the spec: step 4 of the aggregator of section 4.1, in the missing
  recommender: the merge keeps an item when its remote id was not seen before, so the first
  item seen wins and the order of first appearance is kept.
\<close>

fun merge_first_seen :: "nat list \<Rightarrow> catalog_item list \<Rightarrow> catalog_item list" where
  "merge_first_seen seen [] = []"
| "merge_first_seen seen (item # items) =
    (if remote_id item \<in> set seen then merge_first_seen seen items
     else item # merge_first_seen (remote_id item # seen) items)"

text \<open>
  Modelled from the spec: the operation \<open>aggregate\<close> of section 4.1, which the missing
  recommender implements.
\<close>

definition aggregate :: "remote_catalog \<Rightarrow> tuning \<Rightarrow> nat list \<Rightarrow> catalog_item list" where
  "aggregate c t seeds = merge_first_seen [] (fetched_items c t seeds)"

text \<open>
  Modelled from the spec: the operation \<open>recommend\<close> of section 4.4, which the missing
  \<open>getMovieRecommendationsForUser\<close> implements: aggregate, keep what matches the
  preferences, drop what is excluded, keep the aggregator's order.
\<close>

definition recommend ::
  "remote_catalog \<Rightarrow> interaction_store \<Rightarrow> tuning \<Rightarrow> nat \<Rightarrow> preferences \<Rightarrow> nat set
    \<Rightarrow> catalog_item list" where
  "recommend c store t userId prefs exclusions =
     filter (\<lambda>item. remote_id item \<notin> exclusions)
       (filter (\<lambda>item. matches item prefs)
          (aggregate c t (seed_identifiers store t userId)))"

section \<open>Notions used by the properties\<close>

text \<open>
  A request has failed when the transport failed, the status is not 2xx, or the body of a
  2xx response (other than 204, which has none) does not parse.
\<close>

definition request_failed :: "'a fetch_outcome \<Rightarrow> bool" where
  "request_failed out =
     (case out of
        TransportError \<Rightarrow> True
      | Response status body \<Rightarrow>
          (if response_ok status
           then status \<noteq> 204 \<and> (case body of Unparsable \<Rightarrow> True | JsonNull \<Rightarrow> False | Json v \<Rightarrow> False)
           else True))"

text \<open>The guard of line 30, negated.\<close>

definition credentials_configured :: "tmdb_config \<Rightarrow> bool" where
  "credentials_configured cfg =
     (env_truthy (TMDB_API_READ_ACCESS_TOKEN cfg) \<or> env_truthy (TMDB_API_KEY_V3 cfg))"

text \<open>
  What returning \<open>null\<close> instead of raising asks of one call made in state \<open>st\<close>: the call
  returns; without credentials it returns \<open>null\<close> and sends nothing; with credentials it
  sends one request and returns \<open>null\<close> when the outcome of that very request is a failure.
\<close>

definition null_on_failure ::
  "tmdb_config \<Rightarrow> 'a remote \<Rightarrow> tmdb_state \<Rightarrow> (js_error + 'a tmdb_result) \<times> tmdb_state \<Rightarrow> bool" where
  "null_on_failure cfg net st result =
     (case result of
        (Inl e, st') \<Rightarrow> False
      | (Inr r, st') \<Rightarrow>
          if credentials_configured cfg
          then requests st' = requests st @ [last (requests st')]
               \<and> (request_failed (net (requests st) (last (requests st'))) \<longrightarrow> r = Null)
          else r = Null \<and> requests st' = requests st)"

text \<open>The requests sent to one endpoint.\<close>

definition requests_to :: "string \<Rightarrow> tmdb_state \<Rightarrow> tmdb_request list" where
  "requests_to endpoint st = filter (\<lambda>q. req_endpoint q = endpoint) (requests st)"

text \<open>
  Calls of the two genre functions that overlap. The program is single-threaded: at any
  moment one call starts and runs up to its \<open>await\<close>, or one suspended call goes on to its
  end. A run keeps the module state, the suspended calls in the order they started, and the
  lists returned so far. \<open>Resume i\<close> lets the suspended call at position \<open>i\<close> go on, and does
  nothing when there is none.
\<close>

datatype genre_kind = MovieGenres | TvGenres

datatype genre_event = Call genre_kind | Resume nat

record genre_run =
  module_state :: tmdb_state
  suspended_calls :: "(genre_kind \<times> genre_response awaited) list"
  returned_lists :: "(genre_kind \<times> (js_error + genre list)) list"

definition start_call ::
  "tmdb_config \<Rightarrow> genre_response remote \<Rightarrow> genre_kind \<Rightarrow> genre_run \<Rightarrow> genre_run" where
  "start_call cfg net kind run =
    (case (case kind of
             MovieGenres \<Rightarrow> getMovieGenreList_until_await cfg net (module_state run)
           | TvGenres \<Rightarrow> getTvShowGenreList_until_await cfg net (module_state run)) of
       (Inl e, st') \<Rightarrow>
         run\<lparr>module_state := st', returned_lists := returned_lists run @ [(kind, Inl e)]\<rparr>
     | (Inr (Returned gs), st') \<Rightarrow>
         run\<lparr>module_state := st', returned_lists := returned_lists run @ [(kind, Inr gs)]\<rparr>
     | (Inr (Suspended waited), st') \<Rightarrow>
         run\<lparr>module_state := st', suspended_calls := suspended_calls run @ [(kind, waited)]\<rparr>)"

definition resume_call :: "nat \<Rightarrow> genre_run \<Rightarrow> genre_run" where
  "resume_call i run =
    (if i < length (suspended_calls run)
     then (case suspended_calls run ! i of
             (kind, waited) \<Rightarrow>
               (case (case kind of
                        MovieGenres \<Rightarrow> getMovieGenreList_after_await waited (module_state run)
                      | TvGenres \<Rightarrow> getTvShowGenreList_after_await waited (module_state run)) of
                  (gs, st') \<Rightarrow>
                    run\<lparr>module_state := st',
                        suspended_calls := take i (suspended_calls run) @ drop (Suc i) (suspended_calls run),
                        returned_lists := returned_lists run @ [(kind, Inr gs)]\<rparr>))
     else run)"

fun genre_step :: "tmdb_config \<Rightarrow> genre_response remote \<Rightarrow> genre_run \<Rightarrow> genre_event \<Rightarrow> genre_run" where
  "genre_step cfg net run (Call kind) = start_call cfg net kind run"
| "genre_step cfg net run (Resume i) = resume_call i run"

definition run_events ::
  "tmdb_config \<Rightarrow> genre_response remote \<Rightarrow> genre_event list \<Rightarrow> genre_run \<Rightarrow> genre_run" where
  "run_events cfg net events run = foldl (genre_step cfg net) run events"

text \<open>The module state when the process starts.\<close>

definition state0 :: tmdb_state where
  "state0 = \<lparr>requests = [], console = [], movieGenreListCache = None, tvGenreListCache = None\<rparr>"

text \<open>A run of \<open>n\<close> calls of a state-passing function, one after the other.\<close>

fun call_repeatedly :: "('s \<Rightarrow> 'r \<times> 's) \<Rightarrow> nat \<Rightarrow> 's \<Rightarrow> 'r list \<times> 's" where
  "call_repeatedly f 0 st = ([], st)"
| "call_repeatedly f (Suc n) st =
     (case f st of (r, st') \<Rightarrow> (case call_repeatedly f n st' of (rs, st'') \<Rightarrow> (r # rs, st'')))"

text \<open>The genre list a result of \<open>fetchTMDB\<close> carries, if it carries one.\<close>

definition fetched_genres :: "js_error + genre_response tmdb_result \<Rightarrow> genre list option" where
  "fetched_genres r = (case r of Inr (Value response) \<Rightarrow> genres response | _ \<Rightarrow> None)"

text \<open>A remote source that fails the first request and then serves one genre.\<close>

definition drama_net :: "genre_response remote" where
  "drama_net h q =
     (if h = [] then TransportError
      else Response 200 (Json \<lparr>genres = Some [\<lparr>genre_id = 18, genre_name = ''Drama''\<rparr>]\<rparr>))"

text \<open>A remote source that answers its first request with a 503 and serves afterwards.\<close>

definition flaky_net :: "unit remote" where
  "flaky_net h q = (if h = [] then Response 503 Unparsable else Response 200 (Json ()))"

text \<open>A remote source that serves one genre every time.\<close>

definition steady_net :: "genre_response remote" where
  "steady_net h q = Response 200 (Json \<lparr>genres = Some [\<lparr>genre_id = 18, genre_name = ''Drama''\<rparr>]\<rparr>)"

definition token_config :: tmdb_config where
  "token_config = \<lparr>TMDB_API_READ_ACCESS_TOKEN = Some ''token'', TMDB_API_KEY_V3 = None\<rparr>"

definition two_genres :: "genre list" where
  "two_genres = [\<lparr>genre_id = 18, genre_name = ''Drama''\<rparr>, \<lparr>genre_id = 35, genre_name = ''Comedy''\<rparr>]"

definition cached_state :: tmdb_state where
  "cached_state = state0\<lparr>movieGenreListCache := Some two_genres\<rparr>"

text \<open>
  The process at its start, and two calls of \<open>getMovieGenreList\<close> that both start before
  either goes on.
\<close>

definition process_start :: genre_run where
  "process_start = \<lparr>module_state = state0, suspended_calls = [], returned_lists = []\<rparr>"

definition two_overlapping_calls :: genre_run where
  "two_overlapping_calls =
     run_events token_config steady_net
       [Call MovieGenres, Call MovieGenres, Resume 0, Resume 0] process_start"

text \<open>Neither variable is set.\<close>

definition no_credentials :: tmdb_config where
  "no_credentials = \<lparr>TMDB_API_READ_ACCESS_TOKEN = None, TMDB_API_KEY_V3 = None\<rparr>"

text \<open>A restaurant as the places service delivers it, and the row it is stored as.\<close>

definition trattoria :: restaurant_data where
  "trattoria = \<lparr>googlePlaceId = ''place-1'', name = ''Trattoria'', address = ''1 Main St'',
                cuisines = [''Italian''], dietaryOptions = [''vegetarian''], rating = 9 / 2\<rparr>"

definition trattoria_row :: restaurant_row where
  "trattoria_row = \<lparr>row_id = 1, row_googlePlaceId = ''place-1'', row_name = ''Trattoria'',
                    row_address = ''1 Main St'', row_cuisines = Stringified [''Italian''],
                    row_dietaryOptions = Stringified [''vegetarian''], row_rating = 9 / 2\<rparr>"

text \<open>
  The scenario of section 8 of the spec: A and B liked, C disliked; the items similar to A
  are X and Y, those similar to B are Y (a second copy, rated higher) and C.
\<close>

definition drama :: "nat \<Rightarrow> string \<Rightarrow> rat \<Rightarrow> catalog_item" where
  "drama i t r =
     \<lparr>remote_id = i, local_id = i, item_title = t, item_year = Some 2020,
      item_genres = [''Drama''], item_language = Some ''en'', average_rating = r,
      vote_count = 100, item_duration = Some 100, item_providers = None\<rparr>"

definition item_A :: catalog_item where "item_A = drama 1 ''A'' 8"
definition item_B :: catalog_item where "item_B = drama 2 ''B'' 8"
definition item_C :: catalog_item where "item_C = drama 3 ''C'' 8"
definition item_X :: catalog_item where "item_X = drama 10 ''X'' 8"
definition item_Y :: catalog_item where "item_Y = drama 11 ''Y'' 6"
definition item_Y_again :: catalog_item where "item_Y_again = drama 11 ''Y again'' 9"

definition scenario_catalog :: remote_catalog where
  "scenario_catalog =
     \<lparr>fetchSimilarItems = (\<lambda>seed. if seed = 1 then Some [item_X, item_Y]
                                  else if seed = 2 then Some [item_Y_again, item_C] else None),
      fetchPopular = (\<lambda>page. None)\<rparr>"

definition scenario_store :: interaction_store where
  "scenario_store =
     \<lparr>getRatingsForUser = (\<lambda>userId. [(1, 5), (2, 5), (3, 1)]),
      getCachedItemByLocalId = (\<lambda>i. if i = 1 then Some item_A else if i = 2 then Some item_B
                                     else if i = 3 then Some item_C else None)\<rparr>"

definition scenario_tuning :: tuning where
  "scenario_tuning = \<lparr>like_threshold = 4, seed_cap = 5, target_pool_size = 3, page_ceiling = 2\<rparr>"

definition scenario_prefs :: preferences where
  "scenario_prefs =
     \<lparr>genre_allow = Some [''Drama''], language_allow = None, year_range = None,
      duration_range = None, minimum_rating = Some 7, provider_allow = None\<rparr>"

text \<open>
  A reader of the journal. It carries the value the exclusion set must have at the next
  entry and the movie whose rating was saved by the last entry, if any. It accepts an entry
  when the set is as expected: unchanged, except at an \<open>Excluded\<close> entry, which must follow
  the \<open>SavedRating\<close> of the same movie and add its remote id; and a \<open>Recommended\<close> entry must
  show a movie whose remote id is not in the set.
\<close>

fun monitor ::
  "(nat set \<times> movie option) option \<Rightarrow> cli_event \<times> nat set \<Rightarrow> (nat set \<times> movie option) option" where
  "monitor None entry = None"
| "monitor (Some (P, Some rated)) (e, Q) =
     (if e = Excluded (tmdb_id rated) \<and> Q = insert (tmdb_id rated) P then Some (Q, None) else None)"
| "monitor (Some (P, None)) (e, Q) =
     (case e of
        SavedRating userId m r \<Rightarrow> if Q = P then Some (P, Some m) else None
      | Recommended m \<Rightarrow> if Q = P \<and> tmdb_id m \<notin> P then Some (P, None) else None
      | Excluded t \<Rightarrow> None
      | _ \<Rightarrow> if Q = P then Some (P, None) else None)"

text \<open>The reader run over the journal of a state, and the events it lets pass unchanged.\<close>

definition track :: "(nat set \<times> movie option) option \<Rightarrow> 'w cli_state \<Rightarrow> (nat set \<times> movie option) option" where
  "track s0 st = foldl monitor s0 (journal st)"

definition plain :: "cli_event \<Rightarrow> bool" where
  "plain e = (case e of SavedRating userId m r \<Rightarrow> False | Recommended m \<Rightarrow> False
                | Excluded t \<Rightarrow> False | _ \<Rightarrow> True)"

text \<open>
  The invariant of the menu: the reader accepts the journal and ends at the present value of
  the set, with no rating waiting for its exclusion.
\<close>

definition consistent :: "(nat set \<times> movie option) option \<Rightarrow> 'w cli_state \<Rightarrow> bool" where
  "consistent s0 st = (track s0 st = Some (persistentExcludeTmdbIds st, None))"

text \<open>
  Movies and a user for the examples. In the first collection of collaborators nothing can
  be searched or stored, Heat is rated already, and the recommender proposes the movies not
  excluded.
\<close>

definition inception :: movie where
  "inception = \<lparr>movie_id = 1, tmdb_id = 27205, title = ''Inception''\<rparr>"

definition memento :: movie where
  "memento = \<lparr>movie_id = 2, tmdb_id = 77, title = ''Memento''\<rparr>"

definition heat :: movie where
  "heat = \<lparr>movie_id = 3, tmdb_id = 949, title = ''Heat''\<rparr>"

definition alice :: user where
  "alice = \<lparr>user_id = 7, user_name = ''Alice''\<rparr>"

definition demo_env :: "unit movie_env" where
  "demo_env =
     \<lparr>getMovieRecommendationsForUser =
        (\<lambda>u excluded w. (filter (\<lambda>m. tmdb_id m \<notin> excluded) [inception, memento, heat], w)),
      getTMDBMovieDetails = (\<lambda>i w. (None, w)),
      searchTMDBMovies = (\<lambda>q w. (None, w)),
      fetchMovieGenreList = (\<lambda>w. w),
      saveMovie = (\<lambda>d w. (None, w)),
      saveUserMovieRating = (\<lambda>userId movieId r w. w),
      saveUserMoviePreferences = (\<lambda>userId answers w. w),
      getRatedMovieIdsByUser = (\<lambda>userId w. [3]),
      getMovieByOurId = (\<lambda>i w. if i = 3 then Some heat else None),
      parseInt = (\<lambda>s. None)\<rparr>"

text \<open>Two more recommenders: one that finds nothing, one that always proposes Memento.\<close>

definition outage_env :: "unit movie_env" where
  "outage_env = demo_env\<lparr>getMovieRecommendationsForUser := (\<lambda>u excluded w. ([], w))\<rparr>"

definition encore_env :: "unit movie_env" where
  "encore_env = demo_env\<lparr>getMovieRecommendationsForUser := (\<lambda>u excluded w. ([memento], w))\<rparr>"

definition fresh_state :: "unit cli_state" where
  "fresh_state = \<lparr>world = (), persistentExcludeTmdbIds = {949}, journal = []\<rparr>"

text \<open>
  A session to run the menu on. The world is the table of ratings (user, movie, stars), and
  Heat is rated before the session. The recommender proposes Inception, Memento and Heat
  every time, whatever is excluded. The user asks for recommendations, likes Inception,
  views Memento and dislikes it; rates Alien four stars through option 2; looks Brazil up
  through option 3 and likes it; asks for recommendations again; and leaves.
\<close>

definition alien :: movie where
  "alien = \<lparr>movie_id = 4, tmdb_id = 348, title = ''Alien''\<rparr>"

definition brazil :: movie where
  "brazil = \<lparr>movie_id = 5, tmdb_id = 68, title = ''Brazil''\<rparr>"

definition cinema_env :: "(nat \<times> nat \<times> nat) list movie_env" where
  "cinema_env =
     \<lparr>getMovieRecommendationsForUser = (\<lambda>u excluded w. ([inception, memento, heat], w)),
      getTMDBMovieDetails =
        (\<lambda>i w. (if i = 348 then Some \<lparr>tm_id = 348, tm_title = ''Alien''\<rparr>
                 else if i = 68 then Some \<lparr>tm_id = 68, tm_title = ''Brazil''\<rparr> else None, w)),
      searchTMDBMovies =
        (\<lambda>q w. (if q = ''alien'' then Some [\<lparr>tm_id = 348, tm_title = ''Alien''\<rparr>]
                 else if q = ''brazil'' then Some [\<lparr>tm_id = 68, tm_title = ''Brazil''\<rparr>]
                 else Some [], w)),
      fetchMovieGenreList = (\<lambda>w. w),
      saveMovie = (\<lambda>d w. (if tm_id d = 348 then Some alien
                           else if tm_id d = 68 then Some brazil else None, w)),
      saveUserMovieRating = (\<lambda>userId movieId r w. w @ [(userId, movieId, r)]),
      saveUserMoviePreferences = (\<lambda>userId answers w. w),
      getRatedMovieIdsByUser = (\<lambda>userId w. map (\<lambda>x. fst (snd x)) (filter (\<lambda>x. fst x = userId) w)),
      getMovieByOurId = (\<lambda>i w. find (\<lambda>m. movie_id m = i) [inception, memento, heat, alien, brazil]),
      parseInt = map_of [(''1'', 1), (''2'', 2), (''3'', 3), (''4'', 4), (''5'', 5)]\<rparr>"

definition cinema_world :: "(nat \<times> nat \<times> nat) list" where
  "cinema_world = [(7, 3, 4)]"

definition cinema_answers :: "string list" where
  "cinema_answers =
     [''1'', ''L'', ''v'', ''d'', ''2'', ''alien'', ''1'', ''4'',
      ''3'', ''brazil'', ''1'', ''l'', ''1'', ''0'']"

definition cinema_journal :: "(cli_event \<times> nat set) list" where
  "cinema_journal =
     [(SessionStarted, {949}), (MenuShown, {949}),
      (RecommendationsFetched [inception, memento, heat], {949}),
      (Recommended inception, {949}),
      (SavedRating 7 inception 5, {949}),
      (Excluded 27205, {27205, 949}),
      (Recommended memento, {27205, 949}),
      (SavedRating 7 memento 1, {27205, 949}),
      (Excluded 77, {77, 27205, 949}),
      (FinishedList, {77, 27205, 949}), (MenuShown, {77, 27205, 949}),
      (SavedRating 7 alien 4, {77, 27205, 949}),
      (Excluded 348, {348, 77, 27205, 949}),
      (MenuShown, {348, 77, 27205, 949}),
      (SavedRating 7 brazil 5, {348, 77, 27205, 949}),
      (Excluded 68, {68, 348, 77, 27205, 949}),
      (MenuShown, {68, 348, 77, 27205, 949}),
      (RecommendationsFetched [inception, memento, heat], {68, 348, 77, 27205, 949}),
      (FinishedList, {68, 348, 77, 27205, 949}), (MenuShown, {68, 348, 77, 27205, 949}),
      (SessionEnded, {68, 348, 77, 27205, 949})]"

definition cinema_start :: "(nat \<times> nat \<times> nat) list cli_state" where
  "cinema_start = \<lparr>world = cinema_world, persistentExcludeTmdbIds = {949}, journal = []\<rparr>"

text \<open>The remote ids of the movies a journal shows as recommendations, in order.\<close>

definition recommended_ids :: "(cli_event \<times> nat set) list \<Rightarrow> nat list" where
  "recommended_ids j =
     List.map_filter (\<lambda>entry. case fst entry of Recommended m \<Rightarrow> Some (tmdb_id m) | _ \<Rightarrow> None) j"

section \<open>Properties of the remote catalogue client\<close>

lemma prepare_request_returns:
  assumes "method = POST \<and> js_truthy body \<longrightarrow> serialisable body"
  shows "\<exists>req st1. prepare_request cfg endpoint params method body st = (Inr req, st1)
            \<and> req_endpoint req = endpoint
            \<and> requests st1 = requests st
            \<and> movieGenreListCache st1 = movieGenreListCache st
            \<and> tvGenreListCache st1 = tvGenreListCache st"
  using assms
  by (auto simp: prepare_request_def JSON_stringify_def Let_def log_to_def split: prod.splits)

lemma handle_outcome_failed:
  "request_failed outcome \<Longrightarrow> fst (handle_outcome endpoint outcome st) = Null"
  by (auto simp: handle_outcome_def request_failed_def
           split: fetch_outcome.splits json_body.splits if_splits)

lemma handle_outcome_frame:
  "handle_outcome endpoint outcome st = (r, st') \<Longrightarrow>
     requests st' = requests st
     \<and> movieGenreListCache st' = movieGenreListCache st
     \<and> tvGenreListCache st' = tvGenreListCache st"
  by (auto simp: handle_outcome_def log_to_def
           split: fetch_outcome.splits json_body.splits if_splits)

lemma try_fetch_failed:
  "request_failed (net (requests st) req) \<Longrightarrow> fst (try_fetch net endpoint req st) = Null"
  by (simp add: try_fetch_def handle_outcome_failed)

lemma try_fetch_frame:
  "try_fetch net endpoint req st = (r, st') \<Longrightarrow>
     requests st' = requests st @ [req]
     \<and> movieGenreListCache st' = movieGenreListCache st
     \<and> tvGenreListCache st' = tvGenreListCache st"
  unfolding try_fetch_def by (drule handle_outcome_frame) simp

lemma fetchTMDB_no_credentials:
  "\<not> credentials_configured cfg \<Longrightarrow>
   fetchTMDB cfg net endpoint params method body st = (Inr Null, log_to MissingCredentials st)"
  by (simp add: fetchTMDB_def credentials_configured_def)

text \<open>The two halves of \<open>fetchTMDB\<close>, run in a row, are \<open>fetchTMDB\<close>.\<close>

lemma fetchTMDB_halves:
  "fetchTMDB cfg net endpoint params method body st =
     (case fetchTMDB_until_await cfg net endpoint params method body st of
        (Inl e, st1) \<Rightarrow> (Inl e, st1)
      | (Inr waited, st1) \<Rightarrow>
          (case fetchTMDB_after_await waited st1 of (r, st2) \<Rightarrow> (Inr r, st2)))"
  by (simp add: fetchTMDB_def fetchTMDB_until_await_def fetchTMDB_after_await_def try_fetch_def
           split: prod.splits sum.splits)

lemma fetchTMDB_sends_one:
  assumes "method = POST \<and> js_truthy body \<longrightarrow> serialisable body"
    and "credentials_configured cfg"
  shows "\<exists>r st' req. fetchTMDB cfg net endpoint params method body st = (Inr r, st')
           \<and> requests st' = requests st @ [req]
           \<and> req_endpoint req = endpoint
           \<and> movieGenreListCache st' = movieGenreListCache st
           \<and> tvGenreListCache st' = tvGenreListCache st
           \<and> (request_failed (net (requests st) req) \<longrightarrow> r = Null)"
proof -
  obtain req st1 where p: "prepare_request cfg endpoint params method body st = (Inr req, st1)"
    and e: "req_endpoint req = endpoint"
    and f1: "requests st1 = requests st" "movieGenreListCache st1 = movieGenreListCache st"
            "tvGenreListCache st1 = tvGenreListCache st"
    using prepare_request_returns [OF assms(1)] by blast
  obtain r st2 where t: "try_fetch net endpoint req st1 = (r, st2)"
    by (cases "try_fetch net endpoint req st1") auto
  have "fetchTMDB cfg net endpoint params method body st = (Inr r, st2)"
    using assms(2) p t by (auto simp: fetchTMDB_def credentials_configured_def)
  moreover have "request_failed (net (requests st) req) \<longrightarrow> r = Null"
    using try_fetch_failed [of net st1 req endpoint] t f1 by auto
  ultimately show ?thesis
    using try_fetch_frame [OF t] f1 e by simp
qed

lemma fetchTMDB_null_on_failure:
  assumes "method = POST \<and> js_truthy body \<longrightarrow> serialisable body"
  shows "null_on_failure cfg net st (fetchTMDB cfg net endpoint params method body st)"
proof (cases "credentials_configured cfg")
  case False
  then show ?thesis
    by (simp add: fetchTMDB_no_credentials null_on_failure_def log_to_def)
next
  case True
  from fetchTMDB_sends_one [OF assms True, of net endpoint params st]
  show ?thesis using True by (auto simp: null_on_failure_def)
qed

lemma fetchTMDB_get:
  "\<exists>r st'. fetchTMDB cfg net endpoint params GET JUndefined st = (Inr r, st')
           \<and> movieGenreListCache st' = movieGenreListCache st
           \<and> tvGenreListCache st' = tvGenreListCache st"
proof (cases "credentials_configured cfg")
  case False
  then show ?thesis
    by (simp add: fetchTMDB_no_credentials log_to_def)
next
  case True
  from fetchTMDB_sends_one [OF _ True, of GET JUndefined net endpoint params st]
  show ?thesis by auto
qed

lemma fetchTMDB_get_sends:
  assumes "credentials_configured cfg"
  shows "length (requests (snd (fetchTMDB cfg net endpoint params GET JUndefined st)))
           = Suc (length (requests st))"
  using fetchTMDB_sends_one [OF _ assms, of GET JUndefined net endpoint params st] by auto

text \<open>
  A call of a genre function during which nothing else runs tests the cache, fetches when
  it is empty, and stores what a successful fetch brought.
\<close>

lemma getMovieGenreList_alone:
  "getMovieGenreList cfg net st =
    (case movieGenreListCache st of
       Some cached \<Rightarrow> (Inr cached, st)
     | None \<Rightarrow>
        (case fetchTMDB cfg net ''genre/movie/list'' [] GET JUndefined st of
           (Inl e, st') \<Rightarrow> (Inl e, st')
         | (Inr (Value response), st') \<Rightarrow>
             (case genres response of
                Some gs \<Rightarrow> (Inr gs, log_to MovieGenresCached (st'\<lparr>movieGenreListCache := Some gs\<rparr>))
              | None \<Rightarrow> (Inr [], st'))
         | (Inr other, st') \<Rightarrow> (Inr [], st')))"
  by (auto simp: getMovieGenreList_def getMovieGenreList_until_await_def
        getMovieGenreList_after_await_def fetchTMDB_halves
      split: option.splits prod.splits sum.splits tmdb_result.splits)

lemma getTvShowGenreList_alone:
  "getTvShowGenreList cfg net st =
    (case tvGenreListCache st of
       Some cached \<Rightarrow> (Inr cached, st)
     | None \<Rightarrow>
        (case fetchTMDB cfg net ''genre/tv/list'' [] GET JUndefined st of
           (Inl e, st') \<Rightarrow> (Inl e, st')
         | (Inr (Value response), st') \<Rightarrow>
             (case genres response of
                Some gs \<Rightarrow> (Inr gs, log_to TvGenresCached (st'\<lparr>tvGenreListCache := Some gs\<rparr>))
              | None \<Rightarrow> (Inr [], st'))
         | (Inr other, st') \<Rightarrow> (Inr [], st')))"
  by (auto simp: getTvShowGenreList_def getTvShowGenreList_until_await_def
        getTvShowGenreList_after_await_def fetchTMDB_halves
      split: option.splits prod.splits sum.splits tmdb_result.splits)

lemma getMovieGenreList_uncached:
  assumes "movieGenreListCache st = None"
  shows "(case fetched_genres (fst (fetchTMDB cfg net ''genre/movie/list'' [] GET JUndefined st)) of
            Some gs \<Rightarrow> fst (getMovieGenreList cfg net st) = Inr gs
                       \<and> movieGenreListCache (snd (getMovieGenreList cfg net st)) = Some gs
          | None \<Rightarrow> fst (getMovieGenreList cfg net st) = Inr []
                    \<and> movieGenreListCache (snd (getMovieGenreList cfg net st)) = None)
         \<and> tvGenreListCache (snd (getMovieGenreList cfg net st)) = tvGenreListCache st
         \<and> requests (snd (getMovieGenreList cfg net st))
             = requests (snd (fetchTMDB cfg net ''genre/movie/list'' [] GET JUndefined st))"
proof -
  obtain r st' where f: "fetchTMDB cfg net ''genre/movie/list'' [] GET JUndefined st = (Inr r, st')"
    and c: "movieGenreListCache st' = movieGenreListCache st"
           "tvGenreListCache st' = tvGenreListCache st"
    using fetchTMDB_get [of cfg net "''genre/movie/list''" "[]" st] by blast
  show ?thesis
    using assms f c
    by (auto simp: getMovieGenreList_alone fetched_genres_def log_to_def
             split: tmdb_result.splits option.splits)
qed

lemma getTvShowGenreList_uncached:
  assumes "tvGenreListCache st = None"
  shows "(case fetched_genres (fst (fetchTMDB cfg net ''genre/tv/list'' [] GET JUndefined st)) of
            Some gs \<Rightarrow> fst (getTvShowGenreList cfg net st) = Inr gs
                       \<and> tvGenreListCache (snd (getTvShowGenreList cfg net st)) = Some gs
          | None \<Rightarrow> fst (getTvShowGenreList cfg net st) = Inr []
                    \<and> tvGenreListCache (snd (getTvShowGenreList cfg net st)) = None)
         \<and> movieGenreListCache (snd (getTvShowGenreList cfg net st)) = movieGenreListCache st
         \<and> requests (snd (getTvShowGenreList cfg net st))
             = requests (snd (fetchTMDB cfg net ''genre/tv/list'' [] GET JUndefined st))"
proof -
  obtain r st' where f: "fetchTMDB cfg net ''genre/tv/list'' [] GET JUndefined st = (Inr r, st')"
    and c: "movieGenreListCache st' = movieGenreListCache st"
           "tvGenreListCache st' = tvGenreListCache st"
    using fetchTMDB_get [of cfg net "''genre/tv/list''" "[]" st] by blast
  show ?thesis
    using assms f c
    by (auto simp: getTvShowGenreList_alone fetched_genres_def log_to_def
             split: tmdb_result.splits option.splits)
qed

lemma getMovieGenreList_returns:
  "\<exists>full st'. getMovieGenreList cfg net st = (Inr full, st')"
proof (cases "movieGenreListCache st")
  case None
  from getMovieGenreList_uncached [OF this, of cfg net]
  show ?thesis
    by (cases "getMovieGenreList cfg net st") (auto split: option.splits)
next
  case (Some gs)
  then show ?thesis by (simp add: getMovieGenreList_alone)
qed

lemma getTvShowGenreList_returns:
  "\<exists>full st'. getTvShowGenreList cfg net st = (Inr full, st')"
proof (cases "tvGenreListCache st")
  case None
  from getTvShowGenreList_uncached [OF this, of cfg net]
  show ?thesis
    by (cases "getTvShowGenreList cfg net st") (auto split: option.splits)
next
  case (Some gs)
  then show ?thesis by (simp add: getTvShowGenreList_alone)
qed

text \<open>
  C4. \<open>fetchTMDB\<close> is not exported, and each of its thirteen callers passes an endpoint and
  at most the query parameters, so every call the program makes is a GET that sends no
  body. Such a call returns: it never raises. Without credentials it returns \<open>null\<close> and
  sends nothing. With credentials it sends one request and returns \<open>null\<close> whenever that
  request fails: a transport error, a status that is not 2xx, a body that does not parse.
  This holds for \<open>fetchTMDB\<close> with any endpoint and parameters and for each of the eleven
  wrappers; the two genre functions, its other callers, return a list and do not raise
  either. A POST is covered as well when its body is one that \<open>JSON.stringify\<close> accepts.
\<close>

theorem fetchTMDB_null_instead_of_raising:
  "null_on_failure cfg net st (fetchTMDB cfg net endpoint params GET body st)
   \<and> ((js_truthy body \<longrightarrow> serialisable body)
        \<longrightarrow> null_on_failure cfg net st (fetchTMDB cfg net endpoint params POST body st))
   \<and> null_on_failure cfg net st (getMovieDetails cfg net movieId st)
   \<and> null_on_failure cfg net st (getPopularMovies cfg net page st)
   \<and> null_on_failure cfg net st (searchMovies cfg net query page year st)
   \<and> null_on_failure cfg net st (getMovieRecommendations cfg net movieId page st)
   \<and> null_on_failure cfg net st (getTvShowDetails cfg net tvId st)
   \<and> null_on_failure cfg net st (getTvShowSeasonDetails cfg net tvId seasonNumber st)
   \<and> null_on_failure cfg net st (getPopularTvShows cfg net page st)
   \<and> null_on_failure cfg net st (searchTvShows cfg net query page year st)
   \<and> null_on_failure cfg net st (getTvShowRecommendations cfg net tvId page st)
   \<and> null_on_failure cfg net st (getMovieWatchProviders cfg net st)
   \<and> null_on_failure cfg net st (getTvWatchProviders cfg net st)
   \<and> (\<exists>gs st'. getMovieGenreList cfg genre_net st = (Inr gs, st'))
   \<and> (\<exists>gs st'. getTvShowGenreList cfg genre_net st = (Inr gs, st'))"
proof -
  have get: "\<And>e ps b. null_on_failure cfg net st (fetchTMDB cfg net e ps GET b st)"
    by (rule fetchTMDB_null_on_failure) simp
  have post: "(js_truthy body \<longrightarrow> serialisable body)
        \<longrightarrow> null_on_failure cfg net st (fetchTMDB cfg net endpoint params POST body st)"
    by (auto intro: fetchTMDB_null_on_failure)
  show ?thesis
    unfolding getMovieDetails_def getPopularMovies_def searchMovies_def
      getMovieRecommendations_def getTvShowDetails_def getTvShowSeasonDetails_def
      getPopularTvShows_def searchTvShows_def getTvShowRecommendations_def
      getMovieWatchProviders_def getTvWatchProviders_def
    using get post getMovieGenreList_returns [of cfg genre_net st]
      getTvShowGenreList_returns [of cfg genre_net st]
    by (intro conjI)
qed

text \<open>
  The theorem on a remote source that answers its first request with a 503 and serves
  afterwards: the first call of a wrapper returns \<open>null\<close>, the next one the body; so does a
  POST with a body that can be serialised.
\<close>

theorem fetchTMDB_null_instead_of_raising_witness:
  "fst (getMovieDetails token_config flaky_net 550 state0) = Inr Null
   \<and> fst (getMovieDetails token_config flaky_net 550
            (snd (getMovieDetails token_config flaky_net 550 state0))) = Inr (Value ())
   \<and> fst (fetchTMDB token_config flaky_net ''list/1/add_item'' [] POST
            (JObj [(''media_id'', JNum 550)]) state0) = Inr Null
   \<and> fst (getPopularMovies no_credentials flaky_net 1 state0) = Inr Null"
proof -
  have cc: "credentials_configured token_config"
    by (simp add: credentials_configured_def token_config_def env_truthy_def)
  have nc: "\<not> credentials_configured no_credentials"
    by (simp add: credentials_configured_def no_credentials_def env_truthy_def)
  have failed: "\<And>q. request_failed (flaky_net (requests state0) q)"
    by (simp add: request_failed_def flaky_net_def state0_def response_ok_def)
  have ser: "js_truthy (JObj [(''media_id'', JNum 550)])
               \<longrightarrow> serialisable (JObj [(''media_id'', JNum 550)])"
    by simp
  note inst = fetchTMDB_null_instead_of_raising [where cfg = token_config and net = flaky_net
      and st = state0 and endpoint = "''list/1/add_item''" and params = "[]"
      and body = "JObj [(''media_id'', JNum 550)]" and movieId = 550 and page = 1
      and genre_net = drama_net]
  have a: "fst (getMovieDetails token_config flaky_net 550 state0) = Inr Null"
  proof -
    from inst have "null_on_failure token_config flaky_net state0
        (getMovieDetails token_config flaky_net 550 state0)" by blast
    then show ?thesis using cc failed
      by (auto simp: null_on_failure_def split: prod.splits sum.splits)
  qed
  have b: "fst (getMovieDetails token_config flaky_net 550
            (snd (getMovieDetails token_config flaky_net 550 state0))) = Inr (Value ())"
    by (simp add: getMovieDetails_def fetchTMDB_def prepare_request_def try_fetch_def
          handle_outcome_def token_config_def flaky_net_def state0_def env_truthy_def
          env_text_def log_to_def response_ok_def)
  have c: "fst (fetchTMDB token_config flaky_net ''list/1/add_item'' [] POST
            (JObj [(''media_id'', JNum 550)]) state0) = Inr Null"
  proof -
    from inst ser have "null_on_failure token_config flaky_net state0
        (fetchTMDB token_config flaky_net ''list/1/add_item'' [] POST
            (JObj [(''media_id'', JNum 550)]) state0)" by blast
    then show ?thesis using cc failed
      by (auto simp: null_on_failure_def split: prod.splits sum.splits)
  qed
  have d: "fst (getPopularMovies no_credentials flaky_net 1 state0) = Inr Null"
  proof -
    from fetchTMDB_null_instead_of_raising [where cfg = no_credentials and net = flaky_net
      and st = state0 and page = 1 and genre_net = drama_net]
    have "null_on_failure no_credentials flaky_net state0
        (getPopularMovies no_credentials flaky_net 1 state0)" by blast
    then show ?thesis using nc
      by (auto simp: null_on_failure_def split: prod.splits sum.splits)
  qed
  show ?thesis using a b c d by blast
qed

text \<open>
  What no caller does: \<open>JSON.stringify(body)\<close> at line 67 stands before the \<open>try\<close> block, so
  a POST whose body holds a BigInt would raise a \<open>TypeError\<close>.
\<close>

lemma fetchTMDB_stringify_before_try:
  "fst (fetchTMDB token_config flaky_net ''list/1/add_item'' [] POST
      (JObj [(''media_id'', JBigInt 550)]) state0) = Inl TypeError"
  by (simp add: fetchTMDB_def prepare_request_def token_config_def env_truthy_def JSON_stringify_def)

lemma call_repeatedly_fixed:
  "f st = (r, st) \<Longrightarrow> call_repeatedly f n st = (replicate n r, st)"
  by (induction n) auto

lemma fetchTMDB_until_await_get:
  "\<exists>waited st'. fetchTMDB_until_await cfg net endpoint params GET JUndefined st = (Inr waited, st')
     \<and> movieGenreListCache st' = movieGenreListCache st
     \<and> tvGenreListCache st' = tvGenreListCache st
     \<and> (if credentials_configured cfg
         then \<exists>req. requests st' = requests st @ [req] \<and> req_endpoint req = endpoint
         else requests st' = requests st)"
proof (cases "credentials_configured cfg")
  case False
  then show ?thesis
    by (simp add: fetchTMDB_until_await_def credentials_configured_def log_to_def)
next
  case True
  obtain req st1 where "prepare_request cfg endpoint params GET JUndefined st = (Inr req, st1)"
    "req_endpoint req = endpoint" "requests st1 = requests st"
    "movieGenreListCache st1 = movieGenreListCache st" "tvGenreListCache st1 = tvGenreListCache st"
    using prepare_request_returns [of GET JUndefined cfg endpoint params st] by auto
  with True show ?thesis
    by (auto simp: fetchTMDB_until_await_def credentials_configured_def)
qed

lemma fetchTMDB_after_await_frame:
  "fetchTMDB_after_await waited st = (r, st') \<Longrightarrow>
     requests st' = requests st
     \<and> movieGenreListCache st' = movieGenreListCache st
     \<and> tvGenreListCache st' = tvGenreListCache st"
  by (cases waited) (auto simp: fetchTMDB_after_await_def dest: handle_outcome_frame)

lemma getMovieGenreList_after_await_frame:
  "getMovieGenreList_after_await waited st = (gs, st') \<Longrightarrow>
     requests st' = requests st
     \<and> tvGenreListCache st' = tvGenreListCache st
     \<and> (movieGenreListCache st' = movieGenreListCache st \<or> movieGenreListCache st' = Some gs)"
  by (auto simp: getMovieGenreList_after_await_def log_to_def
      split: prod.splits tmdb_result.splits option.splits dest!: fetchTMDB_after_await_frame)

lemma getTvShowGenreList_after_await_frame:
  "getTvShowGenreList_after_await waited st = (gs, st') \<Longrightarrow>
     requests st' = requests st
     \<and> movieGenreListCache st' = movieGenreListCache st
     \<and> (tvGenreListCache st' = tvGenreListCache st \<or> tvGenreListCache st' = Some gs)"
  by (auto simp: getTvShowGenreList_after_await_def log_to_def
      split: prod.splits tmdb_result.splits option.splits dest!: fetchTMDB_after_await_frame)

lemma getMovieGenreList_until_await_frame:
  "\<exists>c st'. getMovieGenreList_until_await cfg net st = (Inr c, st')
     \<and> movieGenreListCache st' = movieGenreListCache st
     \<and> tvGenreListCache st' = tvGenreListCache st
     \<and> requests_to ''genre/tv/list'' st' = requests_to ''genre/tv/list'' st
     \<and> (movieGenreListCache st \<noteq> None \<longrightarrow> st' = st)"
proof (cases "movieGenreListCache st")
  case (Some gs)
  then show ?thesis by (simp add: getMovieGenreList_until_await_def)
next
  case None
  from fetchTMDB_until_await_get [of cfg net "''genre/movie/list''" "[]" st]
  obtain waited st' where
    "fetchTMDB_until_await cfg net ''genre/movie/list'' [] GET JUndefined st = (Inr waited, st')"
    "movieGenreListCache st' = movieGenreListCache st" "tvGenreListCache st' = tvGenreListCache st"
    "requests_to ''genre/tv/list'' st' = requests_to ''genre/tv/list'' st"
    by (auto simp: requests_to_def split: if_splits)
  with None show ?thesis by (simp add: getMovieGenreList_until_await_def)
qed

lemma getTvShowGenreList_until_await_frame:
  "\<exists>c st'. getTvShowGenreList_until_await cfg net st = (Inr c, st')
     \<and> movieGenreListCache st' = movieGenreListCache st
     \<and> tvGenreListCache st' = tvGenreListCache st
     \<and> requests_to ''genre/movie/list'' st' = requests_to ''genre/movie/list'' st
     \<and> (tvGenreListCache st \<noteq> None \<longrightarrow> st' = st)"
proof (cases "tvGenreListCache st")
  case (Some gs)
  then show ?thesis by (simp add: getTvShowGenreList_until_await_def)
next
  case None
  from fetchTMDB_until_await_get [of cfg net "''genre/tv/list''" "[]" st]
  obtain waited st' where
    "fetchTMDB_until_await cfg net ''genre/tv/list'' [] GET JUndefined st = (Inr waited, st')"
    "movieGenreListCache st' = movieGenreListCache st" "tvGenreListCache st' = tvGenreListCache st"
    "requests_to ''genre/movie/list'' st' = requests_to ''genre/movie/list'' st"
    by (auto simp: requests_to_def split: if_splits)
  with None show ?thesis by (simp add: getTvShowGenreList_until_await_def)
qed

text \<open>One event of a run leaves a filled cache filled and sends nothing for its list.\<close>

lemma genre_step_movie_cached:
  assumes "movieGenreListCache (module_state run) \<noteq> None"
  shows "movieGenreListCache (module_state (genre_step cfg net run ev)) \<noteq> None
       \<and> requests_to ''genre/movie/list'' (module_state (genre_step cfg net run ev))
           = requests_to ''genre/movie/list'' (module_state run)"
proof (cases ev)
  case (Call kind)
  show ?thesis
  proof (cases kind)
    case MovieGenres
    from getMovieGenreList_until_await_frame [of cfg net "module_state run"] assms
    obtain c where "getMovieGenreList_until_await cfg net (module_state run) = (Inr c, module_state run)"
      by auto
    with Call MovieGenres assms show ?thesis
      by (cases c) (simp_all add: start_call_def)
  next
    case TvGenres
    from getTvShowGenreList_until_await_frame [of cfg net "module_state run"]
    obtain c st' where "getTvShowGenreList_until_await cfg net (module_state run) = (Inr c, st')"
      "movieGenreListCache st' = movieGenreListCache (module_state run)"
      "requests_to ''genre/movie/list'' st' = requests_to ''genre/movie/list'' (module_state run)"
      by auto
    with Call TvGenres assms show ?thesis
      by (cases c) (simp_all add: start_call_def)
  qed
next
  case (Resume i)
  show ?thesis
  proof (cases "i < length (suspended_calls run)")
    case False
    with Resume assms show ?thesis by (simp add: resume_call_def)
  next
    case True
    obtain kind waited where s: "suspended_calls run ! i = (kind, waited)"
      by (cases "suspended_calls run ! i") auto
    show ?thesis
    proof (cases kind)
      case MovieGenres
      obtain gs st' where a: "getMovieGenreList_after_await waited (module_state run) = (gs, st')"
        by (cases "getMovieGenreList_after_await waited (module_state run)") auto
      from getMovieGenreList_after_await_frame [OF a] Resume True s MovieGenres a assms
      show ?thesis by (auto simp: resume_call_def requests_to_def)
    next
      case TvGenres
      obtain gs st' where a: "getTvShowGenreList_after_await waited (module_state run) = (gs, st')"
        by (cases "getTvShowGenreList_after_await waited (module_state run)") auto
      from getTvShowGenreList_after_await_frame [OF a] Resume True s TvGenres a assms
      show ?thesis by (auto simp: resume_call_def requests_to_def)
    qed
  qed
qed

lemma genre_step_tv_cached:
  assumes "tvGenreListCache (module_state run) \<noteq> None"
  shows "tvGenreListCache (module_state (genre_step cfg net run ev)) \<noteq> None
       \<and> requests_to ''genre/tv/list'' (module_state (genre_step cfg net run ev))
           = requests_to ''genre/tv/list'' (module_state run)"
proof (cases ev)
  case (Call kind)
  show ?thesis
  proof (cases kind)
    case TvGenres
    from getTvShowGenreList_until_await_frame [of cfg net "module_state run"] assms
    obtain c where "getTvShowGenreList_until_await cfg net (module_state run) = (Inr c, module_state run)"
      by auto
    with Call TvGenres assms show ?thesis
      by (cases c) (simp_all add: start_call_def)
  next
    case MovieGenres
    from getMovieGenreList_until_await_frame [of cfg net "module_state run"]
    obtain c st' where "getMovieGenreList_until_await cfg net (module_state run) = (Inr c, st')"
      "tvGenreListCache st' = tvGenreListCache (module_state run)"
      "requests_to ''genre/tv/list'' st' = requests_to ''genre/tv/list'' (module_state run)"
      by auto
    with Call MovieGenres assms show ?thesis
      by (cases c) (simp_all add: start_call_def)
  qed
next
  case (Resume i)
  show ?thesis
  proof (cases "i < length (suspended_calls run)")
    case False
    with Resume assms show ?thesis by (simp add: resume_call_def)
  next
    case True
    obtain kind waited where s: "suspended_calls run ! i = (kind, waited)"
      by (cases "suspended_calls run ! i") auto
    show ?thesis
    proof (cases kind)
      case MovieGenres
      obtain gs st' where a: "getMovieGenreList_after_await waited (module_state run) = (gs, st')"
        by (cases "getMovieGenreList_after_await waited (module_state run)") auto
      from getMovieGenreList_after_await_frame [OF a] Resume True s MovieGenres a assms
      show ?thesis by (auto simp: resume_call_def requests_to_def)
    next
      case TvGenres
      obtain gs st' where a: "getTvShowGenreList_after_await waited (module_state run) = (gs, st')"
        by (cases "getTvShowGenreList_after_await waited (module_state run)") auto
      from getTvShowGenreList_after_await_frame [OF a] Resume True s TvGenres a assms
      show ?thesis by (auto simp: resume_call_def requests_to_def)
    qed
  qed
qed

lemma run_events_movie_cached:
  "movieGenreListCache (module_state run) \<noteq> None \<Longrightarrow>
     movieGenreListCache (module_state (run_events cfg net events run)) \<noteq> None
     \<and> requests_to ''genre/movie/list'' (module_state (run_events cfg net events run))
         = requests_to ''genre/movie/list'' (module_state run)"
proof (induction events arbitrary: run)
  case Nil
  then show ?case by (simp add: run_events_def)
next
  case (Cons ev events)
  from genre_step_movie_cached [OF Cons.prems, of cfg net ev] Cons.IH [of "genre_step cfg net run ev"]
  show ?case by (simp add: run_events_def)
qed

lemma run_events_tv_cached:
  "tvGenreListCache (module_state run) \<noteq> None \<Longrightarrow>
     tvGenreListCache (module_state (run_events cfg net events run)) \<noteq> None
     \<and> requests_to ''genre/tv/list'' (module_state (run_events cfg net events run))
         = requests_to ''genre/tv/list'' (module_state run)"
proof (induction events arbitrary: run)
  case Nil
  then show ?case by (simp add: run_events_def)
next
  case (Cons ev events)
  from genre_step_tv_cached [OF Cons.prems, of cfg net ev] Cons.IH [of "genre_step cfg net run ev"]
  show ?case by (simp add: run_events_def)
qed

lemma movie_genre_list_facts:
  "(movieGenreListCache st = Some gs
      \<longrightarrow> getMovieGenreList_until_await cfg net st = (Inr (Returned gs), st)
        \<and> call_repeatedly (getMovieGenreList cfg net) n st = (replicate n (Inr gs), st))
   \<and> (movieGenreListCache (module_state run) \<noteq> None
      \<longrightarrow> movieGenreListCache (module_state (run_events cfg net events run)) \<noteq> None
        \<and> requests_to ''genre/movie/list'' (module_state (run_events cfg net events run))
            = requests_to ''genre/movie/list'' (module_state run))
   \<and> (movieGenreListCache st = None
      \<longrightarrow> (case fetched_genres (fst (fetchTMDB cfg net ''genre/movie/list'' [] GET JUndefined st)) of
            Some fetched \<Rightarrow> fst (getMovieGenreList cfg net st) = Inr fetched
                       \<and> movieGenreListCache (snd (getMovieGenreList cfg net st)) = Some fetched
          | None \<Rightarrow> fst (getMovieGenreList cfg net st) = Inr []
                    \<and> movieGenreListCache (snd (getMovieGenreList cfg net st)) = None)
        \<and> (credentials_configured cfg
             \<longrightarrow> length (requests (snd (getMovieGenreList cfg net st))) = Suc (length (requests st))
               \<and> (\<exists>waited st'. getMovieGenreList_until_await cfg net st = (Inr (Suspended waited), st')
                     \<and> length (requests_to ''genre/movie/list'' st') = Suc (length (requests_to ''genre/movie/list'' st))
                     \<and> movieGenreListCache st' = None)))
   \<and> (request_failed outcome
      \<longrightarrow> fst (getMovieGenreList_after_await (InFlight endpoint outcome) st) = []
        \<and> movieGenreListCache (snd (getMovieGenreList_after_await (InFlight endpoint outcome) st)) = movieGenreListCache st)
   \<and> (response_ok status \<and> status \<noteq> 204
      \<longrightarrow> fst (getMovieGenreList_after_await
                 (InFlight endpoint (Response status (Json \<lparr>genres = Some fetched\<rparr>))) st) = fetched
        \<and> movieGenreListCache (snd (getMovieGenreList_after_await
                 (InFlight endpoint (Response status (Json \<lparr>genres = Some fetched\<rparr>))) st)) = Some fetched)
   \<and> tvGenreListCache (snd (getMovieGenreList cfg net st)) = tvGenreListCache st"
proof (intro conjI impI)
  assume c: "movieGenreListCache st = Some gs"
  then show u: "getMovieGenreList_until_await cfg net st = (Inr (Returned gs), st)"
    by (simp add: getMovieGenreList_until_await_def)
  from c show "call_repeatedly (getMovieGenreList cfg net) n st = (replicate n (Inr gs), st)"
    by (auto intro!: call_repeatedly_fixed simp: getMovieGenreList_alone)
next
  assume "movieGenreListCache (module_state run) \<noteq> None"
  from run_events_movie_cached [OF this, of cfg net events]
  show "movieGenreListCache (module_state (run_events cfg net events run)) \<noteq> None"
    and "requests_to ''genre/movie/list'' (module_state (run_events cfg net events run))
            = requests_to ''genre/movie/list'' (module_state run)"
    by simp_all
next
  assume c: "movieGenreListCache st = None"
  from getMovieGenreList_uncached [OF c, of cfg net]
  show "case fetched_genres (fst (fetchTMDB cfg net ''genre/movie/list'' [] GET JUndefined st)) of
            Some fetched \<Rightarrow> fst (getMovieGenreList cfg net st) = Inr fetched
                       \<and> movieGenreListCache (snd (getMovieGenreList cfg net st)) = Some fetched
          | None \<Rightarrow> fst (getMovieGenreList cfg net st) = Inr []
                    \<and> movieGenreListCache (snd (getMovieGenreList cfg net st)) = None"
    by simp
  assume cc: "credentials_configured cfg"
  from getMovieGenreList_uncached [OF c, of cfg net] fetchTMDB_get_sends [OF cc, of net "''genre/movie/list''" "[]" st]
  show "length (requests (snd (getMovieGenreList cfg net st))) = Suc (length (requests st))"
    by simp
  from fetchTMDB_until_await_get [of cfg net "''genre/movie/list''" "[]" st] cc c
  show "\<exists>waited st'. getMovieGenreList_until_await cfg net st = (Inr (Suspended waited), st')
                     \<and> length (requests_to ''genre/movie/list'' st') = Suc (length (requests_to ''genre/movie/list'' st))
                     \<and> movieGenreListCache st' = None"
    by (auto simp: getMovieGenreList_until_await_def requests_to_def)
next
  assume f: "request_failed outcome"
  from handle_outcome_failed [OF f, of endpoint st]
  obtain st' where h: "handle_outcome endpoint outcome st = (Null, st')"
    by (cases "handle_outcome endpoint outcome st") auto
  from handle_outcome_frame [OF h] h
  show "fst (getMovieGenreList_after_await (InFlight endpoint outcome) st) = []"
    and "movieGenreListCache (snd (getMovieGenreList_after_await (InFlight endpoint outcome) st)) = movieGenreListCache st"
    by (simp_all add: getMovieGenreList_after_await_def fetchTMDB_after_await_def)
next
  assume "response_ok status \<and> status \<noteq> 204"
  then have h: "handle_outcome endpoint (Response status (Json \<lparr>genres = Some fetched\<rparr>)) st
                  = (Value \<lparr>genres = Some fetched\<rparr>, st)"
    by (simp add: handle_outcome_def)
  then show "fst (getMovieGenreList_after_await
                 (InFlight endpoint (Response status (Json \<lparr>genres = Some fetched\<rparr>))) st) = fetched"
    and "movieGenreListCache (snd (getMovieGenreList_after_await
                 (InFlight endpoint (Response status (Json \<lparr>genres = Some fetched\<rparr>))) st)) = Some fetched"
    by (simp_all add: getMovieGenreList_after_await_def fetchTMDB_after_await_def log_to_def)
next
  show "tvGenreListCache (snd (getMovieGenreList cfg net st)) = tvGenreListCache st"
  proof (cases "movieGenreListCache st")
    case None
    then show ?thesis using getMovieGenreList_uncached [of st cfg net] by simp
  next
    case (Some a)
    then show ?thesis by (simp add: getMovieGenreList_alone)
  qed
qed

lemma tv_genre_list_facts:
  "(tvGenreListCache st = Some gs
      \<longrightarrow> getTvShowGenreList_until_await cfg net st = (Inr (Returned gs), st)
        \<and> call_repeatedly (getTvShowGenreList cfg net) n st = (replicate n (Inr gs), st))
   \<and> (tvGenreListCache (module_state run) \<noteq> None
      \<longrightarrow> tvGenreListCache (module_state (run_events cfg net events run)) \<noteq> None
        \<and> requests_to ''genre/tv/list'' (module_state (run_events cfg net events run))
            = requests_to ''genre/tv/list'' (module_state run))
   \<and> (tvGenreListCache st = None
      \<longrightarrow> (case fetched_genres (fst (fetchTMDB cfg net ''genre/tv/list'' [] GET JUndefined st)) of
            Some fetched \<Rightarrow> fst (getTvShowGenreList cfg net st) = Inr fetched
                       \<and> tvGenreListCache (snd (getTvShowGenreList cfg net st)) = Some fetched
          | None \<Rightarrow> fst (getTvShowGenreList cfg net st) = Inr []
                    \<and> tvGenreListCache (snd (getTvShowGenreList cfg net st)) = None)
        \<and> (credentials_configured cfg
             \<longrightarrow> length (requests (snd (getTvShowGenreList cfg net st))) = Suc (length (requests st))
               \<and> (\<exists>waited st'. getTvShowGenreList_until_await cfg net st = (Inr (Suspended waited), st')
                     \<and> length (requests_to ''genre/tv/list'' st') = Suc (length (requests_to ''genre/tv/list'' st))
                     \<and> tvGenreListCache st' = None)))
   \<and> (request_failed outcome
      \<longrightarrow> fst (getTvShowGenreList_after_await (InFlight endpoint outcome) st) = []
        \<and> tvGenreListCache (snd (getTvShowGenreList_after_await (InFlight endpoint outcome) st)) = tvGenreListCache st)
   \<and> (response_ok status \<and> status \<noteq> 204
      \<longrightarrow> fst (getTvShowGenreList_after_await
                 (InFlight endpoint (Response status (Json \<lparr>genres = Some fetched\<rparr>))) st) = fetched
        \<and> tvGenreListCache (snd (getTvShowGenreList_after_await
                 (InFlight endpoint (Response status (Json \<lparr>genres = Some fetched\<rparr>))) st)) = Some fetched)
   \<and> movieGenreListCache (snd (getTvShowGenreList cfg net st)) = movieGenreListCache st"
proof (intro conjI impI)
  assume c: "tvGenreListCache st = Some gs"
  then show u: "getTvShowGenreList_until_await cfg net st = (Inr (Returned gs), st)"
    by (simp add: getTvShowGenreList_until_await_def)
  from c show "call_repeatedly (getTvShowGenreList cfg net) n st = (replicate n (Inr gs), st)"
    by (auto intro!: call_repeatedly_fixed simp: getTvShowGenreList_alone)
next
  assume "tvGenreListCache (module_state run) \<noteq> None"
  from run_events_tv_cached [OF this, of cfg net events]
  show "tvGenreListCache (module_state (run_events cfg net events run)) \<noteq> None"
    and "requests_to ''genre/tv/list'' (module_state (run_events cfg net events run))
            = requests_to ''genre/tv/list'' (module_state run)"
    by simp_all
next
  assume c: "tvGenreListCache st = None"
  from getTvShowGenreList_uncached [OF c, of cfg net]
  show "case fetched_genres (fst (fetchTMDB cfg net ''genre/tv/list'' [] GET JUndefined st)) of
            Some fetched \<Rightarrow> fst (getTvShowGenreList cfg net st) = Inr fetched
                       \<and> tvGenreListCache (snd (getTvShowGenreList cfg net st)) = Some fetched
          | None \<Rightarrow> fst (getTvShowGenreList cfg net st) = Inr []
                    \<and> tvGenreListCache (snd (getTvShowGenreList cfg net st)) = None"
    by simp
  assume cc: "credentials_configured cfg"
  from getTvShowGenreList_uncached [OF c, of cfg net] fetchTMDB_get_sends [OF cc, of net "''genre/tv/list''" "[]" st]
  show "length (requests (snd (getTvShowGenreList cfg net st))) = Suc (length (requests st))"
    by simp
  from fetchTMDB_until_await_get [of cfg net "''genre/tv/list''" "[]" st] cc c
  show "\<exists>waited st'. getTvShowGenreList_until_await cfg net st = (Inr (Suspended waited), st')
                     \<and> length (requests_to ''genre/tv/list'' st') = Suc (length (requests_to ''genre/tv/list'' st))
                     \<and> tvGenreListCache st' = None"
    by (auto simp: getTvShowGenreList_until_await_def requests_to_def)
next
  assume f: "request_failed outcome"
  from handle_outcome_failed [OF f, of endpoint st]
  obtain st' where h: "handle_outcome endpoint outcome st = (Null, st')"
    by (cases "handle_outcome endpoint outcome st") auto
  from handle_outcome_frame [OF h] h
  show "fst (getTvShowGenreList_after_await (InFlight endpoint outcome) st) = []"
    and "tvGenreListCache (snd (getTvShowGenreList_after_await (InFlight endpoint outcome) st)) = tvGenreListCache st"
    by (simp_all add: getTvShowGenreList_after_await_def fetchTMDB_after_await_def)
next
  assume "response_ok status \<and> status \<noteq> 204"
  then have h: "handle_outcome endpoint (Response status (Json \<lparr>genres = Some fetched\<rparr>)) st
                  = (Value \<lparr>genres = Some fetched\<rparr>, st)"
    by (simp add: handle_outcome_def)
  then show "fst (getTvShowGenreList_after_await
                 (InFlight endpoint (Response status (Json \<lparr>genres = Some fetched\<rparr>))) st) = fetched"
    and "tvGenreListCache (snd (getTvShowGenreList_after_await
                 (InFlight endpoint (Response status (Json \<lparr>genres = Some fetched\<rparr>))) st)) = Some fetched"
    by (simp_all add: getTvShowGenreList_after_await_def fetchTMDB_after_await_def log_to_def)
next
  show "movieGenreListCache (snd (getTvShowGenreList cfg net st)) = movieGenreListCache st"
  proof (cases "tvGenreListCache st")
    case None
    then show ?thesis using getTvShowGenreList_uncached [of st cfg net] by simp
  next
    case (Some a)
    then show ?thesis by (simp add: getTvShowGenreList_alone)
  qed
qed

text \<open>
  C8, amended. Once a genre list is cached, a call returns it at once, without waiting and
  without a request, and leaves the module state as it is; and whatever calls of the two
  functions start and go on afterwards, in whatever order, the cache stays filled and no
  request for that list is sent again. While the cache is empty, a call fetches: with
  credentials it sends one request and is suspended with the cache still empty, so every
  call that starts before a list is stored sends a request of its own. When the call goes
  on, a failed fetch returns the empty list and leaves the cache as it was, so a later call
  retries; a fetch that brought a list returns it and stores it. Calls that do not overlap
  therefore fetch successfully at most once. Each kind has its own cache.
\<close>

theorem genre_list_cached_after_first_success:
  "((movieGenreListCache st = Some gs
      \<longrightarrow> getMovieGenreList_until_await cfg net st = (Inr (Returned gs), st)
        \<and> call_repeatedly (getMovieGenreList cfg net) n st = (replicate n (Inr gs), st))
   \<and> (movieGenreListCache (module_state run) \<noteq> None
      \<longrightarrow> movieGenreListCache (module_state (run_events cfg net events run)) \<noteq> None
        \<and> requests_to ''genre/movie/list'' (module_state (run_events cfg net events run))
            = requests_to ''genre/movie/list'' (module_state run))
   \<and> (movieGenreListCache st = None
      \<longrightarrow> (case fetched_genres (fst (fetchTMDB cfg net ''genre/movie/list'' [] GET JUndefined st)) of
            Some fetched \<Rightarrow> fst (getMovieGenreList cfg net st) = Inr fetched
                       \<and> movieGenreListCache (snd (getMovieGenreList cfg net st)) = Some fetched
          | None \<Rightarrow> fst (getMovieGenreList cfg net st) = Inr []
                    \<and> movieGenreListCache (snd (getMovieGenreList cfg net st)) = None)
        \<and> (credentials_configured cfg
             \<longrightarrow> length (requests (snd (getMovieGenreList cfg net st))) = Suc (length (requests st))
               \<and> (\<exists>waited st'. getMovieGenreList_until_await cfg net st = (Inr (Suspended waited), st')
                     \<and> length (requests_to ''genre/movie/list'' st') = Suc (length (requests_to ''genre/movie/list'' st))
                     \<and> movieGenreListCache st' = None)))
   \<and> (request_failed outcome
      \<longrightarrow> fst (getMovieGenreList_after_await (InFlight endpoint outcome) st) = []
        \<and> movieGenreListCache (snd (getMovieGenreList_after_await (InFlight endpoint outcome) st)) = movieGenreListCache st)
   \<and> (response_ok status \<and> status \<noteq> 204
      \<longrightarrow> fst (getMovieGenreList_after_await
                 (InFlight endpoint (Response status (Json \<lparr>genres = Some fetched\<rparr>))) st) = fetched
        \<and> movieGenreListCache (snd (getMovieGenreList_after_await
                 (InFlight endpoint (Response status (Json \<lparr>genres = Some fetched\<rparr>))) st)) = Some fetched)
   \<and> tvGenreListCache (snd (getMovieGenreList cfg net st)) = tvGenreListCache st)
   \<and> ((tvGenreListCache st = Some gs
         \<longrightarrow> getTvShowGenreList_until_await cfg net st = (Inr (Returned gs), st)
           \<and> call_repeatedly (getTvShowGenreList cfg net) n st = (replicate n (Inr gs), st))
      \<and> (tvGenreListCache (module_state run) \<noteq> None
         \<longrightarrow> tvGenreListCache (module_state (run_events cfg net events run)) \<noteq> None
           \<and> requests_to ''genre/tv/list'' (module_state (run_events cfg net events run))
               = requests_to ''genre/tv/list'' (module_state run))
      \<and> (tvGenreListCache st = None
         \<longrightarrow> (case fetched_genres (fst (fetchTMDB cfg net ''genre/tv/list'' [] GET JUndefined st)) of
               Some fetched \<Rightarrow> fst (getTvShowGenreList cfg net st) = Inr fetched
                          \<and> tvGenreListCache (snd (getTvShowGenreList cfg net st)) = Some fetched
             | None \<Rightarrow> fst (getTvShowGenreList cfg net st) = Inr []
                       \<and> tvGenreListCache (snd (getTvShowGenreList cfg net st)) = None)
           \<and> (credentials_configured cfg
                \<longrightarrow> length (requests (snd (getTvShowGenreList cfg net st))) = Suc (length (requests st))
                  \<and> (\<exists>waited st'. getTvShowGenreList_until_await cfg net st = (Inr (Suspended waited), st')
                        \<and> length (requests_to ''genre/tv/list'' st') = Suc (length (requests_to ''genre/tv/list'' st))
                        \<and> tvGenreListCache st' = None)))
      \<and> (request_failed outcome
         \<longrightarrow> fst (getTvShowGenreList_after_await (InFlight endpoint outcome) st) = []
           \<and> tvGenreListCache (snd (getTvShowGenreList_after_await (InFlight endpoint outcome) st)) = tvGenreListCache st)
      \<and> (response_ok status \<and> status \<noteq> 204
         \<longrightarrow> fst (getTvShowGenreList_after_await
                    (InFlight endpoint (Response status (Json \<lparr>genres = Some fetched\<rparr>))) st) = fetched
           \<and> tvGenreListCache (snd (getTvShowGenreList_after_await
                    (InFlight endpoint (Response status (Json \<lparr>genres = Some fetched\<rparr>))) st)) = Some fetched)
      \<and> movieGenreListCache (snd (getTvShowGenreList cfg net st)) = movieGenreListCache st)"
  by (rule conjI [OF movie_genre_list_facts tv_genre_list_facts])

text \<open>
  The theorem on a remote source whose first answer fails: the first call returns the empty
  list and leaves the cache empty, the second fetches and caches, three more calls send
  nothing; and with the cache filled, calls of both kinds that overlap send no request for
  the movie list.
\<close>

theorem genre_list_cached_after_first_success_witness:
  "fst (getMovieGenreList token_config drama_net state0) = Inr []
   \<and> movieGenreListCache (snd (getMovieGenreList token_config drama_net state0)) = None
   \<and> length (requests (snd (getMovieGenreList token_config drama_net state0))) = 1
   \<and> fst (getMovieGenreList token_config drama_net (snd (getMovieGenreList token_config drama_net state0)))
       = Inr [\<lparr>genre_id = 18, genre_name = ''Drama''\<rparr>]
   \<and> call_repeatedly (getMovieGenreList token_config drama_net) 3
        (snd (getMovieGenreList token_config drama_net (snd (getMovieGenreList token_config drama_net state0))))
       = (replicate 3 (Inr [\<lparr>genre_id = 18, genre_name = ''Drama''\<rparr>]),
          snd (getMovieGenreList token_config drama_net (snd (getMovieGenreList token_config drama_net state0))))
   \<and> requests_to ''genre/movie/list''
        (module_state (run_events token_config steady_net
           [Call MovieGenres, Call TvGenres, Call MovieGenres, Resume 0, Call TvGenres]
           \<lparr>module_state = cached_state, suspended_calls = [], returned_lists = []\<rparr>)) = []
   \<and> fst (getMovieGenreList_after_await (InFlight ''genre/movie/list'' TransportError) state0) = []
   \<and> movieGenreListCache
        (snd (getMovieGenreList_after_await (InFlight ''genre/movie/list'' TransportError) state0)) = None
   \<and> fst (getMovieGenreList_after_await
             (InFlight ''genre/movie/list'' (Response 200 (Json \<lparr>genres = Some two_genres\<rparr>))) state0)
       = two_genres
   \<and> movieGenreListCache (snd (getMovieGenreList_after_await
             (InFlight ''genre/movie/list'' (Response 200 (Json \<lparr>genres = Some two_genres\<rparr>))) state0))
       = Some two_genres
   \<and> fst (getTvShowGenreList token_config steady_net state0)
       = Inr [\<lparr>genre_id = 18, genre_name = ''Drama''\<rparr>]
   \<and> tvGenreListCache (snd (getTvShowGenreList token_config steady_net state0))
       = Some [\<lparr>genre_id = 18, genre_name = ''Drama''\<rparr>]
   \<and> movieGenreListCache (snd (getTvShowGenreList token_config steady_net state0)) = None"
proof -
  let ?s1 = "snd (getMovieGenreList token_config drama_net state0)"
  let ?s2 = "snd (getMovieGenreList token_config drama_net ?s1)"
  let ?drama = "[\<lparr>genre_id = 18, genre_name = ''Drama''\<rparr>]"
  let ?run = "\<lparr>module_state = cached_state, suspended_calls = [], returned_lists = []\<rparr>"
  have cfg: "credentials_configured token_config"
    by (simp add: credentials_configured_def token_config_def env_truthy_def)
  have c0: "movieGenreListCache state0 = None"
    by (simp add: state0_def)
  have f0: "fetched_genres (fst (fetchTMDB token_config drama_net ''genre/movie/list'' [] GET JUndefined state0)) = None"
    by (simp add: fetched_genres_def fetchTMDB_def prepare_request_def try_fetch_def handle_outcome_def
          token_config_def drama_net_def state0_def env_truthy_def env_text_def log_to_def)
  have first: "fst (getMovieGenreList token_config drama_net state0) = Inr []
    \<and> movieGenreListCache ?s1 = None \<and> length (requests ?s1) = 1"
    using genre_list_cached_after_first_success [where st = state0 and cfg = token_config
        and net = drama_net] cfg c0 f0
    by (simp add: state0_def)
  then have r1: "requests ?s1 \<noteq> []" by auto
  have f1: "fetched_genres (fst (fetchTMDB token_config drama_net ''genre/movie/list'' [] GET JUndefined ?s1)) = Some ?drama"
    using r1
    by (simp add: fetched_genres_def fetchTMDB_def prepare_request_def try_fetch_def handle_outcome_def
          token_config_def drama_net_def env_truthy_def env_text_def log_to_def response_ok_def)
  have second: "fst (getMovieGenreList token_config drama_net ?s1) = Inr ?drama
    \<and> movieGenreListCache ?s2 = Some ?drama"
    using genre_list_cached_after_first_success [where st = ?s1 and cfg = token_config
        and net = drama_net] first f1
    by simp
  have third: "call_repeatedly (getMovieGenreList token_config drama_net) 3 ?s2
       = (replicate 3 (Inr ?drama), ?s2)"
    using genre_list_cached_after_first_success [where st = ?s2 and gs = ?drama
        and cfg = token_config and net = drama_net and n = 3] second
    by simp
  have filled: "movieGenreListCache (module_state ?run) \<noteq> None"
    and none: "requests_to ''genre/movie/list'' (module_state ?run) = []"
    by (simp_all add: cached_state_def state0_def requests_to_def)
  have fourth: "requests_to ''genre/movie/list''
        (module_state (run_events token_config steady_net
           [Call MovieGenres, Call TvGenres, Call MovieGenres, Resume 0, Call TvGenres] ?run)) = []"
    using genre_list_cached_after_first_success [where run = ?run and cfg = token_config
        and net = steady_net
        and events = "[Call MovieGenres, Call TvGenres, Call MovieGenres, Resume 0, Call TvGenres]"]
      filled none
    by simp
  have failed: "request_failed (TransportError :: genre_response fetch_outcome)"
    by (simp add: request_failed_def)
  have fifth: "fst (getMovieGenreList_after_await (InFlight ''genre/movie/list'' TransportError) state0) = []
    \<and> movieGenreListCache
        (snd (getMovieGenreList_after_await (InFlight ''genre/movie/list'' TransportError) state0)) = None"
    using genre_list_cached_after_first_success [where st = state0 and outcome = TransportError
        and endpoint = "''genre/movie/list''"] failed c0
    by simp
  have ok: "response_ok 200 \<and> (200::nat) \<noteq> 204"
    by (simp add: response_ok_def)
  have sixth: "fst (getMovieGenreList_after_await
             (InFlight ''genre/movie/list'' (Response 200 (Json \<lparr>genres = Some two_genres\<rparr>))) state0)
       = two_genres
    \<and> movieGenreListCache (snd (getMovieGenreList_after_await
             (InFlight ''genre/movie/list'' (Response 200 (Json \<lparr>genres = Some two_genres\<rparr>))) state0))
       = Some two_genres"
    using genre_list_cached_after_first_success [where st = state0 and status = 200
        and fetched = two_genres and endpoint = "''genre/movie/list''"] ok
    by simp
  have t0: "tvGenreListCache state0 = None"
    by (simp add: state0_def)
  have ft: "fetched_genres (fst (fetchTMDB token_config steady_net ''genre/tv/list'' [] GET JUndefined state0))
              = Some ?drama"
    by (simp add: fetched_genres_def fetchTMDB_def prepare_request_def try_fetch_def handle_outcome_def
          token_config_def steady_net_def state0_def env_truthy_def env_text_def log_to_def
          response_ok_def)
  have seventh: "fst (getTvShowGenreList token_config steady_net state0) = Inr ?drama
    \<and> tvGenreListCache (snd (getTvShowGenreList token_config steady_net state0)) = Some ?drama
    \<and> movieGenreListCache (snd (getTvShowGenreList token_config steady_net state0)) = None"
    using genre_list_cached_after_first_success [where st = state0 and cfg = token_config
        and net = steady_net] t0 c0 ft
    by simp
  show ?thesis
    using first second third fourth fifth sixth seventh by simp
qed

text \<open>
  C8 as stated fails: two calls of \<open>getMovieGenreList\<close> that both start before either goes
  on both find the cache empty, so the list is fetched twice in one process, each time with
  success.
\<close>

theorem overlapping_calls_fetch_twice:
  "map req_endpoint (requests (module_state two_overlapping_calls))
     = [''genre/movie/list'', ''genre/movie/list'']
   \<and> length (requests_to ''genre/movie/list'' (module_state two_overlapping_calls)) = 2
   \<and> returned_lists two_overlapping_calls
     = [(MovieGenres, Inr [\<lparr>genre_id = 18, genre_name = ''Drama''\<rparr>]),
        (MovieGenres, Inr [\<lparr>genre_id = 18, genre_name = ''Drama''\<rparr>])]
   \<and> suspended_calls two_overlapping_calls = []
   \<and> movieGenreListCache (module_state two_overlapping_calls)
     = Some [\<lparr>genre_id = 18, genre_name = ''Drama''\<rparr>]"
  by (simp add: two_overlapping_calls_def process_start_def run_events_def start_call_def
        resume_call_def getMovieGenreList_until_await_def getMovieGenreList_after_await_def
        fetchTMDB_until_await_def fetchTMDB_after_await_def handle_outcome_def
        prepare_request_def token_config_def steady_net_def state0_def env_truthy_def
        env_text_def log_to_def response_ok_def requests_to_def)

lemma resolve_genre_ids_map_filter:
  "resolve_genre_ids full ids = List.map_filter (\<lambda>i. find (\<lambda>g. genre_id g = i) full) ids"
  by (induction ids) (auto simp: resolve_genre_ids_def List.map_filter_def)

lemma find_genre_id:
  "find (\<lambda>g. genre_id g = i) full = Some g \<Longrightarrow> genre_id g = i \<and> g \<in> set full"
  by (induction full) (auto split: if_splits)

lemma find_genre_None:
  "find (\<lambda>g. genre_id g = i) full = None \<longleftrightarrow> i \<notin> genre_id ` set full"
  by (induction full) auto

lemma resolve_genre_ids_ids:
  "map genre_id (resolve_genre_ids full ids) = filter (\<lambda>i. i \<in> genre_id ` set full) ids"
proof (induction ids)
  case Nil
  then show ?case by (simp add: resolve_genre_ids_def)
next
  case (Cons i ids)
  show ?case
  proof (cases "find (\<lambda>g. genre_id g = i) full")
    case None
    then have "i \<notin> genre_id ` set full" by (simp add: find_genre_None)
    with None Cons show ?thesis by (simp add: resolve_genre_ids_def)
  next
    case (Some g)
    then have "genre_id g = i" "g \<in> set full" using find_genre_id by blast+
    with Some Cons show ?thesis by (auto simp: resolve_genre_ids_def)
  qed
qed

lemma resolve_genre_ids_subset:
  "set (resolve_genre_ids full ids) \<subseteq> set full"
  by (auto simp: resolve_genre_ids_map_filter List.map_filter_def dest: find_genre_id)

lemma find_distinct_ids:
  "distinct (map genre_id full) \<Longrightarrow> g \<in> set full \<Longrightarrow> find (\<lambda>h. genre_id h = genre_id g) full = Some g"
  by (induction full) (auto simp: image_iff)

lemma resolve_genre_ids_exact:
  assumes "distinct (map genre_id full)"
  shows "set (resolve_genre_ids full ids) = {g \<in> set full. genre_id g \<in> set ids}"
proof
  show "set (resolve_genre_ids full ids) \<subseteq> {g \<in> set full. genre_id g \<in> set ids}"
    by (auto simp: resolve_genre_ids_map_filter List.map_filter_def dest: find_genre_id)
next
  show "{g \<in> set full. genre_id g \<in> set ids} \<subseteq> set (resolve_genre_ids full ids)"
  proof
    fix g assume "g \<in> {g \<in> set full. genre_id g \<in> set ids}"
    then have g: "g \<in> set full" "genre_id g \<in> set ids" by auto
    have "find (\<lambda>h. genre_id h = genre_id g) full = Some g"
      using find_distinct_ids [OF assms g(1)] .
    with g(2) show "g \<in> set (resolve_genre_ids full ids)"
      by (force simp: resolve_genre_ids_map_filter List.map_filter_def image_iff)
  qed
qed

text \<open>
  C9. For an absent or empty input \<open>mapMovieGenreIdsToObjects\<close> returns the empty list and
  leaves the module state as it is (no fetch). Otherwise it returns, for each input id in
  the input's order, the genre the full list has for it, and drops the ids the full list
  does not know: the ids of the result are the known input ids in order, every result is a
  genre of the full list, and when the full list has no id twice the results are exactly
  its genres whose ids occur in the input.
\<close>

theorem mapMovieGenreIdsToObjects_resolves:
  "(genre_ids = None \<or> genre_ids = Some []
      \<longrightarrow> mapMovieGenreIdsToObjects cfg net genre_ids st = (Inr [], st))
   \<and> (genre_ids = Some ids \<and> ids \<noteq> []
      \<longrightarrow> (\<exists>fullGenreList st' result.
             getMovieGenreList cfg net st = (Inr fullGenreList, st')
             \<and> mapMovieGenreIdsToObjects cfg net genre_ids st = (Inr result, st')
             \<and> result = List.map_filter (\<lambda>i. find (\<lambda>g. genre_id g = i) fullGenreList) ids
             \<and> map genre_id result = filter (\<lambda>i. i \<in> genre_id ` set fullGenreList) ids
             \<and> set result \<subseteq> set fullGenreList
             \<and> (distinct (map genre_id fullGenreList)
                  \<longrightarrow> set result = {g \<in> set fullGenreList. genre_id g \<in> set ids})))"
proof -
  have absent: "genre_ids = None \<or> genre_ids = Some []
      \<longrightarrow> mapMovieGenreIdsToObjects cfg net genre_ids st = (Inr [], st)"
    by (auto simp: mapMovieGenreIdsToObjects_def)
  obtain full st' where g: "getMovieGenreList cfg net st = (Inr full, st')"
    using getMovieGenreList_returns by blast
  have "genre_ids = Some ids \<and> ids \<noteq> []
      \<longrightarrow> mapMovieGenreIdsToObjects cfg net genre_ids st = (Inr (resolve_genre_ids full ids), st')"
    using g by (auto simp: mapMovieGenreIdsToObjects_def)
  then show ?thesis
    using absent g resolve_genre_ids_map_filter [of full ids] resolve_genre_ids_ids [of full ids]
      resolve_genre_ids_subset [of full ids] resolve_genre_ids_exact [of full ids]
    by auto
qed

text \<open>The theorem with two cached genres, an unknown id and a repeated one.\<close>

theorem mapMovieGenreIdsToObjects_resolves_witness:
  "mapMovieGenreIdsToObjects token_config drama_net None cached_state = (Inr [], cached_state)
   \<and> mapMovieGenreIdsToObjects token_config drama_net (Some [35, 99, 18, 35]) cached_state
       = (Inr [\<lparr>genre_id = 35, genre_name = ''Comedy''\<rparr>, \<lparr>genre_id = 18, genre_name = ''Drama''\<rparr>,
               \<lparr>genre_id = 35, genre_name = ''Comedy''\<rparr>], cached_state)"
proof -
  have g: "getMovieGenreList token_config drama_net cached_state = (Inr two_genres, cached_state)"
    by (simp add: getMovieGenreList_alone cached_state_def)
  have a: "mapMovieGenreIdsToObjects token_config drama_net None cached_state = (Inr [], cached_state)"
    using mapMovieGenreIdsToObjects_resolves [of None token_config drama_net cached_state "[]"]
    by simp
  have b: "mapMovieGenreIdsToObjects token_config drama_net (Some [35, 99, 18, 35]) cached_state
       = (Inr (List.map_filter (\<lambda>i. find (\<lambda>g. genre_id g = i) two_genres) [35, 99, 18, 35]), cached_state)"
    using mapMovieGenreIdsToObjects_resolves
            [of "Some [35, 99, 18, 35]" token_config drama_net cached_state "[35, 99, 18, 35]"] g
    by auto
  show ?thesis
    using a b by (simp add: List.map_filter_def two_genres_def)
qed

text \<open>
  C6, amended. With no credentials configured every remote-fetch operation writes the error
  line, sends no request and returns \<open>null\<close>; the program's start does not look at the
  credentials, so when its start-up routines return it runs the main menu and shuts down
  gracefully.
\<close>

theorem missing_credentials_null_per_request:
  assumes "\<not> credentials_configured cfg"
  shows "fetchTMDB cfg net endpoint params method body st
           = (Inr Null, st\<lparr>console := console st @ [MissingCredentials]\<rparr>)
         \<and> ((\<forall>s. returns cfg s) \<longrightarrow> main cfg returns = (ShutDownGracefully, main_steps))"
  using assms
  by (simp add: fetchTMDB_no_credentials log_to_def main_def main_steps_def)

text \<open>The theorem with neither variable set.\<close>

theorem missing_credentials_null_per_request_witness:
  "fetchTMDB no_credentials drama_net ''genre/movie/list'' [] GET JUndefined state0
       = (Inr Null, state0\<lparr>console := [MissingCredentials]\<rparr>)
   \<and> main no_credentials (\<lambda>cfg s. True) = (ShutDownGracefully, main_steps)"
proof -
  have "\<not> credentials_configured no_credentials"
    by (simp add: credentials_configured_def no_credentials_def env_truthy_def)
  from missing_credentials_null_per_request [OF this, of drama_net "''genre/movie/list''" "[]" GET
      JUndefined state0 "\<lambda>cfg s. True"]
  show ?thesis by (simp add: state0_def)
qed

text \<open>
  C6 as stated fails: with no credentials and start-up routines that return, \<open>main\<close>
  reaches the main menu and ends with a graceful shutdown, and a fetch returns \<open>null\<close>.
\<close>

theorem missing_credentials_not_fatal:
  "\<not> credentials_configured no_credentials
   \<and> fst (main no_credentials (\<lambda>cfg s. True)) = ShutDownGracefully
   \<and> RunMainCLI \<in> set (snd (main no_credentials (\<lambda>cfg s. True)))
   \<and> fst (getMovieDetails no_credentials (\<lambda>h q. (TransportError :: unit fetch_outcome)) 550 state0)
       = Inr Null"
  by (simp add: credentials_configured_def no_credentials_def env_truthy_def main_def main_steps_def
        getMovieDetails_def fetchTMDB_def)

section \<open>Properties of the restaurant store\<close>

lemma select_by_googlePlaceId_append:
  "select_by_googlePlaceId table p = None \<Longrightarrow> row_googlePlaceId row = p
   \<Longrightarrow> select_by_googlePlaceId (table @ [row]) p = Some row"
  unfolding select_by_googlePlaceId_def
  by (induction table) (auto split: if_splits)

lemma saveRestaurantToDb_existing:
  "select_by_googlePlaceId table (googlePlaceId d) = Some existing
   \<Longrightarrow> saveRestaurantToDb faulty table d = (Some (AsStored existing), table)"
  by (simp add: saveRestaurantToDb_def)

lemma saveRestaurantToDb_new:
  assumes "select_by_googlePlaceId table (googlePlaceId d) = None"
  shows "snd (saveRestaurantToDb faulty table d) = table
         \<or> (\<exists>row. snd (saveRestaurantToDb faulty table d) = table @ [row]
                  \<and> row_googlePlaceId row = googlePlaceId d)"
  using assms
  by (auto simp: saveRestaurantToDb_def insert_restaurant_def Let_def)



section \<open>Properties of the recommendation engine\<close>

lemma merge_first_seen_ids:
  "remote_id ` set (merge_first_seen seen items) = remote_id ` set items - set seen"
  by (induction seen items rule: merge_first_seen.induct) auto

lemma merge_first_seen_distinct:
  "distinct (map remote_id (merge_first_seen seen items))"
proof (induction seen items rule: merge_first_seen.induct)
  case (1 seen)
  then show ?case by simp
next
  case (2 seen item items)
  have "remote_id item \<notin> remote_id ` set (merge_first_seen (remote_id item # seen) items)"
    by (simp add: merge_first_seen_ids)
  with 2 show ?case by auto
qed

lemma merge_first_seen_first:
  "item \<in> set (merge_first_seen seen items)
   \<Longrightarrow> find (\<lambda>other. remote_id other = remote_id item) items = Some item"
proof (induction seen items rule: merge_first_seen.induct)
  case (1 seen)
  then show ?case by simp
next
  case (2 seen first items)
  show ?case
  proof (cases "remote_id first \<in> set seen")
    case True
    with "2.prems" have kept: "item \<in> set (merge_first_seen seen items)" by simp
    then have "remote_id item \<in> remote_id ` set items - set seen"
      using merge_first_seen_ids [of seen items] by blast
    with True have "remote_id first \<noteq> remote_id item" by auto
    with "2.IH"(1) [OF True kept] show ?thesis by simp
  next
    case False
    show ?thesis
    proof (cases "item = first")
      case True
      then show ?thesis by simp
    next
      case other: False
      with False "2.prems"
      have kept: "item \<in> set (merge_first_seen (remote_id first # seen) items)" by simp
      then have "remote_id item \<in> remote_id ` set items - set (remote_id first # seen)"
        using merge_first_seen_ids [of "remote_id first # seen" items] by blast
      then have "remote_id first \<noteq> remote_id item" by auto
      with "2.IH"(2) [OF False kept] show ?thesis by simp
    qed
  qed
qed

lemma merge_first_seen_subseq:
  "subseq (merge_first_seen seen items) items"
  by (induction seen items rule: merge_first_seen.induct) auto

lemma popularity_fallback_prefix:
  "\<exists>popular. popularity_fallback c target pagesLeft page pool = pool @ popular"
proof (induction pagesLeft arbitrary: page pool)
  case 0
  then show ?case by simp
next
  case (Suc pagesLeft)
  show ?case
  proof (cases "target \<le> distinct_count pool")
    case True
    then show ?thesis by simp
  next
    case False
    let ?got = "case fetchPopular c page of None \<Rightarrow> [] | Some items \<Rightarrow> items"
    obtain popular where
      "popularity_fallback c target pagesLeft (Suc page) (pool @ ?got) = (pool @ ?got) @ popular"
      using Suc.IH by blast
    with False show ?thesis by simp
  qed
qed

text \<open>
  C3. In one aggregation no remote id appears twice in the pool, however many seeds produced
  it. The pool holds every remote id that was fetched, and for each the first item fetched
  with it, in the order of first appearance; similarity-seeded items are fetched before the
  popularity feed.
\<close>

theorem aggregate_distinct_first_seen:
  "distinct (map remote_id (aggregate c t seeds))
   \<and> remote_id ` set (aggregate c t seeds) = remote_id ` set (fetched_items c t seeds)
   \<and> (\<forall>item \<in> set (aggregate c t seeds).
         find (\<lambda>other. remote_id other = remote_id item) (fetched_items c t seeds) = Some item)
   \<and> subseq (aggregate c t seeds) (fetched_items c t seeds)
   \<and> (\<exists>popular. fetched_items c t seeds = similar_pool c seeds @ popular)"
  unfolding aggregate_def
  using merge_first_seen_distinct [of "[]" "fetched_items c t seeds"]
    merge_first_seen_ids [of "[]" "fetched_items c t seeds"]
    merge_first_seen_first [of _ "[]" "fetched_items c t seeds"]
    merge_first_seen_subseq [of "[]" "fetched_items c t seeds"]
    popularity_fallback_prefix [of c "target_pool_size t" "page_ceiling t" 1 "similar_pool c seeds"]
  by (simp add: fetched_items_def)

text \<open>
  C1. Every item that \<open>recommend\<close> returns satisfies the preference predicate for the
  preferences given, and its remote id is not in the exclusion set supplied.
\<close>

theorem recommend_matches_and_not_excluded:
  "\<forall>item \<in> set (recommend c store t userId prefs exclusions).
     matches item prefs \<and> remote_id item \<notin> exclusions"
  by (simp add: recommend_def)

lemma scenario_aggregate:
  "aggregate scenario_catalog scenario_tuning (seed_identifiers scenario_store scenario_tuning 1)
     = [item_X, item_Y, item_C]"
  by (simp add: aggregate_def fetched_items_def seed_identifiers_def similar_pool_def
        scenario_catalog_def scenario_store_def scenario_tuning_def List.map_filter_def
        distinct_count_def numeral_2_eq_2 item_A_def item_B_def item_C_def item_X_def item_Y_def item_Y_again_def drama_def)

lemma scenario_recommend:
  "recommend scenario_catalog scenario_store scenario_tuning 1 scenario_prefs {1, 2, 3} = [item_X]"
  unfolding recommend_def scenario_aggregate
  by (simp add: matches_def in_range_def scenario_prefs_def item_C_def item_X_def item_Y_def item_Y_again_def drama_def)

text \<open>The theorem on the scenario: the result is X alone.\<close>

theorem recommend_matches_and_not_excluded_witness:
  "recommend scenario_catalog scenario_store scenario_tuning 1 scenario_prefs {1, 2, 3} = [item_X]
   \<and> matches item_X scenario_prefs \<and> remote_id item_X \<notin> {1, 2, 3}"
  using recommend_matches_and_not_excluded
          [of scenario_catalog scenario_store scenario_tuning 1 scenario_prefs "{1, 2, 3}"]
  unfolding scenario_recommend by simp

text \<open>The theorem on the scenario's seeds: of the two copies of Y the first is kept.\<close>

theorem aggregate_distinct_first_seen_witness:
  "aggregate scenario_catalog scenario_tuning [1, 2] = [item_X, item_Y, item_C]
   \<and> fetched_items scenario_catalog scenario_tuning [1, 2] = [item_X, item_Y, item_Y_again, item_C]
   \<and> distinct (map remote_id [item_X, item_Y, item_C])
   \<and> find (\<lambda>other. remote_id other = remote_id item_Y) [item_X, item_Y, item_Y_again, item_C] = Some item_Y"
proof -
  have f: "fetched_items scenario_catalog scenario_tuning [1, 2] = [item_X, item_Y, item_Y_again, item_C]"
    by (simp add: fetched_items_def similar_pool_def scenario_catalog_def scenario_tuning_def
          distinct_count_def numeral_2_eq_2 item_C_def item_X_def item_Y_def item_Y_again_def drama_def)
  have a: "aggregate scenario_catalog scenario_tuning [1, 2] = [item_X, item_Y, item_C]"
    unfolding aggregate_def f
    by (simp add: item_C_def item_X_def item_Y_def item_Y_again_def drama_def)
  show ?thesis
    using aggregate_distinct_first_seen [of scenario_catalog scenario_tuning "[1, 2]"]
    unfolding a f by simp
qed

text \<open>
  In the engine modelled from the spec, a remote catalogue that fails every request gives
  the empty sequence.
\<close>

lemma popularity_fallback_outage:
  "\<forall>page. fetchPopular c page = None \<Longrightarrow> popularity_fallback c target pagesLeft page [] = []"
  by (induction pagesLeft arbitrary: page) simp_all

lemma recommend_empty_on_total_outage:
  assumes "\<forall>seed. fetchSimilarItems c seed = None" and "\<forall>page. fetchPopular c page = None"
  shows "recommend c store t userId prefs exclusions = []"
proof -
  have "similar_pool c (seed_identifiers store t userId) = []"
    using assms(1) by (simp add: similar_pool_def)
  then have "fetched_items c t (seed_identifiers store t userId) = []"
    using popularity_fallback_outage [OF assms(2)] by (simp add: fetched_items_def)
  then show ?thesis
    by (simp add: recommend_def aggregate_def)
qed

section \<open>Properties of the movie menu\<close>

subsection \<open>The invariant, function by function\<close>

lemma track_emit_plain:
  "plain e \<Longrightarrow> track s0 st = Some (persistentExcludeTmdbIds st, None)
   \<Longrightarrow> track s0 (emit e st) = Some (persistentExcludeTmdbIds st, None)"
  by (cases e) (simp_all add: track_def emit_def plain_def)

lemma track_emit_recommended:
  "tmdb_id m \<notin> persistentExcludeTmdbIds st \<Longrightarrow> track s0 st = Some (persistentExcludeTmdbIds st, None)
   \<Longrightarrow> track s0 (emit (Recommended m) st) = Some (persistentExcludeTmdbIds st, None)"
  by (simp add: track_def emit_def)

lemma track_rate:
  "track s0 st = Some (persistentExcludeTmdbIds st, None)
   \<Longrightarrow> track s0 (rate env userId m r st) = Some (persistentExcludeTmdbIds st, Some m)"
  by (simp add: track_def emit_def rate_def)

lemma track_exclude:
  "track s0 st = Some (persistentExcludeTmdbIds st, Some m)
   \<Longrightarrow> track s0 (exclude (tmdb_id m) st) = Some (insert (tmdb_id m) (persistentExcludeTmdbIds st), None)"
  by (simp add: track_def emit_def exclude_def)

lemma track_world [simp]: "track s0 (st\<lparr>world := w\<rparr>) = track s0 st"
  by (simp add: track_def)

lemma excl_emit [simp]: "persistentExcludeTmdbIds (emit e st) = persistentExcludeTmdbIds st"
  by (simp add: emit_def)

lemma excl_rate [simp]: "persistentExcludeTmdbIds (rate env userId m r st) = persistentExcludeTmdbIds st"
  by (simp add: rate_def)

lemma excl_exclude [simp]:
  "persistentExcludeTmdbIds (exclude t st) = insert t (persistentExcludeTmdbIds st)"
  by (simp add: exclude_def)

lemma detailsActionLoop_track:
  "track s0 st = Some (persistentExcludeTmdbIds st, None)
   \<Longrightarrow> detailsActionLoop env u m answers st = (r, rest, st')
   \<Longrightarrow> persistentExcludeTmdbIds st' = persistentExcludeTmdbIds st
       \<and> track s0 st' = Some (persistentExcludeTmdbIds st,
                               if r = Some Liked \<or> r = Some Disliked then Some m else None)"
proof (induction env u m answers st rule: detailsActionLoop.induct)
  case (1 env currentUser movieToView st)
  then show ?case by simp
next
  case (2 env currentUser movieToView a answers st)
  let ?action = "toLowerCase a"
  consider (l) "?action = ''l''"
    | (d) "?action \<noteq> ''l''" "?action = ''d''"
    | (n) "?action \<noteq> ''l''" "?action \<noteq> ''d''" "?action = ''n''"
    | (q) "?action \<noteq> ''l''" "?action \<noteq> ''d''" "?action \<noteq> ''n''" "?action = ''q''"
    | (other) "?action \<noteq> ''l''" "?action \<noteq> ''d''" "?action \<noteq> ''n''" "?action \<noteq> ''q''"
    by blast
  then show ?case
  proof cases
    case l
    with "2.prems"(2) have "r = Some Liked" "st' = rate env (user_id currentUser) movieToView 5 st"
      by (simp_all add: Let_def)
    then show ?thesis using track_rate [OF "2.prems"(1)] by simp
  next
    case d
    with "2.prems"(2) have "r = Some Disliked" "st' = rate env (user_id currentUser) movieToView 1 st"
      by (simp_all add: Let_def)
    then show ?thesis using track_rate [OF "2.prems"(1)] by simp
  next
    case n
    with "2.prems"(2) have "r = Some Skipped" "st' = st"
      by (simp_all add: Let_def)
    then show ?thesis using "2.prems"(1) by simp
  next
    case q
    with "2.prems"(2) have "r = Some Quit" "st' = st"
      by (simp_all add: Let_def)
    then show ?thesis using "2.prems"(1) by simp
  next
    case other
    have inv: "track s0 (emit InvalidAction st)
                 = Some (persistentExcludeTmdbIds (emit InvalidAction st), None)"
      using track_emit_plain [OF _ "2.prems"(1), of InvalidAction] by (simp add: plain_def)
    have run: "detailsActionLoop env currentUser movieToView answers (emit InvalidAction st)
                 = (r, rest, st')"
      using other "2.prems"(2) by (simp add: Let_def)
    from "2.IH" [OF refl other inv run] show ?thesis by simp
  qed
qed

lemma viewAndInteract_track:
  assumes "track s0 st = Some (persistentExcludeTmdbIds st, None)"
    and "viewAndInteractWithMovieDetails env m u answers st = (r, rest, st')"
  shows "persistentExcludeTmdbIds st' = persistentExcludeTmdbIds st
       \<and> track s0 st' = Some (persistentExcludeTmdbIds st,
                               if r = Some Liked \<or> r = Some Disliked then Some m else None)"
proof -
  obtain w where run: "detailsActionLoop env u m answers (st\<lparr>world := w\<rparr>) = (r, rest, st')"
    using assms(2) by (auto simp: viewAndInteractWithMovieDetails_def Let_def split: prod.splits)
  have "track s0 (st\<lparr>world := w\<rparr>) = Some (persistentExcludeTmdbIds (st\<lparr>world := w\<rparr>), None)"
    using assms(1) by simp
  from detailsActionLoop_track [OF this run] show ?thesis by simp
qed

lemma consistent_world [simp]: "consistent s0 (st\<lparr>world := w\<rparr>) = consistent s0 st"
  by (simp add: consistent_def)

lemma consistent_emit:
  "plain e \<Longrightarrow> consistent s0 st \<Longrightarrow> consistent s0 (emit e st)"
  by (simp add: consistent_def track_emit_plain)

lemma consistent_recommended:
  "tmdb_id m \<notin> persistentExcludeTmdbIds st \<Longrightarrow> consistent s0 st
   \<Longrightarrow> consistent s0 (emit (Recommended m) st)"
  by (simp add: consistent_def track_emit_recommended)

lemma consistent_exclude:
  "track s0 st = Some (persistentExcludeTmdbIds st, Some m)
   \<Longrightarrow> consistent s0 (exclude (tmdb_id m) st)"
  by (simp add: consistent_def track_exclude)

lemma consistent_rate_exclude:
  "consistent s0 st \<Longrightarrow> consistent s0 (exclude (tmdb_id m) (rate env userId m r st))"
  using track_rate [of s0 st env userId m r]
  by (intro consistent_exclude) (simp add: consistent_def)

lemma interactionLoop_consistent:
  "consistent s0 st
   \<Longrightarrow> interactionLoop env u m answers st = (r, rest, st')
   \<Longrightarrow> consistent s0 st'
       \<and> persistentExcludeTmdbIds st'
           = (if r = Some Liked \<or> r = Some Disliked
              then insert (tmdb_id m) (persistentExcludeTmdbIds st)
              else persistentExcludeTmdbIds st)"
proof (induction env u m answers st rule: interactionLoop.induct)
  case (1 env currentUser m st)
  then show ?case by simp
next
  case (2 env currentUser m a answers st)
  let ?action = "toLowerCase a"
  consider (l) "?action = ''l''"
    | (d) "?action \<noteq> ''l''" "?action = ''d''"
    | (v) "?action \<noteq> ''l''" "?action \<noteq> ''d''" "?action = ''v''"
    | (n) "?action \<noteq> ''l''" "?action \<noteq> ''d''" "?action \<noteq> ''v''" "?action = ''n''"
    | (q) "?action \<noteq> ''l''" "?action \<noteq> ''d''" "?action \<noteq> ''v''" "?action \<noteq> ''n''"
          "?action = ''q''"
    | (other) "?action \<noteq> ''l''" "?action \<noteq> ''d''" "?action \<noteq> ''v''" "?action \<noteq> ''n''"
          "?action \<noteq> ''q''"
    by blast
  then show ?case
  proof cases
    case l
    with "2.prems"(2) have "r = Some Liked"
      "st' = exclude (tmdb_id m) (rate env (user_id currentUser) m 5 st)"
      by (simp_all add: Let_def)
    then show ?thesis using consistent_rate_exclude [OF "2.prems"(1)] by simp
  next
    case d
    with "2.prems"(2) have "r = Some Disliked"
      "st' = exclude (tmdb_id m) (rate env (user_id currentUser) m 1 st)"
      by (simp_all add: Let_def)
    then show ?thesis using consistent_rate_exclude [OF "2.prems"(1)] by simp
  next
    case v
    obtain r1 rest1 st1 where
      view: "viewAndInteractWithMovieDetails env m currentUser answers st = (r1, rest1, st1)"
      by (cases "viewAndInteractWithMovieDetails env m currentUser answers st") auto
    have tr: "persistentExcludeTmdbIds st1 = persistentExcludeTmdbIds st"
      "track s0 st1 = Some (persistentExcludeTmdbIds st,
                            if r1 = Some Liked \<or> r1 = Some Disliked then Some m else None)"
      using viewAndInteract_track [OF _ view, of s0] "2.prems"(1) by (simp_all add: consistent_def)
    show ?thesis
    proof (cases "r1 = Some Liked \<or> r1 = Some Disliked")
      case True
      then have "r = r1" "st' = exclude (tmdb_id m) st1"
        using v view "2.prems"(2) by (auto simp: Let_def)
      moreover have "consistent s0 (exclude (tmdb_id m) st1)"
        using tr True by (intro consistent_exclude) simp
      ultimately show ?thesis using True tr by simp
    next
      case False
      then have "r = r1" "st' = st1"
        using v view "2.prems"(2) by (auto simp: Let_def split: option.splits)
      then show ?thesis using False tr by (simp add: consistent_def)
    qed
  next
    case n
    with "2.prems"(2) have "r = Some Skipped" "st' = st"
      by (simp_all add: Let_def)
    then show ?thesis using "2.prems"(1) by simp
  next
    case q
    with "2.prems"(2) have "r = Some Quit" "st' = st"
      by (simp_all add: Let_def)
    then show ?thesis using "2.prems"(1) by simp
  next
    case other
    have inv: "consistent s0 (emit InvalidAction st)"
      using consistent_emit [OF _ "2.prems"(1), of InvalidAction] by (simp add: plain_def)
    have run: "interactionLoop env currentUser m answers (emit InvalidAction st) = (r, rest, st')"
      using other "2.prems"(2) by (simp add: Let_def)
    from "2.IH" [OF refl other inv run] show ?thesis by simp
  qed
qed

lemma presentLoop_consistent:
  "consistent s0 st
   \<Longrightarrow> presentLoop env u queue shown answers st = (r, rest, st')
   \<Longrightarrow> consistent s0 st' \<and> persistentExcludeTmdbIds st \<subseteq> persistentExcludeTmdbIds st'"
proof (induction env u queue shown answers st rule: presentLoop.induct)
  case (1 env currentUser shown answers st)
  then show ?case using consistent_emit [of FinishedList s0 st] by (auto simp: plain_def)
next
  case (2 env currentUser m queue shown answers st)
  show ?case
  proof (cases "movie_id m = 0 \<or> tmdb_id m = 0")
    case True
    have "consistent s0 (emit SkippedInvalidMovie st)"
      using consistent_emit [OF _ "2.prems"(1), of SkippedInvalidMovie] by (simp add: plain_def)
    from "2.IH"(1) [OF True this] True "2.prems"(2) show ?thesis by simp
  next
    case valid: False
    show ?thesis
    proof (cases "tmdb_id m \<in> persistentExcludeTmdbIds st \<or> tmdb_id m \<in> shown")
      case True
      from "2.IH"(2) [OF valid True "2.prems"(1)] valid True "2.prems"(2) show ?thesis by simp
    next
      case False
      obtain ir rest1 st1 where
        il: "interactionLoop env currentUser m answers (emit (Recommended m) st) = (ir, rest1, st1)"
        by (cases "interactionLoop env currentUser m answers (emit (Recommended m) st)") auto
      have "consistent s0 (emit (Recommended m) st)"
        using False "2.prems"(1) by (intro consistent_recommended) auto
      from interactionLoop_consistent [OF this il]
      have c1: "consistent s0 st1"
        and e1: "persistentExcludeTmdbIds st \<subseteq> persistentExcludeTmdbIds st1"
        by (auto split: if_splits)
      show ?thesis
      proof (cases ir)
        case None
        with valid False il "2.prems"(2) c1 e1 show ?thesis by auto
      next
        case (Some i)
        show ?thesis
        proof (cases "i = Quit")
          case True
          have "consistent s0 (emit ReturningToMenu st1)"
            using consistent_emit [OF _ c1, of ReturningToMenu] by (simp add: plain_def)
          with valid False il Some True "2.prems"(2) e1 show ?thesis by auto
        next
          case notquit: False
          have "presentLoop env currentUser queue (insert (tmdb_id m) shown) rest1 st1
                  = (r, rest, st')"
            using valid False il Some notquit "2.prems"(2) by auto
          from "2.IH"(3) [OF valid False il [symmetric] Some refl notquit c1 this] e1
          show ?thesis by auto
        qed
      qed
    qed
  qed
qed

lemma searchAndSelectMovie_state:
  "searchAndSelectMovie env answers st = (r, rest, st') \<Longrightarrow> \<exists>w. st' = st\<lparr>world := w\<rparr>"
proof (cases answers)
  case Nil
  then show "searchAndSelectMovie env answers st = (r, rest, st') \<Longrightarrow> ?thesis"
    by (auto simp: searchAndSelectMovie_def intro: exI [of _ "world st"])
next
  case (Cons q answers1)
  assume run: "searchAndSelectMovie env answers st = (r, rest, st')"
  show ?thesis
  proof (cases "trim q = []")
    case True
    with Cons run show ?thesis
      by (auto simp: searchAndSelectMovie_def intro: exI [of _ "world st"])
  next
    case False
    with Cons run show ?thesis
      by (auto simp: searchAndSelectMovie_def Let_def split: prod.splits option.splits if_splits)
  qed
qed

lemma menuRecommend_consistent:
  assumes "consistent s0 st" and "menuRecommend env u answers st = (r, rest, st')"
  shows "consistent s0 st' \<and> persistentExcludeTmdbIds st \<subseteq> persistentExcludeTmdbIds st'"
proof -
  obtain recs w1 where
    f: "getMovieRecommendationsForUser env u (persistentExcludeTmdbIds st) (world st) = (recs, w1)"
    by (cases "getMovieRecommendationsForUser env u (persistentExcludeTmdbIds st) (world st)") auto
  let ?st1 = "emit (RecommendationsFetched recs) (st\<lparr>world := w1\<rparr>)"
  have c1: "consistent s0 ?st1"
    using assms(1) by (intro consistent_emit) (simp_all add: plain_def)
  have run: "presentMovieRecommendationsOneByOne env u recs answers ?st1 = (r, rest, st')"
    using assms(2) f by (simp add: menuRecommend_def)
  show ?thesis
  proof (cases "length recs = 0")
    case True
    with run have "st' = emit NoRecommendationsAvailable ?st1"
      by (simp add: presentMovieRecommendationsOneByOne_def)
    then show ?thesis
      using consistent_emit [OF _ c1, of NoRecommendationsAvailable] by (simp add: plain_def)
  next
    case False
    with run have "presentLoop env u recs {} answers ?st1 = (r, rest, st')"
      by (simp add: presentMovieRecommendationsOneByOne_def)
    from presentLoop_consistent [OF c1 this] show ?thesis by simp
  qed
qed

lemma menuRate_consistent:
  assumes "consistent s0 st" and "menuRate env u answers st = (r, rest, st')"
  shows "consistent s0 st' \<and> persistentExcludeTmdbIds st \<subseteq> persistentExcludeTmdbIds st'"
proof -
  obtain sel answers1 st1 where s: "searchAndSelectMovie env answers st = (sel, answers1, st1)"
    by (cases "searchAndSelectMovie env answers st") auto
  obtain w where st1: "st1 = st\<lparr>world := w\<rparr>"
    using searchAndSelectMovie_state [OF s] by blast
  have base: "\<And>w'. consistent s0 (st1\<lparr>world := w'\<rparr>)"
    "\<And>w'. persistentExcludeTmdbIds (st1\<lparr>world := w'\<rparr>) = persistentExcludeTmdbIds st"
    using assms(1) st1 by simp_all
  have "st' = st1 \<or> (\<exists>w'. st' = st1\<lparr>world := w'\<rparr>)
        \<or> (\<exists>w' m k. st' = exclude (tmdb_id m) (rate env (user_id u) m k (st1\<lparr>world := w'\<rparr>)))"
    using assms(2) s unfolding menuRate_def
    by (auto simp: Let_def split: option.splits prod.splits list.splits if_splits)
  then show ?thesis
    using base consistent_rate_exclude [OF base(1)] assms(1) st1 by auto
qed

lemma menuDetails_consistent:
  assumes "consistent s0 st" and "menuDetails env u answers st = (r, rest, st')"
  shows "consistent s0 st' \<and> persistentExcludeTmdbIds st \<subseteq> persistentExcludeTmdbIds st'"
proof -
  obtain sel answers1 st1 where s: "searchAndSelectMovie env answers st = (sel, answers1, st1)"
    by (cases "searchAndSelectMovie env answers st") auto
  obtain w where st1: "st1 = st\<lparr>world := w\<rparr>"
    using searchAndSelectMovie_state [OF s] by blast
  have base: "\<And>w'. consistent s0 (st1\<lparr>world := w'\<rparr>)"
    "\<And>w'. persistentExcludeTmdbIds (st1\<lparr>world := w'\<rparr>) = persistentExcludeTmdbIds st"
    using assms(1) st1 by simp_all
  have same: "st' = st1 \<Longrightarrow> ?thesis"
    using assms(1) st1 by simp
  have moved: "\<And>w'. st' = st1\<lparr>world := w'\<rparr> \<Longrightarrow> ?thesis"
    using base by simp
  show ?thesis
  proof (cases sel)
    case None
    with s assms(2) show ?thesis by (intro same) (simp add: menuDetails_def)
  next
    case (Some chosen)
    show ?thesis
    proof (cases chosen)
      case None
      with Some s assms(2) show ?thesis by (intro same) (simp add: menuDetails_def)
    next
      case found: (Some x)
      obtain d w2 where det: "getTMDBMovieDetails env (tm_id x) (world st1) = (d, w2)"
        by (cases "getTMDBMovieDetails env (tm_id x) (world st1)") auto
      show ?thesis
      proof (cases d)
        case None
        with Some found s det assms(2) show ?thesis
          by (intro moved [of w2]) (simp add: menuDetails_def)
      next
        case fetched: (Some dd)
        obtain mv w3 where sv: "saveMovie env dd w2 = (mv, w3)"
          by (cases "saveMovie env dd w2") auto
        show ?thesis
        proof (cases mv)
          case None
          with Some found fetched s det sv assms(2) show ?thesis
            by (intro moved [of w3]) (simp add: menuDetails_def)
        next
          case saved: (Some m)
          obtain ir rest2 st4 where view:
            "viewAndInteractWithMovieDetails env m u answers1 (st1\<lparr>world := w3\<rparr>) = (ir, rest2, st4)"
            by (cases "viewAndInteractWithMovieDetails env m u answers1 (st1\<lparr>world := w3\<rparr>)") auto
          have tr: "persistentExcludeTmdbIds st4 = persistentExcludeTmdbIds st"
            "track s0 st4 = Some (persistentExcludeTmdbIds st,
                                  if ir = Some Liked \<or> ir = Some Disliked then Some m else None)"
            using viewAndInteract_track [OF _ view, of s0] base by (simp_all add: consistent_def)
          show ?thesis
          proof (cases "ir = Some Liked \<or> ir = Some Disliked")
            case True
            then have "st' = exclude (tmdb_id m) st4"
              using Some found fetched saved s det sv view assms(2)
              by (auto simp: menuDetails_def)
            moreover have "consistent s0 (exclude (tmdb_id m) st4)"
              using tr True by (intro consistent_exclude) simp
            ultimately show ?thesis using tr by auto
          next
            case False
            then have "st' = st4"
              using Some found fetched saved s det sv view assms(2)
              by (auto simp: menuDetails_def split: option.splits)
            with False tr show ?thesis by (simp add: consistent_def)
          qed
        qed
      qed
    qed
  qed
qed

lemma manageMoviePreferences_consistent:
  assumes "consistent s0 st" and "manageMoviePreferences env i answers st = (r, rest, st')"
  shows "consistent s0 st' \<and> persistentExcludeTmdbIds st \<subseteq> persistentExcludeTmdbIds st'"
  using assms
  by (auto simp: manageMoviePreferences_def Let_def split: if_splits)

lemma menuCase_consistent:
  assumes "consistent s0 st" and "menuCase env u choice answers st = (r, rest, st')"
  shows "consistent s0 st' \<and> persistentExcludeTmdbIds st \<subseteq> persistentExcludeTmdbIds st'"
proof -
  consider (c1) "choice = ''1''" | (c2) "choice \<noteq> ''1''" "choice = ''2''"
    | (c3) "choice \<noteq> ''1''" "choice \<noteq> ''2''" "choice = ''3''"
    | (c4) "choice \<noteq> ''1''" "choice \<noteq> ''2''" "choice \<noteq> ''3''" "choice = ''4''"
    | (other) "choice \<noteq> ''1''" "choice \<noteq> ''2''" "choice \<noteq> ''3''" "choice \<noteq> ''4''"
    by blast
  then show ?thesis
  proof cases
    case c1
    then have "menuRecommend env u answers st = (r, rest, st')"
      using assms(2) by (simp add: menuCase_def)
    from menuRecommend_consistent [OF assms(1) this] show ?thesis .
  next
    case c2
    then have "menuRate env u answers st = (r, rest, st')"
      using assms(2) by (simp add: menuCase_def)
    from menuRate_consistent [OF assms(1) this] show ?thesis .
  next
    case c3
    then have "menuDetails env u answers st = (r, rest, st')"
      using assms(2) by (simp add: menuCase_def)
    from menuDetails_consistent [OF assms(1) this] show ?thesis .
  next
    case c4
    then have "manageMoviePreferences env (user_id u) answers st = (r, rest, st')"
      using assms(2) by (simp add: menuCase_def)
    from manageMoviePreferences_consistent [OF assms(1) this] show ?thesis .
  next
    case other
    then have "st' = emit InvalidOption st"
      using assms(2) by (simp add: menuCase_def)
    then show ?thesis
      using consistent_emit [OF _ assms(1), of InvalidOption] by (simp add: plain_def)
  qed
qed

lemma menuLoop_consistent:
  "consistent s0 st \<Longrightarrow> menuLoop env u answers st = (r, st')
   \<Longrightarrow> consistent s0 st' \<and> persistentExcludeTmdbIds st \<subseteq> persistentExcludeTmdbIds st'"
proof (induction env u answers st rule: menuLoop.induct)
  case (1 env currentUser st)
  then show ?case using consistent_emit [of MenuShown s0 st] by (auto simp: plain_def)
next
  case (2 env currentUser c answers st)
  have shown: "consistent s0 (emit MenuShown st)"
    using consistent_emit [OF _ "2.prems"(1), of MenuShown] by (simp add: plain_def)
  show ?case
  proof (cases "trim c = ''0''")
    case True
    then have "st' = emit SessionEnded (emit MenuShown st)"
      using "2.prems"(2) by simp
    then show ?thesis
      using consistent_emit [OF _ shown, of SessionEnded] by (simp add: plain_def)
  next
    case False
    obtain r1 rest1 st1 where
      mc: "menuCase env currentUser (trim c) answers (emit MenuShown st) = (r1, rest1, st1)"
      by (cases "menuCase env currentUser (trim c) answers (emit MenuShown st)") auto
    from menuCase_consistent [OF shown mc]
    have c1: "consistent s0 st1" and e1: "persistentExcludeTmdbIds st \<subseteq> persistentExcludeTmdbIds st1"
      by simp_all
    show ?thesis
    proof (cases r1)
      case None
      with False mc "2.prems"(2) c1 e1 show ?thesis by auto
    next
      case (Some returned)
      then have "menuLoop env currentUser rest1 st1 = (r, st')"
        using False mc "2.prems"(2) by simp
      from "2.IH" [OF False mc [symmetric] Some refl c1 this] e1 show ?thesis by auto
    qed
  qed
qed

subsection \<open>What an accepted journal satisfies\<close>

lemma monitor_None [simp]: "foldl monitor None j = None"
  by (induction j) simp_all

lemma monitor_step:
  assumes "monitor (Some (P, pend)) (e, Q) = Some (P', pend')"
  shows "P' = Q" and "P \<subseteq> Q"
    and "e = Recommended m \<Longrightarrow> tmdb_id m \<notin> Q"
    and "Q = P \<or> (\<exists>t. e = Excluded t \<and> Q = insert t P)"
    and "pend = Some rated \<Longrightarrow> e = Excluded (tmdb_id rated) \<and> Q = insert (tmdb_id rated) P"
    and "e = SavedRating userId rated r \<Longrightarrow> pend' = Some rated \<and> pend = None"
    and "pend' = None \<Longrightarrow> e \<noteq> SavedRating userId rated r"
  using assms
  by (cases pend; cases e; auto split: if_splits)+

lemma monitor_Cons:
  assumes "foldl monitor (Some (P, pend)) ((e, Q) # j) = Some (P', pend')"
  shows "\<exists>pend1. monitor (Some (P, pend)) (e, Q) = Some (Q, pend1)
           \<and> foldl monitor (Some (Q, pend1)) j = Some (P', pend')"
proof (cases "monitor (Some (P, pend)) (e, Q)")
  case None
  with assms show ?thesis by simp
next
  case (Some s)
  obtain Q1 pend1 where s: "s = (Q1, pend1)" by (cases s)
  with Some monitor_step(1) [of P pend e Q Q1 pend1] have "Q1 = Q" by simp
  with Some s assms show ?thesis by simp
qed

lemma monitor_bounds:
  "foldl monitor (Some (P, pend)) j = Some (P', pend')
   \<Longrightarrow> P \<subseteq> P' \<and> (\<forall>x \<in> set j. P \<subseteq> snd x \<and> snd x \<subseteq> P') \<and> (j \<noteq> [] \<longrightarrow> snd (last j) = P')"
proof (induction j arbitrary: P pend)
  case Nil
  then show ?case by simp
next
  case (Cons x j)
  obtain e Q where x: "x = (e, Q)" by (cases x)
  from Cons.prems(1) [unfolded x] obtain pend1 where
    step: "monitor (Some (P, pend)) (e, Q) = Some (Q, pend1)"
    and run: "foldl monitor (Some (Q, pend1)) j = Some (P', pend')"
    using monitor_Cons by blast
  have sub: "P \<subseteq> Q" using monitor_step(2) [OF step] .
  show ?case
  proof (cases "j = []")
    case True
    with run have "Q = P'" by simp
    with True sub x show ?thesis by simp
  next
    case False
    with Cons.IH [OF run] sub x show ?thesis by auto
  qed
qed

lemma monitor_sorted:
  "foldl monitor (Some (P, pend)) j = Some (P', pend')
   \<Longrightarrow> sorted_wrt (\<lambda>a b. snd a \<subseteq> snd b) j"
proof (induction j arbitrary: P pend)
  case Nil
  then show ?case by simp
next
  case (Cons x j)
  obtain e Q where x: "x = (e, Q)" by (cases x)
  from Cons.prems(1) [unfolded x] obtain pend1 where
    step: "monitor (Some (P, pend)) (e, Q) = Some (Q, pend1)"
    and run: "foldl monitor (Some (Q, pend1)) j = Some (P', pend')"
    using monitor_Cons by blast
  from monitor_bounds [OF run] Cons.IH [OF run] x show ?case by auto
qed

lemma monitor_recommended:
  "foldl monitor (Some (P, pend)) j = Some (P', pend')
   \<Longrightarrow> (Recommended m, Q) \<in> set j \<Longrightarrow> tmdb_id m \<notin> Q"
proof (induction j arbitrary: P pend)
  case Nil
  then show ?case by simp
next
  case (Cons x j)
  obtain e Q1 where x: "x = (e, Q1)" by (cases x)
  from Cons.prems(1) [unfolded x] obtain pend1 where
    step: "monitor (Some (P, pend)) (e, Q1) = Some (Q1, pend1)"
    and run: "foldl monitor (Some (Q1, pend1)) j = Some (P', pend')"
    using monitor_Cons by blast
  show ?case
  proof (cases "(Recommended m, Q) = x")
    case True
    with x monitor_step(3) [OF step, of m] show ?thesis by simp
  next
    case False
    with Cons.prems(2) have "(Recommended m, Q) \<in> set j" by simp
    from Cons.IH [OF run this] show ?thesis .
  qed
qed

lemma monitor_adjacent:
  "foldl monitor (Some (P, pend)) j = Some (P', pend') \<Longrightarrow> Suc k < length j
   \<Longrightarrow> snd (j ! Suc k) = snd (j ! k)
       \<or> (\<exists>t. fst (j ! Suc k) = Excluded t \<and> snd (j ! Suc k) = insert t (snd (j ! k)))"
proof (induction j arbitrary: P pend k)
  case Nil
  then show ?case by simp
next
  case (Cons x j)
  obtain e Q where x: "x = (e, Q)" by (cases x)
  from Cons.prems(1) [unfolded x] obtain pend1 where
    step: "monitor (Some (P, pend)) (e, Q) = Some (Q, pend1)"
    and run: "foldl monitor (Some (Q, pend1)) j = Some (P', pend')"
    using monitor_Cons by blast
  show ?case
  proof (cases k)
    case 0
    with Cons.prems(2) obtain y j' where j: "j = y # j'" by (cases j) auto
    obtain e2 Q2 where y: "y = (e2, Q2)" by (cases y)
    from run [unfolded j y] obtain pend2 where
      "monitor (Some (Q, pend1)) (e2, Q2) = Some (Q2, pend2)"
      using monitor_Cons by blast
    from monitor_step(4) [OF this] 0 x j y show ?thesis by auto
  next
    case (Suc k')
    with Cons.prems(2) have "Suc k' < length j" by simp
    from Cons.IH [OF run this] Suc show ?thesis by simp
  qed
qed

lemma monitor_rated:
  "foldl monitor (Some (P, pend)) j = Some (P', pend') \<Longrightarrow> Suc k < length j
   \<Longrightarrow> fst (j ! k) = SavedRating userId m r
   \<Longrightarrow> j ! Suc k = (Excluded (tmdb_id m), insert (tmdb_id m) (snd (j ! k)))"
proof (induction j arbitrary: P pend k)
  case Nil
  then show ?case by simp
next
  case (Cons x j)
  obtain e Q where x: "x = (e, Q)" by (cases x)
  from Cons.prems(1) [unfolded x] obtain pend1 where
    step: "monitor (Some (P, pend)) (e, Q) = Some (Q, pend1)"
    and run: "foldl monitor (Some (Q, pend1)) j = Some (P', pend')"
    using monitor_Cons by blast
  show ?case
  proof (cases k)
    case 0
    with Cons.prems(3) x have e: "e = SavedRating userId m r" by simp
    from monitor_step(6) [OF step e] have p1: "pend1 = Some m" by simp
    from 0 Cons.prems(2) obtain y j' where j: "j = y # j'" by (cases j) auto
    obtain e2 Q2 where y: "y = (e2, Q2)" by (cases y)
    from run [unfolded j y p1] obtain pend2 where
      "monitor (Some (Q, Some m)) (e2, Q2) = Some (Q2, pend2)"
      using monitor_Cons by blast
    from monitor_step(5) [OF this refl] 0 x j y show ?thesis by simp
  next
    case (Suc k')
    with Cons.prems have "Suc k' < length j" "fst (j ! k') = SavedRating userId m r" by simp_all
    from Cons.IH [OF run this] Suc show ?thesis by simp
  qed
qed

lemma monitor_last:
  "foldl monitor (Some (P, pend)) j = Some (P', None) \<Longrightarrow> j \<noteq> []
   \<Longrightarrow> fst (last j) \<noteq> SavedRating userId m r"
proof (induction j arbitrary: P pend)
  case Nil
  then show ?case by simp
next
  case (Cons x j)
  obtain e Q where x: "x = (e, Q)" by (cases x)
  from Cons.prems(1) [unfolded x] obtain pend1 where
    step: "monitor (Some (P, pend)) (e, Q) = Some (Q, pend1)"
    and run: "foldl monitor (Some (Q, pend1)) j = Some (P', None)"
    using monitor_Cons by blast
  show ?case
  proof (cases "j = []")
    case True
    with run have "pend1 = None" by simp
    from monitor_step(7) [OF step this] True x show ?thesis by simp
  next
    case False
    from Cons.IH [OF run False] False show ?thesis by simp
  qed
qed

subsection \<open>The journal only grows\<close>

lemma journal_emit [simp]:
  "journal (emit e st) = journal st @ [(e, persistentExcludeTmdbIds st)]"
  by (simp add: emit_def)

lemma journal_rate [simp]:
  "journal (rate env userId m r st) = journal st @ [(SavedRating userId m r, persistentExcludeTmdbIds st)]"
  by (simp add: rate_def)

lemma journal_exclude [simp]:
  "journal (exclude t st) = journal st @ [(Excluded t, insert t (persistentExcludeTmdbIds st))]"
  by (simp add: exclude_def emit_def)

lemma detailsActionLoop_prefix:
  "detailsActionLoop env u m answers st = (r, rest, st') \<Longrightarrow> prefix (journal st) (journal st')"
  by (induction env u m answers st rule: detailsActionLoop.induct)
     (auto simp: Let_def split: if_splits dest: append_prefixD)

lemma viewAndInteract_prefix:
  "viewAndInteractWithMovieDetails env m u answers st = (r, rest, st')
   \<Longrightarrow> prefix (journal st) (journal st')"
  by (auto simp: viewAndInteractWithMovieDetails_def Let_def split: prod.splits
           dest: detailsActionLoop_prefix)

lemma interactionLoop_prefix:
  "interactionLoop env u m answers st = (r, rest, st') \<Longrightarrow> prefix (journal st) (journal st')"
  by (induction env u m answers st rule: interactionLoop.induct)
     (auto simp: Let_def split: if_splits prod.splits option.splits
           dest: viewAndInteract_prefix append_prefixD)

lemma presentLoop_prefix:
  "presentLoop env u queue shown answers st = (r, rest, st') \<Longrightarrow> prefix (journal st) (journal st')"
proof (induction env u queue shown answers st rule: presentLoop.induct)
  case (1 env currentUser shown answers st)
  then show ?case by auto
next
  case (2 env currentUser m queue shown answers st)
  show ?case
  proof (cases "movie_id m = 0 \<or> tmdb_id m = 0")
    case True
    with 2 show ?thesis by (auto dest: append_prefixD)
  next
    case valid: False
    show ?thesis
    proof (cases "tmdb_id m \<in> persistentExcludeTmdbIds st \<or> tmdb_id m \<in> shown")
      case True
      with valid 2 show ?thesis by auto
    next
      case False
      obtain ir rest1 st1 where
        il: "interactionLoop env currentUser m answers (emit (Recommended m) st) = (ir, rest1, st1)"
        by (cases "interactionLoop env currentUser m answers (emit (Recommended m) st)") auto
      have p1: "prefix (journal st) (journal st1)"
        using interactionLoop_prefix [OF il] by (auto dest: append_prefixD)
      show ?thesis
      proof (cases ir)
        case None
        with valid False il "2.prems" p1 show ?thesis by auto
      next
        case (Some i)
        show ?thesis
        proof (cases "i = Quit")
          case True
          with valid False il Some "2.prems" p1 show ?thesis by auto
        next
          case notquit: False
          have "presentLoop env currentUser queue (insert (tmdb_id m) shown) rest1 st1
                  = (r, rest, st')"
            using valid False il Some notquit "2.prems" by auto
          from "2.IH"(3) [OF valid False il [symmetric] Some refl notquit this] p1
          show ?thesis by auto
        qed
      qed
    qed
  qed
qed

lemma menuCase_prefix:
  assumes "menuCase env u choice answers st = (r, rest, st')"
  shows "prefix (journal st) (journal st')"
proof -
  have search: "\<And>a s sel a1 s1. searchAndSelectMovie env a s = (sel, a1, s1) \<Longrightarrow> journal s1 = journal s"
    using searchAndSelectMovie_state by fastforce
  consider (c1) "choice = ''1''" | (c2) "choice \<noteq> ''1''" "choice = ''2''"
    | (c3) "choice \<noteq> ''1''" "choice \<noteq> ''2''" "choice = ''3''"
    | (c4) "choice \<noteq> ''1''" "choice \<noteq> ''2''" "choice \<noteq> ''3''" "choice = ''4''"
    | (other) "choice \<noteq> ''1''" "choice \<noteq> ''2''" "choice \<noteq> ''3''" "choice \<noteq> ''4''"
    by blast
  then show ?thesis
  proof cases
    case c1
    with assms show ?thesis
      by (auto simp: menuCase_def menuRecommend_def presentMovieRecommendationsOneByOne_def
               split: prod.splits if_splits dest!: presentLoop_prefix dest: append_prefixD)
  next
    case c2
    with assms show ?thesis
      by (auto simp: menuCase_def menuRate_def Let_def
               split: prod.splits option.splits list.splits if_splits dest!: search)
  next
    case c3
    with assms show ?thesis
      by (auto simp: menuCase_def menuDetails_def Let_def
               split: prod.splits option.splits list.splits if_splits
               dest!: search viewAndInteract_prefix)
  next
    case c4
    with assms show ?thesis
      by (auto simp: menuCase_def manageMoviePreferences_def Let_def split: if_splits)
  next
    case other
    with assms show ?thesis by (auto simp: menuCase_def)
  qed
qed

lemma menuLoop_prefix:
  "menuLoop env u answers st = (r, st') \<Longrightarrow> prefix (journal st) (journal st')"
proof (induction env u answers st rule: menuLoop.induct)
  case (1 env currentUser st)
  then show ?case by auto
next
  case (2 env currentUser c answers st)
  show ?case
  proof (cases "trim c = ''0''")
    case True
    with "2.prems" show ?thesis by auto
  next
    case False
    obtain r1 rest1 st1 where
      mc: "menuCase env currentUser (trim c) answers (emit MenuShown st) = (r1, rest1, st1)"
      by (cases "menuCase env currentUser (trim c) answers (emit MenuShown st)") auto
    have p1: "prefix (journal st) (journal st1)"
      using menuCase_prefix [OF mc] by (auto dest: append_prefixD)
    show ?thesis
    proof (cases r1)
      case None
      with False mc "2.prems" p1 show ?thesis by auto
    next
      case (Some returned)
      then have "menuLoop env currentUser rest1 st1 = (r, st')"
        using False mc "2.prems" by simp
      from "2.IH" [OF False mc [symmetric] Some refl this] p1 show ?thesis by auto
    qed
  qed
qed

lemma runMovieCLI_journal:
  assumes "runMovieCLI env u answers w = (r, st')"
  shows "\<exists>rest. journal st' = (SessionStarted, set (ratedTmdbIds env u w)) # rest
           \<and> foldl monitor (Some (set (ratedTmdbIds env u w), None)) (journal st')
               = Some (persistentExcludeTmdbIds st', None)"
proof -
  let ?P0 = "set (ratedTmdbIds env u w)"
  let ?st0 = "emit SessionStarted
     \<lparr>world = w, persistentExcludeTmdbIds = ?P0, journal = []\<rparr>"
  have c0: "consistent (Some (?P0, None)) ?st0"
    by (simp add: consistent_def track_def emit_def)
  have run: "menuLoop env u answers ?st0 = (r, st')"
    using assms by (simp add: runMovieCLI_def)
  have c: "consistent (Some (?P0, None)) st'"
    using menuLoop_consistent [OF c0 run] by simp
  have "prefix (journal ?st0) (journal st')"
    using menuLoop_prefix [OF run] .
  then show ?thesis using c by (auto simp: consistent_def track_def emit_def prefix_def)
qed

subsection \<open>How the set changes\<close>

lemma world_emit [simp]: "world (emit e st) = world st"
  by (simp add: emit_def)

lemma detailsActionLoop_excl:
  "detailsActionLoop env u m answers st = (r, rest, st')
   \<Longrightarrow> persistentExcludeTmdbIds st' = persistentExcludeTmdbIds st"
  by (induction env u m answers st rule: detailsActionLoop.induct)
     (auto simp: Let_def split: if_splits)

lemma viewAndInteract_excl:
  "viewAndInteractWithMovieDetails env m u answers st = (r, rest, st')
   \<Longrightarrow> persistentExcludeTmdbIds st' = persistentExcludeTmdbIds st"
  by (auto simp: viewAndInteractWithMovieDetails_def Let_def split: prod.splits
           dest: detailsActionLoop_excl)

lemma interactionLoop_excl:
  "interactionLoop env u m answers st = (r, rest, st')
   \<Longrightarrow> persistentExcludeTmdbIds st'
         = (if r = Some Liked \<or> r = Some Disliked
            then insert (tmdb_id m) (persistentExcludeTmdbIds st)
            else persistentExcludeTmdbIds st)"
proof (induction env u m answers st rule: interactionLoop.induct)
  case (1 env currentUser m st)
  then show ?case by simp
next
  case (2 env currentUser m a answers st)
  let ?action = "toLowerCase a"
  consider (l) "?action = ''l''"
    | (d) "?action \<noteq> ''l''" "?action = ''d''"
    | (v) "?action \<noteq> ''l''" "?action \<noteq> ''d''" "?action = ''v''"
    | (n) "?action \<noteq> ''l''" "?action \<noteq> ''d''" "?action \<noteq> ''v''" "?action = ''n''"
    | (q) "?action \<noteq> ''l''" "?action \<noteq> ''d''" "?action \<noteq> ''v''" "?action \<noteq> ''n''"
          "?action = ''q''"
    | (other) "?action \<noteq> ''l''" "?action \<noteq> ''d''" "?action \<noteq> ''v''" "?action \<noteq> ''n''"
          "?action \<noteq> ''q''"
    by blast
  then show ?case
  proof cases
    case l
    with "2.prems" show ?thesis by (auto simp: Let_def)
  next
    case d
    with "2.prems" show ?thesis by (auto simp: Let_def)
  next
    case v
    obtain r1 rest1 st1 where
      view: "viewAndInteractWithMovieDetails env m currentUser answers st = (r1, rest1, st1)"
      by (cases "viewAndInteractWithMovieDetails env m currentUser answers st") auto
    from viewAndInteract_excl [OF view] v view "2.prems" show ?thesis
      by (auto simp: Let_def split: option.splits if_splits)
  next
    case n
    with "2.prems" show ?thesis by (auto simp: Let_def)
  next
    case q
    with "2.prems" show ?thesis by (auto simp: Let_def)
  next
    case other
    have run: "interactionLoop env currentUser m answers (emit InvalidAction st) = (r, rest, st')"
      using other "2.prems" by (simp add: Let_def)
    from "2.IH" [OF refl other run] show ?thesis by simp
  qed
qed

lemma interactionLoop_like:
  "toLowerCase a = ''l''
   \<Longrightarrow> interactionLoop env u m (a # answers) st =
     (Some Liked, answers,
      st\<lparr>world := saveUserMovieRating env (user_id u) (movie_id m) 5 (world st),
         persistentExcludeTmdbIds := insert (tmdb_id m) (persistentExcludeTmdbIds st),
         journal := journal st @
           [(SavedRating (user_id u) m 5, persistentExcludeTmdbIds st),
            (Excluded (tmdb_id m), insert (tmdb_id m) (persistentExcludeTmdbIds st))]\<rparr>)"
  by (simp add: Let_def rate_def exclude_def emit_def)

lemma interactionLoop_dislike:
  "toLowerCase a = ''d''
   \<Longrightarrow> interactionLoop env u m (a # answers) st =
     (Some Disliked, answers,
      st\<lparr>world := saveUserMovieRating env (user_id u) (movie_id m) 1 (world st),
         persistentExcludeTmdbIds := insert (tmdb_id m) (persistentExcludeTmdbIds st),
         journal := journal st @
           [(SavedRating (user_id u) m 1, persistentExcludeTmdbIds st),
            (Excluded (tmdb_id m), insert (tmdb_id m) (persistentExcludeTmdbIds st))]\<rparr>)"
  by (simp add: Let_def rate_def exclude_def emit_def)

lemma interactionLoop_view:
  "toLowerCase a = ''v''
   \<Longrightarrow> viewAndInteractWithMovieDetails env m u answers st = (Some r, rest, st1)
   \<Longrightarrow> r = Liked \<or> r = Disliked
   \<Longrightarrow> interactionLoop env u m (a # answers) st =
     (Some r, rest,
      st1\<lparr>persistentExcludeTmdbIds := insert (tmdb_id m) (persistentExcludeTmdbIds st),
          journal := journal st1 @
            [(Excluded (tmdb_id m), insert (tmdb_id m) (persistentExcludeTmdbIds st))]\<rparr>)"
  using viewAndInteract_excl [of env m u answers st "Some r" rest st1]
  by (auto simp: Let_def exclude_def emit_def)

lemma viewAndInteract_like:
  "toLowerCase b = ''l''
   \<Longrightarrow> fst (viewAndInteractWithMovieDetails env m u (b # answers) st) = Some Liked
     \<and> fst (snd (viewAndInteractWithMovieDetails env m u (b # answers) st)) = answers
     \<and> last (journal (snd (snd (viewAndInteractWithMovieDetails env m u (b # answers) st))))
         = (SavedRating (user_id u) m 5, persistentExcludeTmdbIds st)"
  by (simp add: viewAndInteractWithMovieDetails_def Let_def rate_def emit_def split: prod.splits)

lemma viewAndInteract_dislike:
  "toLowerCase b = ''d''
   \<Longrightarrow> fst (viewAndInteractWithMovieDetails env m u (b # answers) st) = Some Disliked
     \<and> fst (snd (viewAndInteractWithMovieDetails env m u (b # answers) st)) = answers
     \<and> last (journal (snd (snd (viewAndInteractWithMovieDetails env m u (b # answers) st))))
         = (SavedRating (user_id u) m 1, persistentExcludeTmdbIds st)"
  by (simp add: viewAndInteractWithMovieDetails_def Let_def rate_def emit_def split: prod.splits)

lemma menuCase_rate:
  assumes "searchAndSelectMovie env answers st = (Some (Some found), ratingStr # answers2, st1)"
    and "getTMDBMovieDetails env (tm_id found) (world st1) = (Some d, w2)"
    and "saveMovie env d w2 = (Some m, w3)"
    and "parseInt env (trim ratingStr) = Some stars" and "1 \<le> stars" and "stars \<le> 5"
  shows "menuCase env u ''2'' answers st =
     (Some (), answers2,
      st\<lparr>world := saveUserMovieRating env (user_id u) (movie_id m) (nat stars) w3,
         persistentExcludeTmdbIds := insert (tmdb_id m) (persistentExcludeTmdbIds st),
         journal := journal st @
           [(SavedRating (user_id u) m (nat stars), persistentExcludeTmdbIds st),
            (Excluded (tmdb_id m), insert (tmdb_id m) (persistentExcludeTmdbIds st))]\<rparr>)"
proof -
  from searchAndSelectMovie_state [OF assms(1)] obtain w where "st1 = st\<lparr>world := w\<rparr>" by blast
  with assms show ?thesis
    by (simp add: menuCase_def menuRate_def Let_def rate_def exclude_def emit_def)
qed

lemma menuCase_details:
  assumes "searchAndSelectMovie env answers st = (Some (Some found), answers1, st1)"
    and "getTMDBMovieDetails env (tm_id found) (world st1) = (Some d, w2)"
    and "saveMovie env d w2 = (Some m, w3)"
    and "viewAndInteractWithMovieDetails env m u answers1 (st1\<lparr>world := w3\<rparr>) = (Some r, answers2, st4)"
    and "r = Liked \<or> r = Disliked"
  shows "menuCase env u ''3'' answers st =
     (Some (), answers2,
      st4\<lparr>persistentExcludeTmdbIds := insert (tmdb_id m) (persistentExcludeTmdbIds st),
          journal := journal st4 @
            [(Excluded (tmdb_id m), insert (tmdb_id m) (persistentExcludeTmdbIds st))]\<rparr>)"
proof -
  from searchAndSelectMovie_state [OF assms(1)] obtain w where "st1 = st\<lparr>world := w\<rparr>" by blast
  with viewAndInteract_excl [OF assms(4)]
  have "persistentExcludeTmdbIds st4 = persistentExcludeTmdbIds st" by simp
  with assms show ?thesis
    by (auto simp: menuCase_def menuDetails_def Let_def exclude_def emit_def)
qed


lemma presentLoop_excl_mono:
  "presentLoop env u queue shown answers st = (r, rest, st')
   \<Longrightarrow> persistentExcludeTmdbIds st \<subseteq> persistentExcludeTmdbIds st'"
proof (induction env u queue shown answers st rule: presentLoop.induct)
  case (1 env currentUser shown answers st)
  then show ?case by auto
next
  case (2 env currentUser m queue shown answers st)
  show ?case
  proof (cases "movie_id m = 0 \<or> tmdb_id m = 0")
    case True
    with 2 show ?thesis by auto
  next
    case valid: False
    show ?thesis
    proof (cases "tmdb_id m \<in> persistentExcludeTmdbIds st \<or> tmdb_id m \<in> shown")
      case True
      with valid 2 show ?thesis by auto
    next
      case False
      obtain ir rest1 st1 where
        il: "interactionLoop env currentUser m answers (emit (Recommended m) st) = (ir, rest1, st1)"
        by (cases "interactionLoop env currentUser m answers (emit (Recommended m) st)") auto
      have e1: "persistentExcludeTmdbIds st \<subseteq> persistentExcludeTmdbIds st1"
        using interactionLoop_excl [OF il] by auto
      show ?thesis
      proof (cases ir)
        case None
        with valid False il "2.prems" e1 show ?thesis by auto
      next
        case (Some i)
        show ?thesis
        proof (cases "i = Quit")
          case True
          with valid False il Some "2.prems" e1 show ?thesis by auto
        next
          case notquit: False
          have "presentLoop env currentUser queue (insert (tmdb_id m) shown) rest1 st1
                  = (r, rest, st')"
            using valid False il Some notquit "2.prems" by auto
          from "2.IH"(3) [OF valid False il [symmetric] Some refl notquit this] e1
          show ?thesis by simp
        qed
      qed
    qed
  qed
qed

lemma menuCase_excl_mono:
  assumes "menuCase env u choice answers st = (r, rest, st')"
  shows "persistentExcludeTmdbIds st \<subseteq> persistentExcludeTmdbIds st'"
proof -
  have search: "\<And>a s sel a1 s1. searchAndSelectMovie env a s = (sel, a1, s1)
      \<Longrightarrow> persistentExcludeTmdbIds s1 = persistentExcludeTmdbIds s"
    using searchAndSelectMovie_state by fastforce
  consider (c1) "choice = ''1''" | (c2) "choice \<noteq> ''1''" "choice = ''2''"
    | (c3) "choice \<noteq> ''1''" "choice \<noteq> ''2''" "choice = ''3''"
    | (c4) "choice \<noteq> ''1''" "choice \<noteq> ''2''" "choice \<noteq> ''3''" "choice = ''4''"
    | (other) "choice \<noteq> ''1''" "choice \<noteq> ''2''" "choice \<noteq> ''3''" "choice \<noteq> ''4''"
    by blast
  then show ?thesis
  proof cases
    case c1
    with assms show ?thesis
      by (auto simp: menuCase_def menuRecommend_def presentMovieRecommendationsOneByOne_def
               split: prod.splits if_splits dest!: presentLoop_excl_mono)
  next
    case c2
    with assms show ?thesis
      by (auto simp: menuCase_def menuRate_def Let_def
               split: prod.splits option.splits list.splits if_splits dest!: search)
  next
    case c3
    with assms show ?thesis
      by (auto simp: menuCase_def menuDetails_def Let_def
               split: prod.splits option.splits list.splits if_splits
               dest!: search viewAndInteract_excl)
  next
    case c4
    with assms show ?thesis
      by (auto simp: menuCase_def manageMoviePreferences_def Let_def split: if_splits)
  next
    case other
    with assms show ?thesis by (auto simp: menuCase_def)
  qed
qed

lemma menuLoop_excl_mono:
  "menuLoop env u answers st = (r, st')
   \<Longrightarrow> persistentExcludeTmdbIds st \<subseteq> persistentExcludeTmdbIds st'"
proof (induction env u answers st rule: menuLoop.induct)
  case (1 env currentUser st)
  then show ?case by auto
next
  case (2 env currentUser c answers st)
  show ?case
  proof (cases "trim c = ''0''")
    case True
    with "2.prems" show ?thesis by auto
  next
    case False
    obtain r1 rest1 st1 where
      mc: "menuCase env currentUser (trim c) answers (emit MenuShown st) = (r1, rest1, st1)"
      by (cases "menuCase env currentUser (trim c) answers (emit MenuShown st)") auto
    have e1: "persistentExcludeTmdbIds st \<subseteq> persistentExcludeTmdbIds st1"
      using menuCase_excl_mono [OF mc] by simp
    show ?thesis
    proof (cases r1)
      case None
      with False mc "2.prems" e1 show ?thesis by auto
    next
      case (Some returned)
      then have "menuLoop env currentUser rest1 st1 = (r, st')"
        using False mc "2.prems" by simp
      from "2.IH" [OF False mc [symmetric] Some refl this] e1 show ?thesis by auto
    qed
  qed
qed

lemma menuLoop_keeps:
  assumes "trim c \<noteq> ''0''"
    and "menuCase env u (trim c) answers (emit MenuShown st) = (Some returned, rest, st')"
  shows "menuLoop env u (c # answers) st = menuLoop env u rest st'
     \<and> persistentExcludeTmdbIds st' \<subseteq> persistentExcludeTmdbIds (snd (menuLoop env u (c # answers) st))"
proof -
  have run: "menuLoop env u (c # answers) st = menuLoop env u rest st'"
    using assms by simp
  obtain r final where f: "menuLoop env u rest st' = (r, final)"
    by (cases "menuLoop env u rest st'") auto
  from menuLoop_excl_mono [OF f] run f show ?thesis by simp
qed

lemma menuCase_recommend_rated:
  assumes "fst (getMovieRecommendationsForUser env u (persistentExcludeTmdbIds st) (world st)) = m # queue"
    and "movie_id m \<noteq> 0" "tmdb_id m \<noteq> 0" "tmdb_id m \<notin> persistentExcludeTmdbIds st"
    and "toLowerCase a = ''l'' \<or> toLowerCase a = ''d''"
  shows "tmdb_id m \<in> persistentExcludeTmdbIds (snd (snd (menuCase env u ''1'' (a # answers) st)))"
proof -
  obtain recs w1 where
    f: "getMovieRecommendationsForUser env u (persistentExcludeTmdbIds st) (world st) = (recs, w1)"
    by (cases "getMovieRecommendationsForUser env u (persistentExcludeTmdbIds st) (world st)") auto
  with assms(1) have recs: "recs = m # queue" by simp
  let ?st1 = "emit (Recommended m) (emit (RecommendationsFetched recs) (st\<lparr>world := w1\<rparr>))"
  obtain ir st2 where il: "interactionLoop env u m (a # answers) ?st1 = (Some ir, answers, st2)"
    and ir: "ir = Liked \<or> ir = Disliked"
    using assms(5) interactionLoop_like [of a env u m answers ?st1]
      interactionLoop_dislike [of a env u m answers ?st1] by auto
  have in2: "tmdb_id m \<in> persistentExcludeTmdbIds st2"
    using interactionLoop_excl [OF il] ir by auto
  obtain r rest st' where
    pl: "presentLoop env u queue (insert (tmdb_id m) {}) answers st2 = (r, rest, st')"
    by (cases "presentLoop env u queue (insert (tmdb_id m) {}) answers st2") auto
  have "menuCase env u ''1'' (a # answers) st = (r, rest, st')"
    using f recs assms(2-4) il ir pl
    by (auto simp: menuCase_def menuRecommend_def presentMovieRecommendationsOneByOne_def)
  with presentLoop_excl_mono [OF pl] in2 show ?thesis by auto
qed


subsection \<open>The session\<close>

lemma trim_digit [simp]:
  "trim ''0'' = ''0''" "trim ''1'' = ''1''" "trim ''2'' = ''2''" "trim ''3'' = ''3''"
  "trim ''4'' = ''4''"
  by (simp_all add: trim_def isSpace_def)

lemma toLowerCase_letters [simp]:
  "toLowerCase ''L'' = ''l''" "toLowerCase ''l'' = ''l''" "toLowerCase ''d'' = ''d''"
  "toLowerCase ''v'' = ''v''" "toLowerCase ''n'' = ''n''" "toLowerCase ''q'' = ''q''"
  by (simp_all add: toLowerCase_def lower_char_def)

lemma trim_words [simp]:
  "trim ''alien'' = ''alien''" "trim ''brazil'' = ''brazil''" "trim ''5'' = ''5''"
  by (simp_all add: trim_def isSpace_def)

lemma cinema_run:
  "runMovieCLI cinema_env alice cinema_answers cinema_world
     = (True, \<lparr>world = [(7, 3, 4), (7, 1, 5), (7, 2, 1), (7, 4, 4), (7, 5, 5)],
               persistentExcludeTmdbIds = {68, 348, 77, 27205, 949},
               journal = cinema_journal\<rparr>)"
  by (simp add: runMovieCLI_def cinema_env_def cinema_answers_def cinema_world_def ratedTmdbIds_def
      menuCase_def menuRecommend_def menuRate_def menuDetails_def searchAndSelectMovie_def
      viewAndInteractWithMovieDetails_def presentMovieRecommendationsOneByOne_def
      emit_def rate_def exclude_def cinema_journal_def
      inception_def memento_def heat_def alien_def brazil_def alice_def Let_def)

lemma ratedTmdbIds_set:
  "set (ratedTmdbIds env u w)
     = {t. \<exists>i m. i \<in> set (getRatedMovieIdsByUser env (user_id u) w)
                \<and> getMovieByOurId env i w = Some m \<and> t = tmdb_id m}"
  by (force simp: ratedTmdbIds_def image_iff)

lemma session_journal_facts:
  "let final = snd (runMovieCLI env currentUser answers w); j = journal final in
     j \<noteq> [] \<and> hd j = (SessionStarted, set (ratedTmdbIds env currentUser w))
     \<and> set (ratedTmdbIds env currentUser w)
         = {t. \<exists>i m. i \<in> set (getRatedMovieIdsByUser env (user_id currentUser) w)
                    \<and> getMovieByOurId env i w = Some m \<and> t = tmdb_id m}
     \<and> ((\<forall>i \<in> set (getRatedMovieIdsByUser env (user_id currentUser) w). getMovieByOurId env i w \<noteq> None)
          \<longrightarrow> set (ratedTmdbIds env currentUser w)
               = (\<lambda>i. tmdb_id (the (getMovieByOurId env i w)))
                   ` set (getRatedMovieIdsByUser env (user_id currentUser) w))
     \<and> (\<forall>k l. k \<le> l \<and> l < length j \<longrightarrow> snd (j ! k) \<subseteq> snd (j ! l))
     \<and> (\<forall>k. Suc k < length j
            \<longrightarrow> snd (j ! Suc k) = snd (j ! k)
                \<or> (\<exists>t. fst (j ! Suc k) = Excluded t \<and> snd (j ! Suc k) = insert t (snd (j ! k))))
     \<and> (\<forall>k userId m r. k < length j \<and> fst (j ! k) = SavedRating userId m r
            \<longrightarrow> Suc k < length j
                \<and> j ! Suc k = (Excluded (tmdb_id m), insert (tmdb_id m) (snd (j ! k))))
     \<and> (\<forall>k l m. k \<le> l \<and> l < length j \<and> fst (j ! l) = Recommended m
            \<longrightarrow> tmdb_id m \<notin> snd (j ! k))
     \<and> snd (last j) = persistentExcludeTmdbIds final
     \<and> hd (journal (snd (runMovieCLI env currentUser answers' (world final))))
         = (SessionStarted, set (ratedTmdbIds env currentUser (world final)))"
proof -
  define final where "final = snd (runMovieCLI env currentUser answers w)"
  define j where "j = journal final"
  define P0 where "P0 = set (ratedTmdbIds env currentUser w)"
  have run: "runMovieCLI env currentUser answers w = (fst (runMovieCLI env currentUser answers w), final)"
    by (simp add: final_def)
  from runMovieCLI_journal [OF run] obtain rest where
    start: "j = (SessionStarted, P0) # rest"
    and acc: "foldl monitor (Some (P0, None)) j = Some (persistentExcludeTmdbIds final, None)"
    by (auto simp: j_def P0_def)
  have nonempty: "j \<noteq> []" and first: "hd j = (SessionStarted, P0)"
    using start by simp_all
  have seed: "P0 = {t. \<exists>i m. i \<in> set (getRatedMovieIdsByUser env (user_id currentUser) w)
                    \<and> getMovieByOurId env i w = Some m \<and> t = tmdb_id m}"
    unfolding P0_def by (rule ratedTmdbIds_set)
  have all_found: "(\<forall>i \<in> set (getRatedMovieIdsByUser env (user_id currentUser) w). getMovieByOurId env i w \<noteq> None)
          \<longrightarrow> P0 = (\<lambda>i. tmdb_id (the (getMovieByOurId env i w)))
                   ` set (getRatedMovieIdsByUser env (user_id currentUser) w)"
    unfolding seed by force
  have mono: "\<forall>k l. k \<le> l \<and> l < length j \<longrightarrow> snd (j ! k) \<subseteq> snd (j ! l)"
  proof (intro allI impI)
    fix k l assume kl: "k \<le> l \<and> l < length j"
    show "snd (j ! k) \<subseteq> snd (j ! l)"
    proof (cases "k = l")
      case True
      then show ?thesis by simp
    next
      case False
      with kl have "k < l" "l < length j" by simp_all
      from sorted_wrt_nth_less [OF monitor_sorted [OF acc] this] show ?thesis .
    qed
  qed
  have adjacent: "\<forall>k. Suc k < length j
            \<longrightarrow> snd (j ! Suc k) = snd (j ! k)
                \<or> (\<exists>t. fst (j ! Suc k) = Excluded t \<and> snd (j ! Suc k) = insert t (snd (j ! k)))"
    using monitor_adjacent [OF acc] by blast
  have rated: "\<forall>k userId m r. k < length j \<and> fst (j ! k) = SavedRating userId m r
            \<longrightarrow> Suc k < length j
                \<and> j ! Suc k = (Excluded (tmdb_id m), insert (tmdb_id m) (snd (j ! k)))"
  proof (intro allI impI)
    fix k userId m r
    assume a: "k < length j \<and> fst (j ! k) = SavedRating userId m r"
    have "Suc k < length j"
    proof (rule ccontr)
      assume "\<not> Suc k < length j"
      with a have "k = length j - 1" by linarith
      with nonempty have "last j = j ! k" by (simp add: last_conv_nth)
      with a monitor_last [OF acc nonempty, of userId m r] show False by simp
    qed
    with monitor_rated [OF acc this, of userId m r] a
    show "Suc k < length j \<and> j ! Suc k = (Excluded (tmdb_id m), insert (tmdb_id m) (snd (j ! k)))"
      by simp
  qed
  have fresh: "\<forall>k l m. k \<le> l \<and> l < length j \<and> fst (j ! l) = Recommended m
            \<longrightarrow> tmdb_id m \<notin> snd (j ! k)"
  proof (intro allI impI)
    fix k l m
    assume a: "k \<le> l \<and> l < length j \<and> fst (j ! l) = Recommended m"
    then have "(Recommended m, snd (j ! l)) \<in> set j"
      by (metis nth_mem prod.collapse)
    from monitor_recommended [OF acc this] have "tmdb_id m \<notin> snd (j ! l)" .
    moreover have "snd (j ! k) \<subseteq> snd (j ! l)" using mono a by blast
    ultimately show "tmdb_id m \<notin> snd (j ! k)" by blast
  qed
  have final_set: "snd (last j) = persistentExcludeTmdbIds final"
    using monitor_bounds [OF acc] nonempty by simp
  have next_session:
    "hd (journal (snd (runMovieCLI env currentUser answers' (world final))))
       = (SessionStarted, set (ratedTmdbIds env currentUser (world final)))"
    using runMovieCLI_journal [of env currentUser answers' "world final"
        "fst (runMovieCLI env currentUser answers' (world final))"
        "snd (runMovieCLI env currentUser answers' (world final))"]
    by auto
  show ?thesis
    unfolding Let_def final_def [symmetric] j_def [symmetric] P0_def [symmetric]
    using nonempty first seed all_found mono adjacent rated fresh final_set next_session
    by (intro conjI)
qed


text \<open>
  C2. In the journal of a session of the movie menu: the first entry is the start of the
  session, with the exclusion set holding exactly the remote ids of the rated movies found
  in the database, which are the remote ids of all the rated movies when each of them is
  stored; the set at an entry is included in the set at every later entry, and from one
  entry to the next it is unchanged or gains the id of an \<open>Excluded\<close> entry; every saved
  rating is followed at once by the exclusion of the rated movie's remote id; a movie is
  presented as a recommendation only when its remote id is in the set at no earlier or
  present entry; the set the session ends with is the one of the last entry. The next
  session starts again from the rated movies of the database it finds.

  Every answer that rates adds the id. In the presentation, \<open>l\<close> and \<open>d\<close> save the rating 5
  or 1 and add the movie's remote id; \<open>v\<close> followed by a like or a dislike in the details
  adds it, and there \<open>l\<close> and \<open>d\<close> give the like and the dislike and save the rating.
  Option 2 with a rating from 1 to 5 saves it and adds the id of the movie rated; option 3
  with a like or a dislike in the details adds the id of the movie viewed. Under option 1 the
  id of the first movie shown, when it is liked or disliked, is in the set when the option
  ends; and what the set holds when an option ends, it holds when the session ends. The
  session is the menu loop run from the seeded set.
\<close>

theorem exclusion_set_only_grows:
  "(let final = snd (runMovieCLI env currentUser answers w); j = journal final in
     j \<noteq> [] \<and> hd j = (SessionStarted, set (ratedTmdbIds env currentUser w))
     \<and> set (ratedTmdbIds env currentUser w)
         = {t. \<exists>i m. i \<in> set (getRatedMovieIdsByUser env (user_id currentUser) w)
                    \<and> getMovieByOurId env i w = Some m \<and> t = tmdb_id m}
     \<and> ((\<forall>i \<in> set (getRatedMovieIdsByUser env (user_id currentUser) w). getMovieByOurId env i w \<noteq> None)
          \<longrightarrow> set (ratedTmdbIds env currentUser w)
               = (\<lambda>i. tmdb_id (the (getMovieByOurId env i w)))
                   ` set (getRatedMovieIdsByUser env (user_id currentUser) w))
     \<and> (\<forall>k l. k \<le> l \<and> l < length j \<longrightarrow> snd (j ! k) \<subseteq> snd (j ! l))
     \<and> (\<forall>k. Suc k < length j
            \<longrightarrow> snd (j ! Suc k) = snd (j ! k)
                \<or> (\<exists>t. fst (j ! Suc k) = Excluded t \<and> snd (j ! Suc k) = insert t (snd (j ! k))))
     \<and> (\<forall>k userId m r. k < length j \<and> fst (j ! k) = SavedRating userId m r
            \<longrightarrow> Suc k < length j
                \<and> j ! Suc k = (Excluded (tmdb_id m), insert (tmdb_id m) (snd (j ! k))))
     \<and> (\<forall>k l m. k \<le> l \<and> l < length j \<and> fst (j ! l) = Recommended m
            \<longrightarrow> tmdb_id m \<notin> snd (j ! k))
     \<and> snd (last j) = persistentExcludeTmdbIds final
     \<and> hd (journal (snd (runMovieCLI env currentUser answers' (world final))))
         = (SessionStarted, set (ratedTmdbIds env currentUser (world final))))
   \<and> (toLowerCase a = ''l''
      \<longrightarrow> interactionLoop env currentUser m (a # rest) st =
           (Some Liked, rest,
            st\<lparr>world := saveUserMovieRating env (user_id currentUser) (movie_id m) 5 (world st),
               persistentExcludeTmdbIds := insert (tmdb_id m) (persistentExcludeTmdbIds st),
               journal := journal st @
                 [(SavedRating (user_id currentUser) m 5, persistentExcludeTmdbIds st),
                  (Excluded (tmdb_id m), insert (tmdb_id m) (persistentExcludeTmdbIds st))]\<rparr>))
   \<and> (toLowerCase a = ''d''
      \<longrightarrow> interactionLoop env currentUser m (a # rest) st =
           (Some Disliked, rest,
            st\<lparr>world := saveUserMovieRating env (user_id currentUser) (movie_id m) 1 (world st),
               persistentExcludeTmdbIds := insert (tmdb_id m) (persistentExcludeTmdbIds st),
               journal := journal st @
                 [(SavedRating (user_id currentUser) m 1, persistentExcludeTmdbIds st),
                  (Excluded (tmdb_id m), insert (tmdb_id m) (persistentExcludeTmdbIds st))]\<rparr>))
   \<and> (toLowerCase a = ''v''
       \<and> viewAndInteractWithMovieDetails env m currentUser rest st = (Some r, rest', st1)
       \<and> (r = Liked \<or> r = Disliked)
      \<longrightarrow> interactionLoop env currentUser m (a # rest) st =
           (Some r, rest',
            st1\<lparr>persistentExcludeTmdbIds := insert (tmdb_id m) (persistentExcludeTmdbIds st),
                journal := journal st1 @
                  [(Excluded (tmdb_id m), insert (tmdb_id m) (persistentExcludeTmdbIds st))]\<rparr>))
   \<and> (toLowerCase a = ''l''
      \<longrightarrow> fst (viewAndInteractWithMovieDetails env m currentUser (a # rest) st) = Some Liked
        \<and> fst (snd (viewAndInteractWithMovieDetails env m currentUser (a # rest) st)) = rest
        \<and> last (journal (snd (snd (viewAndInteractWithMovieDetails env m currentUser (a # rest) st))))
            = (SavedRating (user_id currentUser) m 5, persistentExcludeTmdbIds st))
   \<and> (toLowerCase a = ''d''
      \<longrightarrow> fst (viewAndInteractWithMovieDetails env m currentUser (a # rest) st) = Some Disliked
        \<and> fst (snd (viewAndInteractWithMovieDetails env m currentUser (a # rest) st)) = rest
        \<and> last (journal (snd (snd (viewAndInteractWithMovieDetails env m currentUser (a # rest) st))))
            = (SavedRating (user_id currentUser) m 1, persistentExcludeTmdbIds st))
   \<and> (searchAndSelectMovie env rest st = (Some (Some found), ratingStr # rest', st1)
       \<and> getTMDBMovieDetails env (tm_id found) (world st1) = (Some d, w2)
       \<and> saveMovie env d w2 = (Some m, w3)
       \<and> parseInt env (trim ratingStr) = Some stars \<and> 1 \<le> stars \<and> stars \<le> 5
      \<longrightarrow> menuCase env currentUser ''2'' rest st =
           (Some (), rest',
            st\<lparr>world := saveUserMovieRating env (user_id currentUser) (movie_id m) (nat stars) w3,
               persistentExcludeTmdbIds := insert (tmdb_id m) (persistentExcludeTmdbIds st),
               journal := journal st @
                 [(SavedRating (user_id currentUser) m (nat stars), persistentExcludeTmdbIds st),
                  (Excluded (tmdb_id m), insert (tmdb_id m) (persistentExcludeTmdbIds st))]\<rparr>))
   \<and> (searchAndSelectMovie env rest st = (Some (Some found), rest1, st1)
       \<and> getTMDBMovieDetails env (tm_id found) (world st1) = (Some d, w2)
       \<and> saveMovie env d w2 = (Some m, w3)
       \<and> viewAndInteractWithMovieDetails env m currentUser rest1 (st1\<lparr>world := w3\<rparr>)
           = (Some r, rest', st4)
       \<and> (r = Liked \<or> r = Disliked)
      \<longrightarrow> menuCase env currentUser ''3'' rest st =
           (Some (), rest',
            st4\<lparr>persistentExcludeTmdbIds := insert (tmdb_id m) (persistentExcludeTmdbIds st),
                journal := journal st4 @
                  [(Excluded (tmdb_id m), insert (tmdb_id m) (persistentExcludeTmdbIds st))]\<rparr>))
   \<and> (fst (getMovieRecommendationsForUser env currentUser (persistentExcludeTmdbIds st) (world st))
         = m # queue
       \<and> movie_id m \<noteq> 0 \<and> tmdb_id m \<noteq> 0 \<and> tmdb_id m \<notin> persistentExcludeTmdbIds st
       \<and> (toLowerCase a = ''l'' \<or> toLowerCase a = ''d'')
      \<longrightarrow> tmdb_id m
           \<in> persistentExcludeTmdbIds (snd (snd (menuCase env currentUser ''1'' (a # rest) st))))
   \<and> (trim c \<noteq> ''0''
       \<and> menuCase env currentUser (trim c) rest (emit MenuShown st) = (Some returned, rest', st')
      \<longrightarrow> menuLoop env currentUser (c # rest) st = menuLoop env currentUser rest' st'
        \<and> persistentExcludeTmdbIds st'
            \<subseteq> persistentExcludeTmdbIds (snd (menuLoop env currentUser (c # rest) st)))
   \<and> runMovieCLI env currentUser answers w
       = menuLoop env currentUser answers
           \<lparr>world = w, persistentExcludeTmdbIds = set (ratedTmdbIds env currentUser w),
            journal = [(SessionStarted, set (ratedTmdbIds env currentUser w))]\<rparr>"
proof -
  note journal_part = session_journal_facts [of env currentUser answers w answers']
  have session: "runMovieCLI env currentUser answers w
       = menuLoop env currentUser answers
           \<lparr>world = w, persistentExcludeTmdbIds = set (ratedTmdbIds env currentUser w),
            journal = [(SessionStarted, set (ratedTmdbIds env currentUser w))]\<rparr>"
    by (simp add: runMovieCLI_def emit_def)
  have like: "toLowerCase a = ''l''
      \<longrightarrow> interactionLoop env currentUser m (a # rest) st =
           (Some Liked, rest,
            st\<lparr>world := saveUserMovieRating env (user_id currentUser) (movie_id m) 5 (world st),
               persistentExcludeTmdbIds := insert (tmdb_id m) (persistentExcludeTmdbIds st),
               journal := journal st @
                 [(SavedRating (user_id currentUser) m 5, persistentExcludeTmdbIds st),
                  (Excluded (tmdb_id m), insert (tmdb_id m) (persistentExcludeTmdbIds st))]\<rparr>)"
    using interactionLoop_like [of a env currentUser m rest st] by blast
  have dislike: "toLowerCase a = ''d''
      \<longrightarrow> interactionLoop env currentUser m (a # rest) st =
           (Some Disliked, rest,
            st\<lparr>world := saveUserMovieRating env (user_id currentUser) (movie_id m) 1 (world st),
               persistentExcludeTmdbIds := insert (tmdb_id m) (persistentExcludeTmdbIds st),
               journal := journal st @
                 [(SavedRating (user_id currentUser) m 1, persistentExcludeTmdbIds st),
                  (Excluded (tmdb_id m), insert (tmdb_id m) (persistentExcludeTmdbIds st))]\<rparr>)"
    using interactionLoop_dislike [of a env currentUser m rest st] by blast
  have view: "toLowerCase a = ''v''
       \<and> viewAndInteractWithMovieDetails env m currentUser rest st = (Some r, rest', st1)
       \<and> (r = Liked \<or> r = Disliked)
      \<longrightarrow> interactionLoop env currentUser m (a # rest) st =
           (Some r, rest',
            st1\<lparr>persistentExcludeTmdbIds := insert (tmdb_id m) (persistentExcludeTmdbIds st),
                journal := journal st1 @
                  [(Excluded (tmdb_id m), insert (tmdb_id m) (persistentExcludeTmdbIds st))]\<rparr>)"
    using interactionLoop_view [of a env m currentUser rest st r rest' st1] by blast
  have details_like: "toLowerCase a = ''l''
      \<longrightarrow> fst (viewAndInteractWithMovieDetails env m currentUser (a # rest) st) = Some Liked
        \<and> fst (snd (viewAndInteractWithMovieDetails env m currentUser (a # rest) st)) = rest
        \<and> last (journal (snd (snd (viewAndInteractWithMovieDetails env m currentUser (a # rest) st))))
            = (SavedRating (user_id currentUser) m 5, persistentExcludeTmdbIds st)"
    using viewAndInteract_like [of a env m currentUser rest st] by blast
  have details_dislike: "toLowerCase a = ''d''
      \<longrightarrow> fst (viewAndInteractWithMovieDetails env m currentUser (a # rest) st) = Some Disliked
        \<and> fst (snd (viewAndInteractWithMovieDetails env m currentUser (a # rest) st)) = rest
        \<and> last (journal (snd (snd (viewAndInteractWithMovieDetails env m currentUser (a # rest) st))))
            = (SavedRating (user_id currentUser) m 1, persistentExcludeTmdbIds st)"
    using viewAndInteract_dislike [of a env m currentUser rest st] by blast
  have option2: "searchAndSelectMovie env rest st = (Some (Some found), ratingStr # rest', st1)
       \<and> getTMDBMovieDetails env (tm_id found) (world st1) = (Some d, w2)
       \<and> saveMovie env d w2 = (Some m, w3)
       \<and> parseInt env (trim ratingStr) = Some stars \<and> 1 \<le> stars \<and> stars \<le> 5
      \<longrightarrow> menuCase env currentUser ''2'' rest st =
           (Some (), rest',
            st\<lparr>world := saveUserMovieRating env (user_id currentUser) (movie_id m) (nat stars) w3,
               persistentExcludeTmdbIds := insert (tmdb_id m) (persistentExcludeTmdbIds st),
               journal := journal st @
                 [(SavedRating (user_id currentUser) m (nat stars), persistentExcludeTmdbIds st),
                  (Excluded (tmdb_id m), insert (tmdb_id m) (persistentExcludeTmdbIds st))]\<rparr>)"
    using menuCase_rate [of env rest st found ratingStr rest' st1 d w2 m w3 stars currentUser]
    by blast
  have option3: "searchAndSelectMovie env rest st = (Some (Some found), rest1, st1)
       \<and> getTMDBMovieDetails env (tm_id found) (world st1) = (Some d, w2)
       \<and> saveMovie env d w2 = (Some m, w3)
       \<and> viewAndInteractWithMovieDetails env m currentUser rest1 (st1\<lparr>world := w3\<rparr>)
           = (Some r, rest', st4)
       \<and> (r = Liked \<or> r = Disliked)
      \<longrightarrow> menuCase env currentUser ''3'' rest st =
           (Some (), rest',
            st4\<lparr>persistentExcludeTmdbIds := insert (tmdb_id m) (persistentExcludeTmdbIds st),
                journal := journal st4 @
                  [(Excluded (tmdb_id m), insert (tmdb_id m) (persistentExcludeTmdbIds st))]\<rparr>)"
    using menuCase_details [of env rest st found rest1 st1 d w2 m w3 currentUser r rest' st4]
    by blast
  have option1: "fst (getMovieRecommendationsForUser env currentUser (persistentExcludeTmdbIds st) (world st))
         = m # queue
       \<and> movie_id m \<noteq> 0 \<and> tmdb_id m \<noteq> 0 \<and> tmdb_id m \<notin> persistentExcludeTmdbIds st
       \<and> (toLowerCase a = ''l'' \<or> toLowerCase a = ''d'')
      \<longrightarrow> tmdb_id m
           \<in> persistentExcludeTmdbIds (snd (snd (menuCase env currentUser ''1'' (a # rest) st)))"
    using menuCase_recommend_rated [of env currentUser st m queue a rest] by blast
  have kept: "trim c \<noteq> ''0''
       \<and> menuCase env currentUser (trim c) rest (emit MenuShown st) = (Some returned, rest', st')
      \<longrightarrow> menuLoop env currentUser (c # rest) st = menuLoop env currentUser rest' st'
        \<and> persistentExcludeTmdbIds st'
            \<subseteq> persistentExcludeTmdbIds (snd (menuLoop env currentUser (c # rest) st))"
    using menuLoop_keeps [of c env currentUser rest st returned rest' st'] by blast
  show ?thesis
    using journal_part like dislike view details_like details_dislike option2 option3 option1 kept
      session
    by (intro conjI)
qed


text \<open>The theorem on the session above and on its parts.\<close>

theorem exclusion_set_only_grows_witness:
  "journal (snd (runMovieCLI cinema_env alice cinema_answers cinema_world)) = cinema_journal
   \<and> hd cinema_journal = (SessionStarted, {949})
   \<and> (\<lambda>i. tmdb_id (the (getMovieByOurId cinema_env i cinema_world)))
         ` set (getRatedMovieIdsByUser cinema_env (user_id alice) cinema_world) = {949}
   \<and> cinema_journal ! 5 = (Excluded (tmdb_id inception), insert (tmdb_id inception) {949})
   \<and> cinema_journal ! 12 = (Excluded (tmdb_id alien), insert (tmdb_id alien) {77, 27205, 949})
   \<and> tmdb_id memento \<notin> snd (cinema_journal ! 5)
   \<and> snd (cinema_journal ! 5) \<subseteq> snd (cinema_journal ! 17)
   \<and> snd (last cinema_journal) = {68, 348, 77, 27205, 949}
   \<and> hd (journal (snd (runMovieCLI cinema_env alice []
                         [(7, 3, 4), (7, 1, 5), (7, 2, 1), (7, 4, 4), (7, 5, 5)])))
       = (SessionStarted, {949, 27205, 77, 348, 68})
   \<and> interactionLoop cinema_env alice inception [''L'', ''n''] cinema_start
       = (Some Liked, [''n''],
          \<lparr>world = [(7, 3, 4), (7, 1, 5)], persistentExcludeTmdbIds = {27205, 949},
           journal = [(SavedRating 7 inception 5, {949}), (Excluded 27205, {27205, 949})]\<rparr>)
   \<and> interactionLoop cinema_env alice memento [''v'', ''d'', ''n''] cinema_start
       = (Some Disliked, [''n''],
          \<lparr>world = [(7, 3, 4), (7, 2, 1)], persistentExcludeTmdbIds = {77, 949},
           journal = [(SavedRating 7 memento 1, {949}), (Excluded 77, {77, 949})]\<rparr>)
   \<and> menuCase cinema_env alice ''2'' [''alien'', ''1'', ''4'', ''0''] cinema_start
       = (Some (), [''0''],
          \<lparr>world = [(7, 3, 4), (7, 4, 4)], persistentExcludeTmdbIds = {348, 949},
           journal = [(SavedRating 7 alien 4, {949}), (Excluded 348, {348, 949})]\<rparr>)
   \<and> menuCase cinema_env alice ''3'' [''brazil'', ''1'', ''l'', ''0''] cinema_start
       = (Some (), [''0''],
          \<lparr>world = [(7, 3, 4), (7, 5, 5)], persistentExcludeTmdbIds = {68, 949},
           journal = [(SavedRating 7 brazil 5, {949}), (Excluded 68, {68, 949})]\<rparr>)
   \<and> tmdb_id inception
       \<in> persistentExcludeTmdbIds (snd (snd (menuCase cinema_env alice ''1'' [''l'', ''n''] cinema_start)))
   \<and> {348, 949} \<subseteq> persistentExcludeTmdbIds
        (snd (menuLoop cinema_env alice [''2'', ''alien'', ''1'', ''4'', ''0''] cinema_start))"
proof -
  have j: "journal (snd (runMovieCLI cinema_env alice cinema_answers cinema_world)) = cinema_journal"
    and f: "persistentExcludeTmdbIds (snd (runMovieCLI cinema_env alice cinema_answers cinema_world))
              = {68, 348, 77, 27205, 949}"
    and wf: "world (snd (runMovieCLI cinema_env alice cinema_answers cinema_world))
              = [(7, 3, 4), (7, 1, 5), (7, 2, 1), (7, 4, 4), (7, 5, 5)]"
    by (simp_all add: cinema_run)
  have seed: "set (ratedTmdbIds cinema_env alice cinema_world) = {949}"
    by (simp add: ratedTmdbIds_def cinema_env_def cinema_world_def alice_def
          inception_def memento_def heat_def)
  have rated: "getRatedMovieIdsByUser cinema_env (user_id alice) cinema_world = [3]"
    and stored: "getMovieByOurId cinema_env 3 cinema_world = Some heat"
    by (simp_all add: cinema_env_def cinema_world_def alice_def inception_def memento_def heat_def)
  have next_seed: "set (ratedTmdbIds cinema_env alice
                     [(7, 3, 4), (7, 1, 5), (7, 2, 1), (7, 4, 4), (7, 5, 5)])
                   = {949, 27205, 77, 348, 68}"
    by (simp add: ratedTmdbIds_def cinema_env_def alice_def
          inception_def memento_def heat_def alien_def brazil_def)
  have len: "length cinema_journal = 21"
    by (simp add: cinema_journal_def)
  have e4: "fst (cinema_journal ! 4) = SavedRating 7 inception 5"
    and s4: "snd (cinema_journal ! 4) = {949}"
    and e6: "fst (cinema_journal ! 6) = Recommended memento"
    and e11: "fst (cinema_journal ! 11) = SavedRating 7 alien 4"
    and s11: "snd (cinema_journal ! 11) = {77, 27205, 949}"
    by (simp_all add: cinema_journal_def)
  note whole = exclusion_set_only_grows [where env = cinema_env and currentUser = alice
      and answers = cinema_answers and w = cinema_world and answers' = "[]"]
  note inst = whole [THEN conjunct1, unfolded Let_def j f wf seed next_seed]
  note tl1 = inst [THEN conjunct2]
  note tl2 = tl1 [THEN conjunct2]
  note tl3 = tl2 [THEN conjunct2]
  note tl4 = tl3 [THEN conjunct2]
  note tl5 = tl4 [THEN conjunct2]
  note tl6 = tl5 [THEN conjunct2]
  note tl7 = tl6 [THEN conjunct2]
  note tl8 = tl7 [THEN conjunct2]
  have a: "hd cinema_journal = (SessionStarted, {949})"
    using tl1 [THEN conjunct1] .
  have "\<forall>i \<in> set (getRatedMovieIdsByUser cinema_env (user_id alice) cinema_world).
          getMovieByOurId cinema_env i cinema_world \<noteq> None"
    using rated stored by simp
  from tl3 [THEN conjunct1, THEN mp, OF this]
  have a': "(\<lambda>i. tmdb_id (the (getMovieByOurId cinema_env i cinema_world)))
         ` set (getRatedMovieIdsByUser cinema_env (user_id alice) cinema_world) = {949}"
    by simp
  have "4 < length cinema_journal \<and> fst (cinema_journal ! 4) = SavedRating 7 inception 5"
    using len e4 by simp
  from tl6 [THEN conjunct1, rule_format, OF this]
  have "cinema_journal ! Suc 4
      = (Excluded (tmdb_id inception), insert (tmdb_id inception) (snd (cinema_journal ! 4)))"
    by simp
  then have b: "cinema_journal ! 5 = (Excluded (tmdb_id inception), insert (tmdb_id inception) {949})"
    using s4 by (simp add: eval_nat_numeral)
  have "11 < length cinema_journal \<and> fst (cinema_journal ! 11) = SavedRating 7 alien 4"
    using len e11 by simp
  from tl6 [THEN conjunct1, rule_format, OF this]
  have "cinema_journal ! Suc 11
      = (Excluded (tmdb_id alien), insert (tmdb_id alien) (snd (cinema_journal ! 11)))"
    by simp
  then have b': "cinema_journal ! 12
      = (Excluded (tmdb_id alien), insert (tmdb_id alien) {77, 27205, 949})"
    using s11 by (simp add: eval_nat_numeral)
  have "(5::nat) \<le> 6 \<and> 6 < length cinema_journal \<and> fst (cinema_journal ! 6) = Recommended memento"
    using len e6 by simp
  from tl7 [THEN conjunct1, rule_format, OF this]
  have c: "tmdb_id memento \<notin> snd (cinema_journal ! 5)" .
  have "(5::nat) \<le> 17 \<and> 17 < length cinema_journal" using len by simp
  from tl4 [THEN conjunct1, rule_format, OF this]
  have d: "snd (cinema_journal ! 5) \<subseteq> snd (cinema_journal ! 17)" .
  have e: "snd (last cinema_journal) = {68, 348, 77, 27205, 949}"
    using tl8 [THEN conjunct1] .
  have n: "hd (journal (snd (runMovieCLI cinema_env alice []
                         [(7, 3, 4), (7, 1, 5), (7, 2, 1), (7, 4, 4), (7, 5, 5)])))
       = (SessionStarted, {949, 27205, 77, 348, 68})"
    using tl8 [THEN conjunct2] .
  have g1: "interactionLoop cinema_env alice inception [''L'', ''n''] cinema_start
       = (Some Liked, [''n''],
          \<lparr>world = [(7, 3, 4), (7, 1, 5)], persistentExcludeTmdbIds = {27205, 949},
           journal = [(SavedRating 7 inception 5, {949}), (Excluded 27205, {27205, 949})]\<rparr>)"
    using exclusion_set_only_grows [where env = cinema_env and currentUser = alice
        and a = "''L''" and m = inception and rest = "[''n'']" and st = cinema_start,
        THEN conjunct2, THEN conjunct1]
    by (simp add: cinema_start_def cinema_env_def cinema_world_def alice_def inception_def)
  have v: "viewAndInteractWithMovieDetails cinema_env memento alice [''d'', ''n''] cinema_start
       = (Some Disliked, [''n''],
          \<lparr>world = [(7, 3, 4), (7, 2, 1)], persistentExcludeTmdbIds = {949},
           journal = [(SavedRating 7 memento 1, {949})]\<rparr>)"
    by (simp add: viewAndInteractWithMovieDetails_def cinema_start_def cinema_env_def
          cinema_world_def alice_def memento_def rate_def emit_def Let_def)
  have g2: "interactionLoop cinema_env alice memento [''v'', ''d'', ''n''] cinema_start
       = (Some Disliked, [''n''],
          \<lparr>world = [(7, 3, 4), (7, 2, 1)], persistentExcludeTmdbIds = {77, 949},
           journal = [(SavedRating 7 memento 1, {949}), (Excluded 77, {77, 949})]\<rparr>)"
    using exclusion_set_only_grows [where env = cinema_env and currentUser = alice
        and a = "''v''" and m = memento and rest = "[''d'', ''n'']" and st = cinema_start
        and r = Disliked and rest' = "[''n'']"
        and ?st1.0 = "\<lparr>world = [(7, 3, 4), (7, 2, 1)], persistentExcludeTmdbIds = {949},
           journal = [(SavedRating 7 memento 1, {949})]\<rparr>",
        THEN conjunct2, THEN conjunct2, THEN conjunct2, THEN conjunct1] v
    by (simp add: cinema_start_def memento_def)
  have search2: "searchAndSelectMovie cinema_env [''alien'', ''1'', ''4'', ''0''] cinema_start
       = (Some (Some \<lparr>tm_id = 348, tm_title = ''Alien''\<rparr>), [''4'', ''0''], cinema_start)"
    by (simp add: searchAndSelectMovie_def cinema_start_def cinema_env_def Let_def)
  have g4: "menuCase cinema_env alice ''2'' [''alien'', ''1'', ''4'', ''0''] cinema_start
       = (Some (), [''0''],
          \<lparr>world = [(7, 3, 4), (7, 4, 4)], persistentExcludeTmdbIds = {348, 949},
           journal = [(SavedRating 7 alien 4, {949}), (Excluded 348, {348, 949})]\<rparr>)"
    using exclusion_set_only_grows [where env = cinema_env and currentUser = alice
        and rest = "[''alien'', ''1'', ''4'', ''0'']" and st = cinema_start
        and found = "\<lparr>tm_id = 348, tm_title = ''Alien''\<rparr>" and ratingStr = "''4''"
        and rest' = "[''0'']" and ?st1.0 = cinema_start
        and d = "\<lparr>tm_id = 348, tm_title = ''Alien''\<rparr>" and ?w2.0 = cinema_world
        and m = alien and ?w3.0 = cinema_world and stars = 4,
        THEN conjunct2, THEN conjunct2, THEN conjunct2, THEN conjunct2, THEN conjunct2,
        THEN conjunct2, THEN conjunct1] search2
    by (simp add: cinema_start_def cinema_env_def cinema_world_def alice_def alien_def)
  have search3: "searchAndSelectMovie cinema_env [''brazil'', ''1'', ''l'', ''0''] cinema_start
       = (Some (Some \<lparr>tm_id = 68, tm_title = ''Brazil''\<rparr>), [''l'', ''0''], cinema_start)"
    by (simp add: searchAndSelectMovie_def cinema_start_def cinema_env_def Let_def)
  have v3: "viewAndInteractWithMovieDetails cinema_env brazil alice [''l'', ''0'']
              (cinema_start\<lparr>world := cinema_world\<rparr>)
       = (Some Liked, [''0''],
          \<lparr>world = [(7, 3, 4), (7, 5, 5)], persistentExcludeTmdbIds = {949},
           journal = [(SavedRating 7 brazil 5, {949})]\<rparr>)"
    by (simp add: viewAndInteractWithMovieDetails_def cinema_start_def cinema_env_def
          cinema_world_def alice_def brazil_def alien_def rate_def emit_def Let_def)
  have g5: "menuCase cinema_env alice ''3'' [''brazil'', ''1'', ''l'', ''0''] cinema_start
       = (Some (), [''0''],
          \<lparr>world = [(7, 3, 4), (7, 5, 5)], persistentExcludeTmdbIds = {68, 949},
           journal = [(SavedRating 7 brazil 5, {949}), (Excluded 68, {68, 949})]\<rparr>)"
    using exclusion_set_only_grows [where env = cinema_env and currentUser = alice
        and rest = "[''brazil'', ''1'', ''l'', ''0'']" and st = cinema_start
        and found = "\<lparr>tm_id = 68, tm_title = ''Brazil''\<rparr>" and ?rest1.0 = "[''l'', ''0'']"
        and rest' = "[''0'']" and ?st1.0 = cinema_start
        and d = "\<lparr>tm_id = 68, tm_title = ''Brazil''\<rparr>" and ?w2.0 = cinema_world
        and m = brazil and ?w3.0 = cinema_world and r = Liked
        and ?st4.0 = "\<lparr>world = [(7, 3, 4), (7, 5, 5)], persistentExcludeTmdbIds = {949},
           journal = [(SavedRating 7 brazil 5, {949})]\<rparr>",
        THEN conjunct2, THEN conjunct2, THEN conjunct2, THEN conjunct2, THEN conjunct2,
        THEN conjunct2, THEN conjunct2, THEN conjunct1] search3 v3
    by (simp add: cinema_start_def cinema_env_def cinema_world_def brazil_def)
  have g7: "tmdb_id inception
       \<in> persistentExcludeTmdbIds (snd (snd (menuCase cinema_env alice ''1'' [''l'', ''n''] cinema_start)))"
    using exclusion_set_only_grows [where env = cinema_env and currentUser = alice
        and a = "''l''" and m = inception and rest = "[''n'']" and st = cinema_start
        and queue = "[memento, heat]",
        THEN conjunct2, THEN conjunct2, THEN conjunct2, THEN conjunct2, THEN conjunct2,
        THEN conjunct2, THEN conjunct2, THEN conjunct2, THEN conjunct1]
    by (simp add: cinema_start_def cinema_env_def inception_def)
  have shown: "emit MenuShown cinema_start = cinema_start\<lparr>journal := [(MenuShown, {949})]\<rparr>"
    by (simp add: emit_def cinema_start_def)
  have search2': "searchAndSelectMovie cinema_env [''alien'', ''1'', ''4'', ''0''] (emit MenuShown cinema_start)
       = (Some (Some \<lparr>tm_id = 348, tm_title = ''Alien''\<rparr>), [''4'', ''0''], emit MenuShown cinema_start)"
    by (simp add: searchAndSelectMovie_def cinema_start_def cinema_env_def Let_def emit_def)
  have mc: "menuCase cinema_env alice (trim ''2'') [''alien'', ''1'', ''4'', ''0''] (emit MenuShown cinema_start)
       = (Some (), [''0''],
          \<lparr>world = [(7, 3, 4), (7, 4, 4)], persistentExcludeTmdbIds = {348, 949},
           journal = [(MenuShown, {949}), (SavedRating 7 alien 4, {949}), (Excluded 348, {348, 949})]\<rparr>)"
    using exclusion_set_only_grows [where env = cinema_env and currentUser = alice
        and rest = "[''alien'', ''1'', ''4'', ''0'']" and st = "emit MenuShown cinema_start"
        and found = "\<lparr>tm_id = 348, tm_title = ''Alien''\<rparr>" and ratingStr = "''4''"
        and rest' = "[''0'']" and ?st1.0 = "emit MenuShown cinema_start"
        and d = "\<lparr>tm_id = 348, tm_title = ''Alien''\<rparr>" and ?w2.0 = cinema_world
        and m = alien and ?w3.0 = cinema_world and stars = 4,
        THEN conjunct2, THEN conjunct2, THEN conjunct2, THEN conjunct2, THEN conjunct2,
        THEN conjunct2, THEN conjunct1] search2'
    by (simp add: cinema_start_def cinema_env_def cinema_world_def alice_def alien_def emit_def)
  have g8: "{348, 949} \<subseteq> persistentExcludeTmdbIds
        (snd (menuLoop cinema_env alice [''2'', ''alien'', ''1'', ''4'', ''0''] cinema_start))"
    using exclusion_set_only_grows [where env = cinema_env and currentUser = alice
        and c = "''2''" and rest = "[''alien'', ''1'', ''4'', ''0'']" and st = cinema_start
        and returned = "()" and rest' = "[''0'']"
        and st' = "\<lparr>world = [(7, 3, 4), (7, 4, 4)], persistentExcludeTmdbIds = {348, 949},
           journal = [(MenuShown, {949}), (SavedRating 7 alien 4, {949}), (Excluded 348, {348, 949})]\<rparr>",
        THEN conjunct2, THEN conjunct2, THEN conjunct2, THEN conjunct2, THEN conjunct2,
        THEN conjunct2, THEN conjunct2, THEN conjunct2, THEN conjunct2, THEN conjunct1] mc
    by simp
  from j a a' b b' c d e n g1 g2 g4 g5 g7 g8 show ?thesis by (intro conjI)
qed

subsection \<open>Skipping and empty results\<close>

lemma menuRecommend_skip_single:
  assumes "movie_id m \<noteq> 0" "tmdb_id m \<noteq> 0" "tmdb_id m \<notin> persistentExcludeTmdbIds st"
    and "fst (getMovieRecommendationsForUser env u (persistentExcludeTmdbIds st) (world st)) = [m]"
  shows "menuRecommend env u (''n'' # answers) st
           = (Some (), answers,
              emit FinishedList (emit (Recommended m) (emit (RecommendationsFetched [m])
                (st\<lparr>world := snd (getMovieRecommendationsForUser env u
                                     (persistentExcludeTmdbIds st) (world st))\<rparr>))))"
proof -
  obtain recs w1 where
    f: "getMovieRecommendationsForUser env u (persistentExcludeTmdbIds st) (world st) = (recs, w1)"
    by (cases "getMovieRecommendationsForUser env u (persistentExcludeTmdbIds st) (world st)") auto
  with assms(4) have "recs = [m]" by simp
  with f assms(1-3) show ?thesis
    by (simp add: menuRecommend_def presentMovieRecommendationsOneByOne_def Let_def)
qed

text \<open>
  C10. In the presentation loop the answer \<open>n\<close> returns \<open>Skipped\<close> and leaves the state, and
  so the exclusion set, as it is. Whatever the answers, the loop over one movie adds the
  movie's remote id to the set when it ends in a like or a dislike (given directly or after
  the details) and leaves the set unchanged otherwise. So a skipped movie can come again:
  when the recommender proposes the same valid, not excluded movie each time, asking twice
  and skipping twice presents it twice in the same session.
\<close>

theorem skipping_leaves_exclusion_set:
  "(toLowerCase a = ''n''
      \<longrightarrow> interactionLoop env currentUser m (a # answers) st = (Some Skipped, answers, st))
   \<and> (interactionLoop env currentUser m answers st = (r, rest, st')
      \<longrightarrow> persistentExcludeTmdbIds st'
           = (if r = Some Liked \<or> r = Some Disliked
              then insert (tmdb_id m) (persistentExcludeTmdbIds st)
              else persistentExcludeTmdbIds st))
   \<and> (movie_id m \<noteq> 0 \<and> tmdb_id m \<noteq> 0 \<and> tmdb_id m \<notin> persistentExcludeTmdbIds st
       \<and> (\<forall>w. fst (getMovieRecommendationsForUser env currentUser (persistentExcludeTmdbIds st) w) = [m])
      \<longrightarrow> map fst (drop (length (journal st))
                    (journal (snd (menuLoop env currentUser [''1'', ''n'', ''1'', ''n''] st))))
            = [MenuShown, RecommendationsFetched [m], Recommended m, FinishedList,
               MenuShown, RecommendationsFetched [m], Recommended m, FinishedList, MenuShown]
          \<and> persistentExcludeTmdbIds (snd (menuLoop env currentUser [''1'', ''n'', ''1'', ''n''] st))
             = persistentExcludeTmdbIds st)"
proof (intro conjI impI)
  assume "toLowerCase a = ''n''"
  then show "interactionLoop env currentUser m (a # answers) st = (Some Skipped, answers, st)"
    by (simp add: Let_def)
next
  assume "interactionLoop env currentUser m answers st = (r, rest, st')"
  from interactionLoop_excl [OF this]
  show "persistentExcludeTmdbIds st'
           = (if r = Some Liked \<or> r = Some Disliked
              then insert (tmdb_id m) (persistentExcludeTmdbIds st)
              else persistentExcludeTmdbIds st)" .
next
  assume a: "movie_id m \<noteq> 0 \<and> tmdb_id m \<noteq> 0 \<and> tmdb_id m \<notin> persistentExcludeTmdbIds st
       \<and> (\<forall>w. fst (getMovieRecommendationsForUser env currentUser (persistentExcludeTmdbIds st) w) = [m])"
  let ?fetch = "\<lambda>s. snd (getMovieRecommendationsForUser env currentUser
                          (persistentExcludeTmdbIds st) (world s))"
  let ?pass = "\<lambda>s. emit FinishedList (emit (Recommended m) (emit (RecommendationsFetched [m])
                     ((emit MenuShown s)\<lparr>world := ?fetch s\<rparr>)))"
  have pass: "\<And>s rest. persistentExcludeTmdbIds s = persistentExcludeTmdbIds st
     \<Longrightarrow> menuCase env currentUser ''1'' (''n'' # rest) (emit MenuShown s) = (Some (), rest, ?pass s)"
    using a menuRecommend_skip_single [of m "emit MenuShown _" env currentUser]
    by (simp add: menuCase_def)
  have e1: "persistentExcludeTmdbIds (?pass st) = persistentExcludeTmdbIds st"
    by simp
  have run: "menuLoop env currentUser [''1'', ''n'', ''1'', ''n''] st
               = (False, emit MenuShown (?pass (?pass st)))"
    using pass [of st "[''1'', ''n'']"] pass [OF e1, of "[]"] by simp
  show "map fst (drop (length (journal st))
                    (journal (snd (menuLoop env currentUser [''1'', ''n'', ''1'', ''n''] st))))
            = [MenuShown, RecommendationsFetched [m], Recommended m, FinishedList,
               MenuShown, RecommendationsFetched [m], Recommended m, FinishedList, MenuShown]"
    unfolding run by simp
  show "persistentExcludeTmdbIds (snd (menuLoop env currentUser [''1'', ''n'', ''1'', ''n''] st))
             = persistentExcludeTmdbIds st"
    unfolding run by simp
qed

text \<open>
  C5. Given an empty list, \<open>presentMovieRecommendationsOneByOne\<close> reports that no
  recommendations are available and returns, reading no answer and changing nothing else.
  So when the recommender yields the empty list, for whatever reason, option 1 of the menu
  reports it and the menu goes on with the next choice.
\<close>

theorem no_recommendations_reported:
  "presentMovieRecommendationsOneByOne env currentUser [] answers st
     = (Some (), answers, emit NoRecommendationsAvailable st)
   \<and> (fst (getMovieRecommendationsForUser env currentUser (persistentExcludeTmdbIds st) (world st)) = []
      \<longrightarrow> menuRecommend env currentUser answers st
           = (Some (), answers,
              emit NoRecommendationsAvailable (emit (RecommendationsFetched [])
                (st\<lparr>world := snd (getMovieRecommendationsForUser env currentUser
                                     (persistentExcludeTmdbIds st) (world st))\<rparr>)))
          \<and> menuLoop env currentUser (''1'' # answers) st
             = menuLoop env currentUser answers
                 (emit NoRecommendationsAvailable (emit (RecommendationsFetched [])
                    ((emit MenuShown st)\<lparr>world := snd (getMovieRecommendationsForUser env currentUser
                                     (persistentExcludeTmdbIds st) (world st))\<rparr>))))"
proof (intro conjI impI)
  show "presentMovieRecommendationsOneByOne env currentUser [] answers st
     = (Some (), answers, emit NoRecommendationsAvailable st)"
    by (simp add: presentMovieRecommendationsOneByOne_def)
next
  assume e: "fst (getMovieRecommendationsForUser env currentUser (persistentExcludeTmdbIds st) (world st)) = []"
  have rec: "\<And>s. persistentExcludeTmdbIds s = persistentExcludeTmdbIds st \<Longrightarrow> world s = world st
    \<Longrightarrow> menuRecommend env currentUser answers s
           = (Some (), answers,
              emit NoRecommendationsAvailable (emit (RecommendationsFetched [])
                (s\<lparr>world := snd (getMovieRecommendationsForUser env currentUser
                                     (persistentExcludeTmdbIds st) (world st))\<rparr>)))"
  proof -
    fix s :: "'a cli_state"
    assume s: "persistentExcludeTmdbIds s = persistentExcludeTmdbIds st" "world s = world st"
    obtain recs w1 where
      f: "getMovieRecommendationsForUser env currentUser (persistentExcludeTmdbIds st) (world st)
            = (recs, w1)"
      by (cases "getMovieRecommendationsForUser env currentUser (persistentExcludeTmdbIds st) (world st)")
         auto
    with e have "recs = []" by simp
    with f s show "menuRecommend env currentUser answers s
           = (Some (), answers,
              emit NoRecommendationsAvailable (emit (RecommendationsFetched [])
                (s\<lparr>world := snd (getMovieRecommendationsForUser env currentUser
                                     (persistentExcludeTmdbIds st) (world st))\<rparr>)))"
      by (simp add: menuRecommend_def presentMovieRecommendationsOneByOne_def)
  qed
  from rec [of st]
  show "menuRecommend env currentUser answers st
           = (Some (), answers,
              emit NoRecommendationsAvailable (emit (RecommendationsFetched [])
                (st\<lparr>world := snd (getMovieRecommendationsForUser env currentUser
                                     (persistentExcludeTmdbIds st) (world st))\<rparr>)))"
    by simp
  from rec [of "emit MenuShown st"]
  show "menuLoop env currentUser (''1'' # answers) st
             = menuLoop env currentUser answers
                 (emit NoRecommendationsAvailable (emit (RecommendationsFetched [])
                    ((emit MenuShown st)\<lparr>world := snd (getMovieRecommendationsForUser env currentUser
                                     (persistentExcludeTmdbIds st) (world st))\<rparr>)))"
    by (simp add: menuCase_def emit_def)
qed

text \<open>The theorem on a session that asks for recommendations and leaves.\<close>

theorem no_recommendations_reported_witness:
  "menuRecommend outage_env alice [''0''] fresh_state
     = (Some (), [''0''],
        fresh_state\<lparr>journal := [(RecommendationsFetched [], {949}), (NoRecommendationsAvailable, {949})]\<rparr>)
   \<and> menuLoop outage_env alice [''1'', ''0''] fresh_state
     = (True, fresh_state\<lparr>journal := [(MenuShown, {949}), (RecommendationsFetched [], {949}),
                                       (NoRecommendationsAvailable, {949}), (MenuShown, {949}),
                                       (SessionEnded, {949})]\<rparr>)"
proof -
  have e: "fst (getMovieRecommendationsForUser outage_env alice
                  (persistentExcludeTmdbIds fresh_state) (world fresh_state)) = []"
    by (simp add: outage_env_def)
  from no_recommendations_reported [of outage_env alice "[''0'']" fresh_state] e
  show ?thesis
    by (simp add: emit_def fresh_state_def)
qed

text \<open>The theorem on Memento: skipped with \<open>N\<close>, liked with \<open>l\<close>, presented twice.\<close>

theorem skipping_leaves_exclusion_set_witness:
  "interactionLoop encore_env alice memento [''N'', ''l''] fresh_state
     = (Some Skipped, [''l''], fresh_state)
   \<and> persistentExcludeTmdbIds (snd (snd (interactionLoop encore_env alice memento [''l''] fresh_state)))
     = {77, 949}
   \<and> map fst (journal (snd (menuLoop encore_env alice [''1'', ''n'', ''1'', ''n''] fresh_state)))
     = [MenuShown, RecommendationsFetched [memento], Recommended memento, FinishedList,
        MenuShown, RecommendationsFetched [memento], Recommended memento, FinishedList, MenuShown]
   \<and> persistentExcludeTmdbIds (snd (menuLoop encore_env alice [''1'', ''n'', ''1'', ''n''] fresh_state))
     = {949}"
proof -
  have n: "toLowerCase ''N'' = ''n''"
    by (simp add: toLowerCase_def lower_char_def)
  have liked: "interactionLoop encore_env alice memento [''l''] fresh_state
     = (Some Liked, [], exclude (tmdb_id memento) (rate encore_env (user_id alice) memento 5 fresh_state))"
    by (simp add: Let_def)
  have valid: "movie_id memento \<noteq> 0 \<and> tmdb_id memento \<noteq> 0
       \<and> tmdb_id memento \<notin> persistentExcludeTmdbIds fresh_state
       \<and> (\<forall>w. fst (getMovieRecommendationsForUser encore_env alice
                      (persistentExcludeTmdbIds fresh_state) w) = [memento])"
    by (simp add: memento_def fresh_state_def encore_env_def)
  from skipping_leaves_exclusion_set [of "''N''" encore_env alice memento "[''l'']" fresh_state
      "Some Liked" "[]" "exclude (tmdb_id memento) (rate encore_env (user_id alice) memento 5 fresh_state)"]
    n liked valid
  show ?thesis
    by (simp add: fresh_state_def memento_def)
qed

subsection \<open>One presentation shows a remote id at most once\<close>

lemma recommended_ids_append [simp]:
  "recommended_ids (xs @ ys) = recommended_ids xs @ recommended_ids ys"
  by (simp add: recommended_ids_def List.map_filter_def)

lemma recommended_ids_Nil [simp]: "recommended_ids [] = []"
  by (simp add: recommended_ids_def List.map_filter_def)

lemma recommended_ids_Cons [simp]:
  "recommended_ids ((e, P) # j)
     = (case e of Recommended m \<Rightarrow> [tmdb_id m] | _ \<Rightarrow> []) @ recommended_ids j"
  by (cases e) (simp_all add: recommended_ids_def List.map_filter_def)

lemma detailsActionLoop_recommended:
  "detailsActionLoop env u m answers st = (r, rest, st')
   \<Longrightarrow> recommended_ids (journal st') = recommended_ids (journal st)"
  by (induction env u m answers st rule: detailsActionLoop.induct)
     (auto simp: Let_def split: if_splits)

lemma viewAndInteract_recommended:
  "viewAndInteractWithMovieDetails env m u answers st = (r, rest, st')
   \<Longrightarrow> recommended_ids (journal st') = recommended_ids (journal st)"
  by (auto simp: viewAndInteractWithMovieDetails_def Let_def split: prod.splits
           dest: detailsActionLoop_recommended)

lemma interactionLoop_recommended:
  "interactionLoop env u m answers st = (r, rest, st')
   \<Longrightarrow> recommended_ids (journal st') = recommended_ids (journal st)"
  by (induction env u m answers st rule: interactionLoop.induct)
     (auto simp: Let_def split: if_splits prod.splits option.splits
           dest: viewAndInteract_recommended)

lemma presentLoop_shows_once:
  "presentLoop env u queue shown answers st = (r, rest, st')
   \<Longrightarrow> \<exists>new. recommended_ids (journal st') = recommended_ids (journal st) @ new
            \<and> distinct new \<and> set new \<inter> shown = {}"
proof (induction env u queue shown answers st rule: presentLoop.induct)
  case (1 env currentUser shown answers st)
  then show ?case by auto
next
  case (2 env currentUser m queue shown answers st)
  show ?case
  proof (cases "movie_id m = 0 \<or> tmdb_id m = 0")
    case True
    with 2 show ?thesis by auto
  next
    case valid: False
    show ?thesis
    proof (cases "tmdb_id m \<in> persistentExcludeTmdbIds st \<or> tmdb_id m \<in> shown")
      case True
      with valid 2 show ?thesis by auto
    next
      case False
      obtain ir rest1 st1 where
        il: "interactionLoop env currentUser m answers (emit (Recommended m) st) = (ir, rest1, st1)"
        by (cases "interactionLoop env currentUser m answers (emit (Recommended m) st)") auto
      have j1: "recommended_ids (journal st1) = recommended_ids (journal st) @ [tmdb_id m]"
        using interactionLoop_recommended [OF il] by simp
      show ?thesis
      proof (cases ir)
        case None
        with valid False il "2.prems" j1 show ?thesis by auto
      next
        case (Some i)
        show ?thesis
        proof (cases "i = Quit")
          case True
          with valid False il Some "2.prems" j1 show ?thesis by auto
        next
          case notquit: False
          have "presentLoop env currentUser queue (insert (tmdb_id m) shown) rest1 st1
                  = (r, rest, st')"
            using valid False il Some notquit "2.prems" by auto
          from "2.IH"(3) [OF valid False il [symmetric] Some refl notquit this]
          obtain new where new: "recommended_ids (journal st') = recommended_ids (journal st1) @ new"
            "distinct new" "set new \<inter> insert (tmdb_id m) shown = {}"
            by blast
          have "recommended_ids (journal st') = recommended_ids (journal st) @ (tmdb_id m # new)"
            using new(1) j1 by simp
          moreover have "distinct (tmdb_id m # new)" using new(2,3) by auto
          moreover have "set (tmdb_id m # new) \<inter> shown = {}" using new(3) False by auto
          ultimately show ?thesis by blast
        qed
      qed
    qed
  qed
qed

lemma presentation_shows_each_id_once:
  assumes "presentMovieRecommendationsOneByOne env u recs answers st = (r, rest, st')"
  shows "\<exists>new. recommended_ids (journal st') = recommended_ids (journal st) @ new \<and> distinct new"
proof (cases "length recs = 0")
  case True
  with assms show ?thesis
    by (auto simp: presentMovieRecommendationsOneByOne_def)
next
  case False
  with assms have "presentLoop env u recs {} answers st = (r, rest, st')"
    by (simp add: presentMovieRecommendationsOneByOne_def)
  from presentLoop_shows_once [OF this] show ?thesis by blast
qed

end
